theory Spec2Isabelle
  imports Main "HOL-Library.Monad_Syntax"
begin

section \<open>Data model\<close>

text \<open>
  The front end of the compiler works on three linked structures: symbols, type
  descriptors and AST nodes. Symbols are referred to by pointer (a type names the symbol
  it is based on, a node names the symbol it is bound to, and a record's field may point
  back to the record), so symbols live in a store indexed by address, and a pointer to a
  symbol is an address or null (\<open>None\<close>). Every non-null symbol pointer is taken
  to be valid: the symbol table outlives the AST.

  The headers (\<^verbatim>\<open>type.h\<close>, \<^verbatim>\<open>sym.h\<close>, \<^verbatim>\<open>ast.h\<close>) are not part of the
  sources at hand; the shapes below follow sections 3.3 to 3.5 of the specification and
  the fields the source reads.
\<close>

datatype symTag = symScope | symType | symStruct | symUnion | symEnum | symId | symParam

datatype type =
    typeBasic nat
  | typePtr type
  | typeArray type int
  | typeFunction type int
  | typeInvalid

record sym =
  ident :: string
  tag :: symTag
  dt :: "type option"
  children :: "nat list"

type_synonym symtab = "nat \<Rightarrow> sym"

datatype astTag =
    astModule | astFnImpl | astDecl | astDeclStruct | astStruct | astUnion
  | astCode | astBranch | astLoop | astIter | astReturn | astBreak
  | astBOP | astUOP | astTOP | astIndex | astCall | astLiteral
  | astEmpty | astInvalid

datatype literalTag =
    literalUndefined | literalInt | literalBool | literalIdent | literalStr
  | literalArray | literalInit

record location =
  line :: int
  lineChar :: int

text \<open>
  The fields of a node that are not links to other nodes. \<open>ndt\<close> is the node's
  \<^verbatim>\<open>dt\<close> (null until the analyzer fills it), \<open>symbol\<close> the weak reference to a symbol.
\<close>

record astInfo =
  cls :: astTag
  litClass :: literalTag
  opr :: string
  literal :: string
  symbol :: "nat option"
  ndt :: "type option"
  loc :: location

text \<open>
  A node with its \<^verbatim>\<open>l\<close> and \<^verbatim>\<open>r\<close> slots (null when absent) and its chain of
  children (\<^verbatim>\<open>firstChild\<close>, then \<^verbatim>\<open>nextSibling\<close>) as a list. The counter
  \<^verbatim>\<open>Node->children\<close> is the length of that list.
\<close>

datatype ast = Ast astInfo "ast option" "ast option" "ast list"

fun info :: "ast \<Rightarrow> astInfo" where
  "info (Ast i l r cs) = i"

fun firstChild :: "ast \<Rightarrow> ast option" where
  "firstChild (Ast i l r []) = None"
| "firstChild (Ast i l r (c # cs)) = Some c"

definition childCount :: "ast list \<Rightarrow> int" where
  "childCount cs = int (length cs)"

datatype builtin = builtinVoid | builtinBool | builtinChar | builtinInt

text \<open>
  The analyzer's context. \<open>stdout\<close> is not a field of the C structure: it is the
  standard output, one entry per diagnostic written, in order. \<open>returnType\<close> is
  \<open>None\<close> when the pointer is null or was never set.
\<close>

record analyzerCtx =
  types :: "builtin \<Rightarrow> nat"
  errors :: int
  warnings :: int
  returnType :: "type option"
  stdout :: "string list"

text \<open>
  What the analyzer reads and never changes: the symbol store, and the three functions it
  calls whose sources are not at hand, taken as parameters: the rendering of a type in a
  diagnostic (\<^verbatim>\<open>typeToStr\<close>) and the analysis of declarations
  (\<^verbatim>\<open>analyzerDecl\<close>, \<^verbatim>\<open>analyzerDeclStruct\<close> of \<^verbatim>\<open>analyzer-decl.c\<close>), which
  return the context and the node they were given, both possibly changed, or crash.
\<close>

record env =
  symtab :: symtab
  typeToStr :: "type \<Rightarrow> string"
  analyzerDecl :: "analyzerCtx \<Rightarrow> ast \<Rightarrow> (analyzerCtx \<times> ast) option"
  analyzerDeclStruct :: "analyzerCtx \<Rightarrow> ast \<Rightarrow> (analyzerCtx \<times> ast) option"

section \<open>Type algebra\<close>

text \<open>
  Modelled from the spec: \<^verbatim>\<open>type.c\<close> is missing. The predicates follow the matrix of
  section 4.2.2 and the list of section 3.4, under which every predicate answers true
  for \<open>Invalid\<close>; the source's comment in \<^verbatim>\<open>analyzerCommaBOP\<close> says the same of
  \<^verbatim>\<open>typeIsVoid\<close>. The built-in scalars are the symbols of kind \<open>Type\<close> named
  \<open>int\<close>, \<open>char\<close>, \<open>bool\<close> and \<open>void\<close>.
\<close>

definition typeIsInvalid :: "type \<Rightarrow> bool" where
  "typeIsInvalid DT = (DT = typeInvalid)"

definition symIsNumeric :: "sym \<Rightarrow> bool" where
  "symIsNumeric s = (tag s = symType \<and> ident s \<in> {''int'', ''char'', ''bool''})"

definition symIsVoid :: "sym \<Rightarrow> bool" where
  "symIsVoid s = (tag s = symType \<and> ident s = ''void'')"

fun typeIsBasic :: "type \<Rightarrow> bool" where
  "typeIsBasic (typeBasic s) = True"
| "typeIsBasic typeInvalid = True"
| "typeIsBasic _ = False"

fun typeIsPtr :: "type \<Rightarrow> bool" where
  "typeIsPtr (typePtr b) = True"
| "typeIsPtr typeInvalid = True"
| "typeIsPtr _ = False"

fun typeIsArray :: "type \<Rightarrow> bool" where
  "typeIsArray (typeArray b n) = True"
| "typeIsArray typeInvalid = True"
| "typeIsArray _ = False"

fun typeIsVoid :: "symtab \<Rightarrow> type \<Rightarrow> bool" where
  "typeIsVoid S (typeBasic s) = symIsVoid (S s)"
| "typeIsVoid S typeInvalid = True"
| "typeIsVoid S _ = False"

fun typeIsRecord :: "symtab \<Rightarrow> type \<Rightarrow> bool" where
  "typeIsRecord S (typeBasic s) = (tag (S s) = symStruct \<or> tag (S s) = symUnion)"
| "typeIsRecord S typeInvalid = True"
| "typeIsRecord S _ = False"

fun typeIsCallable :: "type \<Rightarrow> bool" where
  "typeIsCallable (typeFunction ret n) = True"
| "typeIsCallable (typePtr (typeFunction ret n)) = True"
| "typeIsCallable typeInvalid = True"
| "typeIsCallable _ = False"

fun typeIsAssignment :: "symtab \<Rightarrow> type \<Rightarrow> bool" where
  "typeIsAssignment S (typeFunction ret n) = False"
| "typeIsAssignment S (typeBasic s) = (\<not> symIsVoid (S s))"
| "typeIsAssignment S _ = True"

fun typeIsNumeric :: "symtab \<Rightarrow> type \<Rightarrow> bool" where
  "typeIsNumeric S (typeBasic s) = symIsNumeric (S s)"
| "typeIsNumeric S typeInvalid = True"
| "typeIsNumeric S _ = False"

fun typeIsOrdinal :: "symtab \<Rightarrow> type \<Rightarrow> bool" where
  "typeIsOrdinal S (typePtr b) = True"
| "typeIsOrdinal S DT = typeIsNumeric S DT"

definition typeIsEquality :: "symtab \<Rightarrow> type \<Rightarrow> bool" where
  "typeIsEquality S DT = (typeIsOrdinal S DT \<or> typeIsPtr DT)"

definition typeIsCondition :: "symtab \<Rightarrow> type \<Rightarrow> bool" where
  "typeIsCondition S DT = typeIsEquality S DT"

text \<open>
  Modelled from the spec: \<^verbatim>\<open>typeIsCompatible\<close> is missing. Section 4.2.1: an
  \<open>Invalid\<close> operand is compatible with everything; two basic types when they name
  the same symbol or are both numeric; two pointers when their bases are compatible or
  one base is \<open>void\<close>; an array with a pointer (or an array) of compatible base, lengths
  not compared; nothing else.
\<close>

fun typeIsCompatible :: "symtab \<Rightarrow> type \<Rightarrow> type \<Rightarrow> bool" where
  "typeIsCompatible S typeInvalid R = True"
| "typeIsCompatible S L typeInvalid = True"
| "typeIsCompatible S (typeBasic a) (typeBasic b) =
     (a = b \<or> (symIsNumeric (S a) \<and> symIsNumeric (S b)))"
| "typeIsCompatible S (typePtr a) (typePtr b) =
     (typeIsCompatible S a b \<or> typeIsVoid S a \<or> typeIsVoid S b)"
| "typeIsCompatible S (typeArray a n) (typePtr b) = typeIsCompatible S a b"
| "typeIsCompatible S (typePtr a) (typeArray b n) = typeIsCompatible S a b"
| "typeIsCompatible S (typeArray a n) (typeArray b m) = typeIsCompatible S a b"
| "typeIsCompatible S L R = False"

text \<open>
  Modelled from the spec: the derivations of \<^verbatim>\<open>type.c\<close> are missing. Sections 3.4 and
  4.2.3. Type descriptors are values here, so a deep clone of a type is the type itself.
  \<open>typeDeriveReturn\<close> unwraps one pointer; the spec says nothing of what it gives for
  a type that is not callable, and \<open>Invalid\<close>, the type produced after an error, is
  taken. \<open>typeDeriveFromTwo\<close> and \<open>typeDeriveUnified\<close> give the pointer if either
  operand is one, else the operand of wider rank (\<open>int\<close> over \<open>char\<close> over
  \<open>bool\<close>).
\<close>

definition typeCreateInvalid :: type where
  "typeCreateInvalid = typeInvalid"

definition typeCreateBasic :: "nat \<Rightarrow> type" where
  "typeCreateBasic s = typeBasic s"

definition typeDeepDuplicate :: "type \<Rightarrow> type" where
  "typeDeepDuplicate DT = DT"

definition typeDeriveFrom :: "type \<Rightarrow> type" where
  "typeDeriveFrom DT = DT"

definition typeDerivePtr :: "type \<Rightarrow> type" where
  "typeDerivePtr DT = typePtr DT"

definition typeDeriveArray :: "type \<Rightarrow> int \<Rightarrow> type" where
  "typeDeriveArray DT n = typeArray DT n"

fun typeDeriveBase :: "type \<Rightarrow> type" where
  "typeDeriveBase (typePtr b) = b"
| "typeDeriveBase (typeArray b n) = b"
| "typeDeriveBase _ = typeInvalid"

fun typeDeriveReturn :: "type \<Rightarrow> type" where
  "typeDeriveReturn (typeFunction ret n) = ret"
| "typeDeriveReturn (typePtr (typeFunction ret n)) = ret"
| "typeDeriveReturn _ = typeInvalid"

fun typeRank :: "symtab \<Rightarrow> type \<Rightarrow> nat" where
  "typeRank S (typeBasic s) =
     (if tag (S s) \<noteq> symType then 0
      else if ident (S s) = ''int'' then 3
      else if ident (S s) = ''char'' then 2
      else if ident (S s) = ''bool'' then 1
      else 0)"
| "typeRank S _ = 0"

fun isPtrType :: "type \<Rightarrow> bool" where
  "isPtrType (typePtr b) = True"
| "isPtrType _ = False"

definition typeDeriveFromTwo :: "symtab \<Rightarrow> type \<Rightarrow> type \<Rightarrow> type" where
  "typeDeriveFromTwo S L R =
     (if isPtrType L then L
      else if isPtrType R then R
      else if typeRank S L < typeRank S R then R
      else L)"

definition typeDeriveUnified :: "symtab \<Rightarrow> type \<Rightarrow> type \<Rightarrow> type" where
  "typeDeriveUnified S L R = typeDeriveFromTwo S L R"

text \<open>
  The fields of a type descriptor the analyzer reads directly. A descriptor that has no
  base holds a null pointer there; \<^verbatim>\<open>params\<close> is read only from a function type.
\<close>

fun typeBase :: "type \<Rightarrow> type option" where
  "typeBase (typePtr b) = Some b"
| "typeBase (typeArray b n) = Some b"
| "typeBase _ = None"

fun typeParams :: "type \<Rightarrow> int option" where
  "typeParams (typeFunction ret n) = Some n"
| "typeParams _ = None"

fun typeReturnType :: "type \<Rightarrow> type option" where
  "typeReturnType (typeFunction ret n) = Some ret"
| "typeReturnType _ = None"

fun typeBasicSym :: "type \<Rightarrow> nat option" where
  "typeBasicSym (typeBasic s) = Some s"
| "typeBasicSym _ = None"

text \<open>
  Modelled from the spec: \<^verbatim>\<open>symChild\<close> (in \<^verbatim>\<open>sym.c\<close>) is missing. Section 4.3.2:
  the field is looked up among the children of the record's symbol, by name; the first
  child of that name is the result, null when there is none.
\<close>

fun symChildIn :: "symtab \<Rightarrow> nat list \<Rightarrow> string \<Rightarrow> nat option" where
  "symChildIn S [] Look = None"
| "symChildIn S (c # cs) Look = (if ident (S c) = Look then Some c else symChildIn S cs Look)"

definition symChild :: "symtab \<Rightarrow> nat \<Rightarrow> string \<Rightarrow> nat option" where
  "symChild S Scope Look = symChildIn S (children (S Scope)) Look"

section \<open>Diagnostics of the analyzer\<close>

text \<open>The rendering of \<^verbatim>\<open>%d\<close>.\<close>

fun showNat :: "nat \<Rightarrow> string" where
  "showNat n =
     (if n < 10 then [''0123456789'' ! n]
      else showNat (n div 10) @ [''0123456789'' ! (n mod 10)])"

definition showInt :: "int \<Rightarrow> string" where
  "showInt k = (if k < 0 then ''-'' @ showNat (nat (- k)) else showNat (nat k))"

definition errorPrefix :: "location \<Rightarrow> string" where
  "errorPrefix p = ''error('' @ showInt (line p) @ '':'' @ showInt (lineChar p) @ ''): ''"

text \<open>
  \<^verbatim>\<open>analyzerError\<close> prints the prefix, the formatted message and a newline, then
  counts the error. The node is a pointer: reading the location of a null node is a
  crash, and so is incrementing the counter past the largest \<^verbatim>\<open>int\<close>; both are
  \<open>None\<close>. Only the node's own fields are read, so the model takes those.
\<close>

definition analyzerError :: "analyzerCtx \<Rightarrow> astInfo option \<Rightarrow> string \<Rightarrow> analyzerCtx option" where
  "analyzerError ctx Node msg =
     (case Node of
        None \<Rightarrow> None
      | Some i \<Rightarrow>
          if errors ctx = 2147483647 then None
          else Some (ctx\<lparr>stdout := stdout ctx @ [errorPrefix (loc i) @ msg @ [CHR 0x0A]],
                          errors := errors ctx + 1\<rparr>))"

definition analyzerErrorExpected ::
  "env \<Rightarrow> analyzerCtx \<Rightarrow> astInfo option \<Rightarrow> string \<Rightarrow> string \<Rightarrow> type \<Rightarrow> analyzerCtx option" where
  "analyzerErrorExpected E ctx Node wher Expected Found =
     analyzerError ctx Node (wher @ '' expected '' @ Expected @ '', found '' @ typeToStr E Found)"

definition analyzerErrorExpectedType ::
  "env \<Rightarrow> analyzerCtx \<Rightarrow> astInfo option \<Rightarrow> string \<Rightarrow> type \<Rightarrow> type \<Rightarrow> analyzerCtx option" where
  "analyzerErrorExpectedType E ctx Node wher Expected Found =
     analyzerErrorExpected E ctx Node wher (typeToStr E Expected) Found"

definition analyzerErrorOp ::
  "env \<Rightarrow> analyzerCtx \<Rightarrow> string \<Rightarrow> string \<Rightarrow> astInfo option \<Rightarrow> type \<Rightarrow> analyzerCtx option" where
  "analyzerErrorOp E ctx o' desc Operand DT =
     analyzerError ctx Operand (o' @ '' requires '' @ desc @ '', found '' @ typeToStr E DT)"

definition analyzerErrorMismatch ::
  "env \<Rightarrow> analyzerCtx \<Rightarrow> astInfo option \<Rightarrow> string \<Rightarrow> type \<Rightarrow> type \<Rightarrow> analyzerCtx option" where
  "analyzerErrorMismatch E ctx Node o' L R =
     analyzerError ctx Node
       (''type mismatch between '' @ typeToStr E L @ '' and '' @ typeToStr E R @ '' for '' @ o')"

definition analyzerErrorDegree ::
  "analyzerCtx \<Rightarrow> astInfo option \<Rightarrow> string \<Rightarrow> int \<Rightarrow> int \<Rightarrow> string \<Rightarrow> analyzerCtx option" where
  "analyzerErrorDegree ctx Node thing expected found wher =
     analyzerError ctx Node
       (showInt expected @ '' '' @ thing @ '' expected, '' @ showInt found @ '' given to '' @ wher)"

definition analyzerErrorParamMismatch ::
  "env \<Rightarrow> analyzerCtx \<Rightarrow> astInfo option \<Rightarrow> int \<Rightarrow> type \<Rightarrow> type \<Rightarrow> analyzerCtx option" where
  "analyzerErrorParamMismatch E ctx Node n Expected Found =
     do {
       i \<leftarrow> Node;
       s \<leftarrow> symbol i;
       analyzerError ctx Node
         (''type mismatch at parameter '' @ showInt n @ '' of '' @ ident (symtab E s)
          @ '': expected '' @ typeToStr E Expected @ '', found '' @ typeToStr E Found)
     }"

definition analyzerErrorMember ::
  "env \<Rightarrow> analyzerCtx \<Rightarrow> string \<Rightarrow> astInfo option \<Rightarrow> type \<Rightarrow> analyzerCtx option" where
  "analyzerErrorMember E ctx o' Node Record =
     do {
       i \<leftarrow> Node;
       analyzerError ctx Node
         (o' @ '' expected field of '' @ typeToStr E Record @ '', found '' @ literal i)
     }"

section \<open>Expressions\<close>

definition isNumericBOP :: "string \<Rightarrow> bool" where
  "isNumericBOP o' =
     (o' = ''+'' \<or> o' = ''-'' \<or> o' = ''*'' \<or> o' = ''/'' \<or> o' = ''%''
      \<or> o' = ''&'' \<or> o' = ''|'' \<or> o' = ''^'' \<or> o' = ''<<'' \<or> o' = ''>>''
      \<or> o' = ''+='' \<or> o' = ''-='' \<or> o' = ''*='' \<or> o' = ''/='' \<or> o' = ''%=''
      \<or> o' = ''&='' \<or> o' = ''|='' \<or> o' = ''^='' \<or> o' = ''<<='' \<or> o' = ''>>='')"

definition isOrdinalBOP :: "string \<Rightarrow> bool" where
  "isOrdinalBOP o' = (o' = ''>'' \<or> o' = ''<'' \<or> o' = ''>='' \<or> o' = ''<='')"

definition isEqualityBOP :: "string \<Rightarrow> bool" where
  "isEqualityBOP o' = (o' = ''=='' \<or> o' = ''!='')"

definition isAssignmentBOP :: "string \<Rightarrow> bool" where
  "isAssignmentBOP o' =
     (o' = ''='' \<or> o' = ''+='' \<or> o' = ''-='' \<or> o' = ''*='' \<or> o' = ''/='' \<or> o' = ''%=''
      \<or> o' = ''&='' \<or> o' = ''|='' \<or> o' = ''^='' \<or> o' = ''<<='' \<or> o' = ''>>='')"

definition isMemberBOP :: "string \<Rightarrow> bool" where
  "isMemberBOP o' = (o' = ''.'' \<or> o' = ''->'')"

definition isDerefBOP :: "string \<Rightarrow> bool" where
  "isDerefBOP o' = (o' = ''->'')"

definition isCommaBOP :: "string \<Rightarrow> bool" where
  "isCommaBOP o' = (o' = '','')"

text \<open>
  The analysis of an expression returns the context, the node with its \<open>dt\<close> (and
  those of the nodes visited below it) filled in, and the node's type. A crash (a null
  pointer read) is \<open>None\<close>.

  Each function of the source that first analyses its operands and then checks them is
  written in two parts: the function itself, which visits the operands, and its
  \<open>Check\<close>, the rest of its body, which takes the operands once analysed and their
  types.
\<close>

definition setDT :: "astInfo \<Rightarrow> type \<Rightarrow> astInfo" where
  "setDT i DT = i\<lparr>ndt := Some DT\<rparr>"

definition analyzerBOPCheck ::
  "env \<Rightarrow> analyzerCtx \<Rightarrow> astInfo \<Rightarrow> ast \<Rightarrow> type \<Rightarrow> ast \<Rightarrow> type \<Rightarrow> ast list
   \<Rightarrow> (analyzerCtx \<times> ast \<times> type) option" where
  "analyzerBOPCheck E ctx i nl L nr R cs =
     do {
       ctx \<leftarrow>
         (if isNumericBOP (opr i)
             \<and> (\<not> typeIsNumeric (symtab E) L \<or> \<not> typeIsNumeric (symtab E) R) then
            analyzerErrorOp E ctx (opr i) ''numeric type''
              (if \<not> typeIsNumeric (symtab E) L then Some (info nl) else Some (info nr))
              (if \<not> typeIsNumeric (symtab E) L then L else R)
          else Some ctx);
       ctx \<leftarrow>
         (if isAssignmentBOP (opr i)
             \<and> (\<not> typeIsAssignment (symtab E) L \<or> \<not> typeIsAssignment (symtab E) R) then
            analyzerErrorOp E ctx (opr i) ''assignable type''
              (if \<not> typeIsAssignment (symtab E) L then Some (info nl) else Some (info nr))
              (if \<not> typeIsAssignment (symtab E) L then L else R)
          else Some ctx);
       if typeIsCompatible (symtab E) L R then
         (if isAssignmentBOP (opr i) then
            Some (ctx, Ast (setDT i (typeDeriveFrom R)) (Some nl) (Some nr) cs, typeDeriveFrom R)
          else
            Some (ctx, Ast (setDT i (typeDeriveFromTwo (symtab E) L R)) (Some nl) (Some nr) cs,
                  typeDeriveFromTwo (symtab E) L R))
       else do {
         ctx \<leftarrow> analyzerErrorMismatch E ctx (Some i) (opr i) L R;
         Some (ctx, Ast (setDT i typeCreateInvalid) (Some nl) (Some nr) cs, typeCreateInvalid)
       }
     }"

definition analyzerComparisonBOPCheck ::
  "env \<Rightarrow> analyzerCtx \<Rightarrow> astInfo \<Rightarrow> ast \<Rightarrow> type \<Rightarrow> ast \<Rightarrow> type \<Rightarrow> ast list
   \<Rightarrow> (analyzerCtx \<times> ast \<times> type) option" where
  "analyzerComparisonBOPCheck E ctx i nl L nr R cs =
     do {
       ctx \<leftarrow>
         (if isOrdinalBOP (opr i) then
            (if \<not> typeIsOrdinal (symtab E) L \<or> \<not> typeIsOrdinal (symtab E) R then
               analyzerErrorOp E ctx (opr i) ''comparable type''
                 (if \<not> typeIsOrdinal (symtab E) L then Some (info nl) else Some (info nr))
                 (if \<not> typeIsOrdinal (symtab E) L then L else R)
             else Some ctx)
          else
            (if \<not> typeIsEquality (symtab E) L \<or> \<not> typeIsEquality (symtab E) R then
               analyzerErrorOp E ctx (opr i) ''comparable type''
                 (if \<not> typeIsEquality (symtab E) L then Some (info nl) else Some (info nr))
                 (if \<not> typeIsEquality (symtab E) L then L else R)
             else Some ctx));
       if typeIsCompatible (symtab E) L R then
         Some (ctx, Ast (setDT i (typeDeriveFromTwo (symtab E) L R)) (Some nl) (Some nr) cs,
               typeDeriveFromTwo (symtab E) L R)
       else do {
         ctx \<leftarrow> analyzerErrorMismatch E ctx (Some i) (opr i) L R;
         Some (ctx, Ast (setDT i typeCreateInvalid) (Some nl) (Some nr) cs, typeCreateInvalid)
       }
     }"

text \<open>
  The field looked up by \<^verbatim>\<open>analyzerMemberBOP\<close>: the new value of \<^verbatim>\<open>Node->symbol\<close>,
  which is left as it was when the left operand is neither basic nor a pointer to a
  basic type.
\<close>

definition memberSymbol :: "env \<Rightarrow> astInfo \<Rightarrow> type \<Rightarrow> ast option \<Rightarrow> nat option option" where
  "memberSymbol E i L r =
     (if typeIsBasic L then do {
        nr \<leftarrow> r;
        s \<leftarrow> typeBasicSym L;
        Some (symChild (symtab E) s (literal (info nr)))
      }
      else if typeIsPtr L then do {
        b \<leftarrow> typeBase L;
        if typeIsBasic b then do {
          nr \<leftarrow> r;
          s \<leftarrow> typeBasicSym b;
          Some (symChild (symtab E) s (literal (info nr)))
        }
        else Some (symbol i)
      }
      else Some (symbol i))"

definition analyzerMemberBOPCheck ::
  "env \<Rightarrow> analyzerCtx \<Rightarrow> astInfo \<Rightarrow> ast \<Rightarrow> type \<Rightarrow> ast option \<Rightarrow> ast list
   \<Rightarrow> (analyzerCtx \<times> ast \<times> type) option" where
  "analyzerMemberBOPCheck E ctx i nl L r cs =
     do {
       ctx \<leftarrow>
         (if isDerefBOP (opr i) then
            (if \<not> typeIsPtr L then
               analyzerErrorOp E ctx (opr i) ''pointer'' (Some (info nl)) L
             else do {
               b \<leftarrow> typeBase L;
               if \<not> typeIsRecord (symtab E) b then
                 analyzerErrorOp E ctx (opr i) ''structure pointer'' (Some (info nl)) L
               else Some ctx
             })
          else
            (if \<not> typeIsRecord (symtab E) L then
               analyzerErrorOp E ctx (opr i) ''structure type'' (Some (info nl)) L
             else Some ctx));
       sy \<leftarrow> memberSymbol E i L r;
       case sy of
         Some f \<Rightarrow> do {
           fdt \<leftarrow> dt (symtab E f);
           Some (ctx, Ast ((setDT i (typeDeepDuplicate fdt))\<lparr>symbol := sy\<rparr>) (Some nl) r cs,
                 typeDeepDuplicate fdt)
         }
       | None \<Rightarrow> do {
           ctx \<leftarrow> analyzerErrorMember E ctx (opr i) (map_option info r) L;
           Some (ctx, Ast ((setDT i typeCreateInvalid)\<lparr>symbol := sy\<rparr>) (Some nl) r cs,
                 typeCreateInvalid)
         }
     }"

definition analyzerCommaBOPCheck ::
  "env \<Rightarrow> analyzerCtx \<Rightarrow> astInfo \<Rightarrow> ast option \<Rightarrow> ast \<Rightarrow> type \<Rightarrow> ast list
   \<Rightarrow> (analyzerCtx \<times> ast \<times> type) option" where
  "analyzerCommaBOPCheck E ctx i l nr R cs =
     (if \<not> typeIsVoid (symtab E) R \<or> typeIsInvalid R then
        Some (ctx, Ast (setDT i (typeDeepDuplicate R)) l (Some nr) cs, typeDeepDuplicate R)
      else do {
        ctx \<leftarrow> analyzerErrorOp E ctx (opr i) ''non-void'' (Some (info nr)) R;
        Some (ctx, Ast (setDT i typeCreateInvalid) l (Some nr) cs, typeCreateInvalid)
      })"

definition analyzerUOPCheck ::
  "env \<Rightarrow> analyzerCtx \<Rightarrow> astInfo \<Rightarrow> ast option \<Rightarrow> ast \<Rightarrow> type \<Rightarrow> ast list
   \<Rightarrow> (analyzerCtx \<times> ast \<times> type) option" where
  "analyzerUOPCheck E ctx i l nr R cs =
     (if opr i = ''+'' \<or> opr i = ''-'' \<or> opr i = ''++'' \<or> opr i = ''--''
         \<or> opr i = ''!'' \<or> opr i = ''~'' then
        (if \<not> typeIsNumeric (symtab E) R then do {
           ctx \<leftarrow> analyzerErrorOp E ctx (opr i) ''numeric type'' (Some (info nr)) R;
           Some (ctx, Ast (setDT i typeCreateInvalid) l (Some nr) cs, typeCreateInvalid)
         }
         else if opr i = ''++'' \<or> opr i = ''--'' then
           Some (ctx, Ast (setDT i (typeDeriveFrom R)) l (Some nr) cs, typeDeriveFrom R)
         else Some (ctx, Ast (setDT i (typeDeriveFrom R)) l (Some nr) cs, typeDeriveFrom R))
      else if opr i = ''*'' then
        (if typeIsPtr R then
           Some (ctx, Ast (setDT i (typeDeriveBase R)) l (Some nr) cs, typeDeriveBase R)
         else do {
           ctx \<leftarrow> analyzerErrorOp E ctx (opr i) ''pointer'' (Some (info nr)) R;
           Some (ctx, Ast (setDT i typeCreateInvalid) l (Some nr) cs, typeCreateInvalid)
         })
      else if opr i = ''&'' then
        Some (ctx, Ast (setDT i (typeDerivePtr R)) l (Some nr) cs, typeDerivePtr R)
      else Some (ctx, Ast (setDT i typeCreateInvalid) l (Some nr) cs, typeCreateInvalid))"

definition analyzerTernaryCheck ::
  "env \<Rightarrow> analyzerCtx \<Rightarrow> astInfo \<Rightarrow> ast \<Rightarrow> type \<Rightarrow> ast \<Rightarrow> type \<Rightarrow> ast \<Rightarrow> type \<Rightarrow> ast list
   \<Rightarrow> (analyzerCtx \<times> ast \<times> type) option" where
  "analyzerTernaryCheck E ctx i c Cond nl L nr R cs =
     do {
       ctx \<leftarrow>
         (if \<not> typeIsCondition (symtab E) Cond then
            analyzerErrorOp E ctx ''ternary ?:'' ''condition value'' (Some (info c)) Cond
          else Some ctx);
       if typeIsCompatible (symtab E) L R then
         Some (ctx, Ast (setDT i (typeDeriveUnified (symtab E) L R)) (Some nl) (Some nr) (c # cs),
               typeDeriveUnified (symtab E) L R)
       else do {
         ctx \<leftarrow> analyzerErrorMismatch E ctx (Some i) ''ternary ?:'' L R;
         Some (ctx, Ast (setDT i typeCreateInvalid) (Some nl) (Some nr) (c # cs),
               typeCreateInvalid)
       }
     }"

definition analyzerIndexCheck ::
  "env \<Rightarrow> analyzerCtx \<Rightarrow> astInfo \<Rightarrow> ast \<Rightarrow> type \<Rightarrow> ast \<Rightarrow> type \<Rightarrow> ast list
   \<Rightarrow> (analyzerCtx \<times> ast \<times> type) option" where
  "analyzerIndexCheck E ctx i nl L nr R cs =
     do {
       ctx \<leftarrow>
         (if \<not> typeIsNumeric (symtab E) R then
            analyzerErrorOp E ctx ''[]'' ''numeric index'' (Some (info nr)) R
          else Some ctx);
       if typeIsArray L \<or> typeIsPtr L then
         Some (ctx, Ast (setDT i (typeDeriveBase L)) (Some nl) (Some nr) cs, typeDeriveBase L)
       else do {
         ctx \<leftarrow> analyzerErrorOp E ctx ''[]'' ''array or pointer'' (Some (info nl)) L;
         Some (ctx, Ast (setDT i typeCreateInvalid) (Some nl) (Some nr) cs, typeCreateInvalid)
       }
     }"

text \<open>
  The number of parameters \<^verbatim>\<open>analyzerCall\<close> compares the arguments with:
  \<^verbatim>\<open>typeIsPtr(L) ? L->base->params : L->params\<close>.
\<close>

definition calleeParams :: "type \<Rightarrow> int option" where
  "calleeParams L = (if typeIsPtr L then typeBase L \<bind> typeParams else typeParams L)"

definition analyzerLiteral :: "env \<Rightarrow> analyzerCtx \<Rightarrow> ast \<Rightarrow> (analyzerCtx \<times> ast \<times> type) option" where
  "analyzerLiteral E ctx Node =
     (case Node of Ast i l r cs \<Rightarrow>
        if litClass i = literalInt then
          Some (ctx, Ast (setDT i (typeCreateBasic (types ctx builtinInt))) l r cs,
                typeCreateBasic (types ctx builtinInt))
        else if litClass i = literalBool then
          Some (ctx, Ast (setDT i (typeCreateBasic (types ctx builtinBool))) l r cs,
                typeCreateBasic (types ctx builtinBool))
        else if litClass i = literalIdent then do {
          s \<leftarrow> symbol i;
          sdt \<leftarrow> dt (symtab E s);
          Some (ctx, Ast (setDT i (typeDeepDuplicate sdt)) l r cs, typeDeepDuplicate sdt)
        }
        else Some (ctx, Ast (setDT i typeCreateInvalid) l r cs, typeCreateInvalid))"

function (sequential)
      analyzerValue :: "env \<Rightarrow> analyzerCtx \<Rightarrow> ast \<Rightarrow> (analyzerCtx \<times> ast \<times> type) option"
  and analyzerBOP :: "env \<Rightarrow> analyzerCtx \<Rightarrow> ast \<Rightarrow> (analyzerCtx \<times> ast \<times> type) option"
  and analyzerComparisonBOP :: "env \<Rightarrow> analyzerCtx \<Rightarrow> ast \<Rightarrow> (analyzerCtx \<times> ast \<times> type) option"
  and analyzerMemberBOP :: "env \<Rightarrow> analyzerCtx \<Rightarrow> ast \<Rightarrow> (analyzerCtx \<times> ast \<times> type) option"
  and analyzerCommaBOP :: "env \<Rightarrow> analyzerCtx \<Rightarrow> ast \<Rightarrow> (analyzerCtx \<times> ast \<times> type) option"
  and analyzerUOP :: "env \<Rightarrow> analyzerCtx \<Rightarrow> ast \<Rightarrow> (analyzerCtx \<times> ast \<times> type) option"
  and analyzerTernary :: "env \<Rightarrow> analyzerCtx \<Rightarrow> ast \<Rightarrow> (analyzerCtx \<times> ast \<times> type) option"
  and analyzerIndex :: "env \<Rightarrow> analyzerCtx \<Rightarrow> ast \<Rightarrow> (analyzerCtx \<times> ast \<times> type) option"
  and analyzerCall :: "env \<Rightarrow> analyzerCtx \<Rightarrow> ast \<Rightarrow> (analyzerCtx \<times> ast \<times> type) option"
  and analyzerCallParams ::
    "env \<Rightarrow> analyzerCtx \<Rightarrow> astInfo \<Rightarrow> ast list \<Rightarrow> nat list \<Rightarrow> int \<Rightarrow> (analyzerCtx \<times> ast list) option"
  and analyzerArrayLiteral :: "env \<Rightarrow> analyzerCtx \<Rightarrow> ast \<Rightarrow> (analyzerCtx \<times> ast \<times> type) option"
where
  "analyzerValue E ctx (Ast i l r cs) =
     (if cls i = astBOP then
        (if isNumericBOP (opr i) \<or> isAssignmentBOP (opr i) then analyzerBOP E ctx (Ast i l r cs)
         else if isOrdinalBOP (opr i) \<or> isEqualityBOP (opr i) then
           analyzerComparisonBOP E ctx (Ast i l r cs)
         else if isMemberBOP (opr i) then analyzerMemberBOP E ctx (Ast i l r cs)
         else if isCommaBOP (opr i) then analyzerCommaBOP E ctx (Ast i l r cs)
         else Some (ctx, Ast (setDT i typeCreateInvalid) l r cs, typeCreateInvalid))
      else if cls i = astUOP then analyzerUOP E ctx (Ast i l r cs)
      else if cls i = astTOP then analyzerTernary E ctx (Ast i l r cs)
      else if cls i = astIndex then analyzerIndex E ctx (Ast i l r cs)
      else if cls i = astCall then analyzerCall E ctx (Ast i l r cs)
      else if cls i = astLiteral then
        (if litClass i = literalArray then analyzerArrayLiteral E ctx (Ast i l r cs)
         else analyzerLiteral E ctx (Ast i l r cs))
      else if cls i = astInvalid then
        Some (ctx, Ast (setDT i typeCreateInvalid) l r cs, typeCreateInvalid)
      else Some (ctx, Ast (setDT i typeCreateInvalid) l r cs, typeCreateInvalid))"

| "analyzerBOP E ctx (Ast i l r cs) =
     do {
       nl \<leftarrow> l;
       (ctx, nl, L) \<leftarrow> analyzerValue E ctx nl;
       nr \<leftarrow> r;
       (ctx, nr, R) \<leftarrow> analyzerValue E ctx nr;
       analyzerBOPCheck E ctx i nl L nr R cs
     }"

| "analyzerComparisonBOP E ctx (Ast i l r cs) =
     do {
       nl \<leftarrow> l;
       (ctx, nl, L) \<leftarrow> analyzerValue E ctx nl;
       nr \<leftarrow> r;
       (ctx, nr, R) \<leftarrow> analyzerValue E ctx nr;
       analyzerComparisonBOPCheck E ctx i nl L nr R cs
     }"

| "analyzerMemberBOP E ctx (Ast i l r cs) =
     do {
       nl \<leftarrow> l;
       (ctx, nl, L) \<leftarrow> analyzerValue E ctx nl;
       analyzerMemberBOPCheck E ctx i nl L r cs
     }"

| "analyzerCommaBOP E ctx (Ast i l r cs) =
     do {
       nr \<leftarrow> r;
       (ctx, nr, R) \<leftarrow> analyzerValue E ctx nr;
       analyzerCommaBOPCheck E ctx i l nr R cs
     }"

| "analyzerUOP E ctx (Ast i l r cs) =
     do {
       nr \<leftarrow> r;
       (ctx, nr, R) \<leftarrow> analyzerValue E ctx nr;
       analyzerUOPCheck E ctx i l nr R cs
     }"

| "analyzerTernary E ctx (Ast i l r cs) =
     do {
       c \<leftarrow> firstChild (Ast i l r cs);
       (ctx, c, Cond) \<leftarrow> analyzerValue E ctx c;
       nl \<leftarrow> l;
       (ctx, nl, L) \<leftarrow> analyzerValue E ctx nl;
       nr \<leftarrow> r;
       (ctx, nr, R) \<leftarrow> analyzerValue E ctx nr;
       analyzerTernaryCheck E ctx i c Cond nl L nr R (tl cs)
     }"

| "analyzerIndex E ctx (Ast i l r cs) =
     do {
       nl \<leftarrow> l;
       (ctx, nl, L) \<leftarrow> analyzerValue E ctx nl;
       nr \<leftarrow> r;
       (ctx, nr, R) \<leftarrow> analyzerValue E ctx nr;
       analyzerIndexCheck E ctx i nl L nr R cs
     }"

| "analyzerCall E ctx (Ast i l r cs) =
     do {
       nl \<leftarrow> l;
       (ctx, nl, L) \<leftarrow> analyzerValue E ctx nl;
       if \<not> typeIsCallable L then do {
         s \<leftarrow> symbol i;
         sdt \<leftarrow> dt (symtab E s);
         ctx \<leftarrow> analyzerErrorOp E ctx ''()'' ''function''
                  (map_option info (firstChild (Ast i l r cs))) sdt;
         Some (ctx, Ast (setDT i typeCreateInvalid) (Some nl) r cs, typeCreateInvalid)
       }
       else do {
         s \<leftarrow> symbol i;
         sdt \<leftarrow> dt (symtab E s);
         params \<leftarrow> calleeParams L;
         if params \<noteq> childCount cs then do {
           ctx \<leftarrow> analyzerErrorDegree ctx (Some i) ''parameters'' params (childCount cs)
                    (ident (symtab E s));
           Some (ctx, Ast (setDT i (typeDeepDuplicate (typeDeriveReturn sdt))) (Some nl) r cs,
                 typeDeepDuplicate (typeDeriveReturn sdt))
         }
         else do {
           (ctx, cs) \<leftarrow> analyzerCallParams E ctx i cs (children (symtab E s)) 0;
           Some (ctx, Ast (setDT i (typeDeepDuplicate (typeDeriveReturn sdt))) (Some nl) r cs,
                 typeDeepDuplicate (typeDeriveReturn sdt))
         }
       }
     }"

| "analyzerCallParams E ctx i [] ps n = Some (ctx, [])"
| "analyzerCallParams E ctx i (c # cs) [] n = Some (ctx, c # cs)"
| "analyzerCallParams E ctx i (c # cs) (p # ps) n =
     do {
       (ctx, c, Param) \<leftarrow> analyzerValue E ctx c;
       pdt \<leftarrow> dt (symtab E p);
       ctx \<leftarrow>
         (if \<not> typeIsCompatible (symtab E) Param pdt then
            analyzerErrorParamMismatch E ctx (Some i) n pdt Param
          else Some ctx);
       (ctx, cs) \<leftarrow> analyzerCallParams E ctx i cs ps (n + 1);
       Some (ctx, c # cs)
     }"

| "analyzerArrayLiteral E ctx (Ast i l r cs) =
     do {
       c \<leftarrow> firstChild (Ast i l r cs);
       (ctx, c, elt) \<leftarrow> analyzerValue E ctx c;
       Some (ctx, Ast (setDT i (typeDeriveArray elt (childCount cs))) l r (c # tl cs),
             typeDeriveArray elt (childCount cs))
     }"
  by pat_completeness auto

termination
  by (relation "measure
    (case_sum
      (case_sum
        (case_sum (\<lambda>(E, ctx, n). 2 * size n + 1) (\<lambda>(E, ctx, n). 2 * size n))
        (case_sum (\<lambda>(E, ctx, n). 2 * size n)
          (case_sum (\<lambda>(E, ctx, n). 2 * size n) (\<lambda>(E, ctx, n). 2 * size n))))
      (case_sum
        (case_sum (\<lambda>(E, ctx, n). 2 * size n)
          (case_sum (\<lambda>(E, ctx, n). 2 * size n) (\<lambda>(E, ctx, n). 2 * size n)))
        (case_sum (\<lambda>(E, ctx, n). 2 * size n)
          (case_sum (\<lambda>(E, ctx, i, cs, ps, n). 2 * size_list size cs + 1)
            (\<lambda>(E, ctx, n). 2 * size n)))))")
    (auto elim!: firstChild.elims)

section \<open>Statements\<close>

text \<open>
  Modelled from the spec: \<^verbatim>\<open>astIsValueClass\<close> (in \<^verbatim>\<open>ast.c\<close>) is missing. The
  expression classes of section 3.5 are the operators, index, call and literal nodes.
\<close>

definition astIsValueClass :: "astTag \<Rightarrow> bool" where
  "astIsValueClass c = (c \<in> {astBOP, astUOP, astTOP, astIndex, astCall, astLiteral})"

definition analyzerReturn :: "env \<Rightarrow> analyzerCtx \<Rightarrow> ast \<Rightarrow> (analyzerCtx \<times> ast) option" where
  "analyzerReturn E ctx Node =
     (case Node of Ast i l r cs \<Rightarrow>
        do {
          (ctx, r', R) \<leftarrow>
            (case r of
               None \<Rightarrow> Some (ctx, None, typeCreateInvalid)
             | Some nr \<Rightarrow> do {
                 (ctx, nr, R) \<leftarrow> analyzerValue E ctx nr;
                 Some (ctx, Some nr, R)
               });
          rt \<leftarrow> returnType ctx;
          ctx \<leftarrow>
            (if \<not> typeIsCompatible (symtab E) R rt then
               analyzerErrorExpectedType E ctx (map_option info r') ''return'' rt R
             else Some ctx);
          Some (ctx, Ast i l r' cs)
        })"

text \<open>
  The check the three kinds of statement with a condition make once it is analysed:
  \<^verbatim>\<open>if (!typeIsCondition(condDT)) analyzerErrorExpected(ctx, cond, where, "condition", condDT)\<close>.
\<close>

definition checkCondition :: "env \<Rightarrow> analyzerCtx \<Rightarrow> string \<Rightarrow> ast \<Rightarrow> type \<Rightarrow> analyzerCtx option" where
  "checkCondition E ctx wher cond condDT =
     (if \<not> typeIsCondition (symtab E) condDT then
        analyzerErrorExpected E ctx (Some (info cond)) wher ''condition'' condDT
      else Some ctx)"

text \<open>
  A call of \<^verbatim>\<open>analyzerValue\<close> whose result is not used, and the two shapes it takes in
  the header of a \<^verbatim>\<open>for\<close>: an expression that may be empty (the initializer that is not
  a declaration, and the iterator), and the condition, which may be empty too and is
  checked when present.
\<close>

definition analyzerValueDiscard :: "env \<Rightarrow> analyzerCtx \<Rightarrow> ast \<Rightarrow> (analyzerCtx \<times> ast) option" where
  "analyzerValueDiscard E ctx Node =
     do {
       (ctx, Node, DT) \<leftarrow> analyzerValue E ctx Node;
       Some (ctx, Node)
     }"

definition analyzerIterValue :: "env \<Rightarrow> analyzerCtx \<Rightarrow> ast \<Rightarrow> (analyzerCtx \<times> ast) option" where
  "analyzerIterValue E ctx Node =
     (if cls (info Node) \<noteq> astEmpty then analyzerValueDiscard E ctx Node
      else Some (ctx, Node))"

definition analyzerIterCond :: "env \<Rightarrow> analyzerCtx \<Rightarrow> ast \<Rightarrow> (analyzerCtx \<times> ast) option" where
  "analyzerIterCond E ctx cond =
     (if cls (info cond) \<noteq> astEmpty then do {
        (ctx, cond, condDT) \<leftarrow> analyzerValue E ctx cond;
        ctx \<leftarrow> checkCondition E ctx ''for loop'' cond condDT;
        Some (ctx, cond)
      }
      else Some (ctx, cond))"

function (sequential) analyzerNode :: "env \<Rightarrow> analyzerCtx \<Rightarrow> ast \<Rightarrow> (analyzerCtx \<times> ast) option"
  and analyzerNodes :: "env \<Rightarrow> analyzerCtx \<Rightarrow> ast list \<Rightarrow> (analyzerCtx \<times> ast list) option"
  and analyzerFnImpl :: "env \<Rightarrow> analyzerCtx \<Rightarrow> ast \<Rightarrow> (analyzerCtx \<times> ast) option"
  and analyzerCode :: "env \<Rightarrow> analyzerCtx \<Rightarrow> ast \<Rightarrow> (analyzerCtx \<times> ast) option"
  and analyzerBranch :: "env \<Rightarrow> analyzerCtx \<Rightarrow> ast \<Rightarrow> (analyzerCtx \<times> ast) option"
  and analyzerLoop :: "env \<Rightarrow> analyzerCtx \<Rightarrow> ast \<Rightarrow> (analyzerCtx \<times> ast) option"
  and analyzerIter :: "env \<Rightarrow> analyzerCtx \<Rightarrow> ast \<Rightarrow> (analyzerCtx \<times> ast) option"
where
  "analyzerNode E ctx (Ast i l r cs) =
     (if cls i = astEmpty then Some (ctx, Ast i l r cs)
      else if cls i = astInvalid then Some (ctx, Ast i l r cs)
      else if cls i = astFnImpl then analyzerFnImpl E ctx (Ast i l r cs)
      else if cls i = astDeclStruct then analyzerDeclStruct E ctx (Ast i l r cs)
      else if cls i = astDecl then analyzerDecl E ctx (Ast i l r cs)
      else if cls i = astCode then analyzerCode E ctx (Ast i l r cs)
      else if cls i = astBranch then analyzerBranch E ctx (Ast i l r cs)
      else if cls i = astLoop then analyzerLoop E ctx (Ast i l r cs)
      else if cls i = astIter then analyzerIter E ctx (Ast i l r cs)
      else if cls i = astReturn then analyzerReturn E ctx (Ast i l r cs)
      else if cls i = astBreak then Some (ctx, Ast i l r cs)
      else if astIsValueClass (cls i) then analyzerValueDiscard E ctx (Ast i l r cs)
      else Some (ctx, Ast i l r cs))"

| "analyzerNodes E ctx [] = Some (ctx, [])"
| "analyzerNodes E ctx (Current # rest) =
     do {
       (ctx, Current) \<leftarrow> analyzerNode E ctx Current;
       (ctx, rest) \<leftarrow> analyzerNodes E ctx rest;
       Some (ctx, Current # rest)
     }"

| "analyzerFnImpl E ctx (Ast i l r cs) =
     do {
       nl \<leftarrow> l;
       (ctx, nl) \<leftarrow> analyzerDecl E ctx nl;
       s \<leftarrow> symbol i;
       sdt \<leftarrow> dt (symtab E s);
       ctx \<leftarrow> Some (ctx\<lparr>returnType := typeReturnType sdt\<rparr>);
       nr \<leftarrow> r;
       (ctx, nr) \<leftarrow> analyzerNode E ctx nr;
       ctx \<leftarrow> Some (ctx\<lparr>returnType := None\<rparr>);
       Some (ctx, Ast i (Some nl) (Some nr) cs)
     }"

| "analyzerCode E ctx (Ast i l r cs) =
     do {
       (ctx, cs) \<leftarrow> analyzerNodes E ctx cs;
       Some (ctx, Ast i l r cs)
     }"

| "analyzerBranch E ctx (Ast i l r cs) =
     do {
       cond \<leftarrow> firstChild (Ast i l r cs);
       (ctx, cond, condDT) \<leftarrow> analyzerValue E ctx cond;
       ctx \<leftarrow> checkCondition E ctx ''if'' cond condDT;
       nl \<leftarrow> l;
       (ctx, nl) \<leftarrow> analyzerNode E ctx nl;
       (case r of
          Some nr \<Rightarrow> do {
            (ctx, nr) \<leftarrow> analyzerNode E ctx nr;
            Some (ctx, Ast i (Some nl) (Some nr) (cond # tl cs))
          }
        | None \<Rightarrow> Some (ctx, Ast i (Some nl) None (cond # tl cs)))
     }"

| "analyzerLoop E ctx (Ast i l r cs) =
     do {
       nl \<leftarrow> l;
       if cls (info nl) = astCode then do {
         cond \<leftarrow> r;
         (ctx, cond, condDT) \<leftarrow> analyzerValue E ctx cond;
         ctx \<leftarrow> checkCondition E ctx ''do loop'' cond condDT;
         (ctx, code) \<leftarrow> analyzerNode E ctx nl;
         Some (ctx, Ast i (Some code) (Some cond) cs)
       }
       else do {
         (ctx, cond, condDT) \<leftarrow> analyzerValue E ctx nl;
         ctx \<leftarrow> checkCondition E ctx ''do loop'' cond condDT;
         code \<leftarrow> r;
         (ctx, code) \<leftarrow> analyzerNode E ctx code;
         Some (ctx, Ast i (Some cond) (Some code) cs)
       }
     }"

| "analyzerIter E ctx (Ast i l r []) = None"
| "analyzerIter E ctx (Ast i l r [init]) = None"
| "analyzerIter E ctx (Ast i l r [init, cond]) = None"
| "analyzerIter E ctx (Ast i l r (init # cond # iter # rest)) =
     do {
       (ctx, init) \<leftarrow>
         (if cls (info init) = astDecl then analyzerNode E ctx init
          else analyzerIterValue E ctx init);
       (ctx, cond) \<leftarrow> analyzerIterCond E ctx cond;
       (ctx, iter) \<leftarrow> analyzerIterValue E ctx iter;
       nl \<leftarrow> l;
       (ctx, nl) \<leftarrow> analyzerNode E ctx nl;
       Some (ctx, Ast i (Some nl) r (init # cond # iter # rest))
     }"
  by pat_completeness auto

termination
  by (relation "measure
    (case_sum
      (case_sum (\<lambda>(E, ctx, n). 2 * size n + 1)
        (case_sum (\<lambda>(E, ctx, ns). 2 * size_list size ns + 1) (\<lambda>(E, ctx, n). 2 * size n)))
      (case_sum
        (case_sum (\<lambda>(E, ctx, n). 2 * size n) (\<lambda>(E, ctx, n). 2 * size n))
        (case_sum (\<lambda>(E, ctx, n). 2 * size n) (\<lambda>(E, ctx, n). 2 * size n))))")
    (auto elim!: firstChild.elims)

text \<open>The loop of \<^verbatim>\<open>analyzerModule\<close> over the top-level nodes.\<close>

definition analyzerModule :: "env \<Rightarrow> analyzerCtx \<Rightarrow> ast \<Rightarrow> (analyzerCtx \<times> ast) option" where
  "analyzerModule E ctx Node =
     (case Node of Ast i l r cs \<Rightarrow>
        do {
          (ctx, cs) \<leftarrow> analyzerNodes E ctx cs;
          Some (ctx, Ast i l r cs)
        })"

text \<open>
  \<^verbatim>\<open>analyzerInit\<close> allocates the context and sets the types and the two counters;
  \<^verbatim>\<open>returnType\<close> is left as allocated, which no code may read. The output recorded
  is what this run of the analyzer writes.
\<close>

definition analyzerInit :: "(builtin \<Rightarrow> nat) \<Rightarrow> analyzerCtx" where
  "analyzerInit Types =
     \<lparr>types = Types, errors = 0, warnings = 0, returnType = None, stdout = []\<rparr>"

record analyzerResult =
  resErrors :: int
  resWarnings :: int

text \<open>
  \<^verbatim>\<open>analyzer\<close> returns the two counters; the tree it has annotated and the standard
  output are returned with them.
\<close>

definition analyzer ::
  "env \<Rightarrow> ast \<Rightarrow> (builtin \<Rightarrow> nat) \<Rightarrow> (analyzerResult \<times> ast \<times> string list) option" where
  "analyzer E Tree Types =
     do {
       ctx \<leftarrow> Some (analyzerInit Types);
       (ctx, Tree) \<leftarrow> analyzerModule E ctx Tree;
       Some (\<lparr>resErrors = errors ctx, resWarnings = warnings ctx\<rparr>, Tree, stdout ctx)
     }"

section \<open>Token helpers of the parser\<close>

text \<open>
  The lexer (\<^verbatim>\<open>lexer.c\<close>) is not part of the sources at hand. The parser reads the
  class and the text of the current token and the position of the stream, and moves on
  with \<^verbatim>\<open>lexerNext\<close>, which is taken as a parameter \<open>nxt\<close>: any function of the
  lexer's state, which holds the unread input. Section 3.2 of the specification names
  four token classes; the enumeration may hold others.
\<close>

datatype tokenClass = tokenOther | tokenEOF | tokenIdent | tokenInt | tokenUnknown int

record lexerCtx =
  token :: tokenClass
  buffer :: string
  streamLine :: int
  streamLineChar :: int
  unread :: string

text \<open>
  The parser's context, with the standard output (one entry per diagnostic written) and
  the standard input, which \<^verbatim>\<open>error\<close> reads a character from.
\<close>

record parserCtx =
  lexer :: lexerCtx
  scope :: nat
  location :: location
  perrors :: int
  pstdout :: "string list"
  pstdin :: string

text \<open>
  \<^verbatim>\<open>error\<close> prints the prefix and the message, then \<^verbatim>\<open>puts(".")\<close> ends the line
  with a period; it counts the error and reads one character.
\<close>

definition error :: "parserCtx \<Rightarrow> string \<Rightarrow> parserCtx option" where
  "error ctx msg =
     (if perrors ctx = 2147483647 then None
      else Some (ctx\<lparr>pstdout := pstdout ctx @ [errorPrefix (location ctx) @ msg @ ''.'' @ [CHR 0x0A]],
                      perrors := perrors ctx + 1,
                      pstdin := drop 1 (pstdin ctx)\<rparr>))"

definition errorExpected :: "parserCtx \<Rightarrow> string \<Rightarrow> parserCtx option" where
  "errorExpected ctx Expected =
     error ctx (''expected '' @ Expected @ '', found '' @ [CHR 0x27] @ buffer (lexer ctx) @ [CHR 0x27])"

definition errorUndefSym :: "parserCtx \<Rightarrow> parserCtx option" where
  "errorUndefSym ctx = error ctx (''undefined symbol '' @ [CHR 0x27] @ buffer (lexer ctx) @ [CHR 0x27])"

definition errorIllegalBreak :: "parserCtx \<Rightarrow> parserCtx option" where
  "errorIllegalBreak ctx = error ctx ''cannot break when not in loop or switch''"

definition errorIdentOutsideDecl :: "parserCtx \<Rightarrow> parserCtx option" where
  "errorIdentOutsideDecl ctx = error ctx ''identifier given outside declaration''"

definition errorDuplicateSym :: "parserCtx \<Rightarrow> parserCtx option" where
  "errorDuplicateSym ctx =
     error ctx (''duplicated identifier '' @ [CHR 0x27] @ buffer (lexer ctx) @ [CHR 0x27])"

definition tokenIs :: "parserCtx \<Rightarrow> string \<Rightarrow> bool" where
  "tokenIs ctx Match = (buffer (lexer ctx) = Match)"

definition tokenIsIdent :: "parserCtx \<Rightarrow> bool" where
  "tokenIsIdent ctx = (token (lexer ctx) = tokenIdent)"

definition tokenIsInt :: "parserCtx \<Rightarrow> bool" where
  "tokenIsInt ctx = (token (lexer ctx) = tokenInt)"

definition tokenNext :: "(lexerCtx \<Rightarrow> lexerCtx) \<Rightarrow> parserCtx \<Rightarrow> parserCtx" where
  "tokenNext nxt ctx =
     (let lx = nxt (lexer ctx)
      in ctx\<lparr>lexer := lx, location := \<lparr>line = streamLine lx, lineChar = streamLineChar lx\<rparr>\<rparr>)"

definition tokenMatch :: "(lexerCtx \<Rightarrow> lexerCtx) \<Rightarrow> parserCtx \<Rightarrow> parserCtx" where
  "tokenMatch nxt ctx = tokenNext nxt ctx"

definition tokenDupMatch :: "(lexerCtx \<Rightarrow> lexerCtx) \<Rightarrow> parserCtx \<Rightarrow> parserCtx \<times> string" where
  "tokenDupMatch nxt ctx = (let Old = buffer (lexer ctx) in (tokenMatch nxt ctx, Old))"

fun tokenClassGetStr :: "tokenClass \<Rightarrow> string" where
  "tokenClassGetStr tokenOther = ''other''"
| "tokenClassGetStr tokenEOF = ''end of file''"
| "tokenClassGetStr tokenIdent = ''identifier''"
| "tokenClassGetStr tokenInt = ''int''"
| "tokenClassGetStr (tokenUnknown k) = ''unhandled''"

definition tokenMatchToken :: "(lexerCtx \<Rightarrow> lexerCtx) \<Rightarrow> parserCtx \<Rightarrow> tokenClass \<Rightarrow> parserCtx option" where
  "tokenMatchToken nxt ctx Match =
     (if token (lexer ctx) = Match then Some (tokenMatch nxt ctx)
      else do {
        ctx \<leftarrow> errorExpected ctx (tokenClassGetStr Match);
        Some (ctx\<lparr>lexer := nxt (lexer ctx)\<rparr>)
      })"

text \<open>
  \<^verbatim>\<open>tokenMatchStr\<close> builds the quoted text in a buffer of \<^verbatim>\<open>strlen(Match)+2\<close>
  bytes, one short of the two quotes and the terminator that \<^verbatim>\<open>sprintf\<close> writes.
  Strings are values here, so the text that is printed is modelled and the byte written
  past the buffer is not.
\<close>

definition tokenMatchStr :: "(lexerCtx \<Rightarrow> lexerCtx) \<Rightarrow> parserCtx \<Rightarrow> string \<Rightarrow> parserCtx option" where
  "tokenMatchStr nxt ctx Match =
     (if tokenIs ctx Match then Some (tokenMatch nxt ctx)
      else do {
        ctx \<leftarrow> errorExpected ctx ([CHR 0x27] @ Match @ [CHR 0x27]);
        Some (ctx\<lparr>lexer := nxt (lexer ctx)\<rparr>)
      })"

definition tokenTryMatchStr :: "(lexerCtx \<Rightarrow> lexerCtx) \<Rightarrow> parserCtx \<Rightarrow> string \<Rightarrow> parserCtx \<times> bool" where
  "tokenTryMatchStr nxt ctx Match =
     (if tokenIs ctx Match then (tokenMatch nxt ctx, True) else (ctx, False))"

definition tokenMatchIdent :: "(lexerCtx \<Rightarrow> lexerCtx) \<Rightarrow> parserCtx \<Rightarrow> (parserCtx \<times> string) option" where
  "tokenMatchIdent nxt ctx =
     (let Old = buffer (lexer ctx)
      in do {
        ctx \<leftarrow> tokenMatchToken nxt ctx tokenIdent;
        Some (ctx, Old)
      })"

section \<open>Invariants of the analysis\<close>

text \<open>
  A diagnostic of the analyzer is one entry of the output: the prefix with the location
  of the node it is reported at, the message, and the newline \<^verbatim>\<open>putchar\<close> writes. A
  diagnostic of the parser has a period before the newline, from \<^verbatim>\<open>puts(".")\<close>.
\<close>

definition analyzerLine :: "location \<Rightarrow> string \<Rightarrow> string" where
  "analyzerLine p msg = errorPrefix p @ msg @ [CHR 0x0A]"

definition parserLine :: "location \<Rightarrow> string \<Rightarrow> string" where
  "parserLine p msg = errorPrefix p @ msg @ ''.'' @ [CHR 0x0A]"

text \<open>Whether an entry of the output ends with a period and a newline.\<close>

definition endsPeriod :: "string \<Rightarrow> bool" where
  "endsPeriod s = (case rev s of nl # c # rest \<Rightarrow> nl = CHR 0x0A \<and> c = CHR ''.'' | _ \<Rightarrow> False)"

text \<open>
  \<open>diagnoses c c' ds\<close>: the context \<open>c'\<close> is \<open>c\<close> after the diagnostics \<open>ds\<close>
  (location and message) were written, one entry and one count each, and nothing else
  was changed. \<open>emitted c c'\<close> says so for some list of diagnostics; \<open>emittedS\<close>
  allows \<open>returnType\<close> to differ as well, which \<^verbatim>\<open>analyzerFnImpl\<close> sets and clears.
\<close>

definition diagnoses :: "analyzerCtx \<Rightarrow> analyzerCtx \<Rightarrow> (location \<times> string) list \<Rightarrow> bool" where
  "diagnoses c c' ds =
     (c' = c\<lparr>stdout := stdout c @ map (\<lambda>d. analyzerLine (fst d) (snd d)) ds,
              errors := errors c + int (length ds)\<rparr>)"

definition emitted :: "analyzerCtx \<Rightarrow> analyzerCtx \<Rightarrow> bool" where
  "emitted c c' = (\<exists>ds. diagnoses c c' ds)"

definition emittedS :: "analyzerCtx \<Rightarrow> analyzerCtx \<Rightarrow> bool" where
  "emittedS c c' = (\<exists>rt. emitted (c\<lparr>returnType := rt\<rparr>) c')"

text \<open>
  The analysis of a node is \<^emph>\<open>stable\<close> when, whenever it returns, it has only written
  diagnostics, it has given the node the type it returns, it has kept the node's class,
  operator and literal class, and running it again from the same context on the node it
  returned gives the same context, the same node and the same type.
\<close>

definition sameKind :: "ast \<Rightarrow> ast \<Rightarrow> bool" where
  "sameKind n n' = (cls (info n') = cls (info n) \<and> opr (info n') = opr (info n)
     \<and> litClass (info n') = litClass (info n))"

definition stable :: "(analyzerCtx \<Rightarrow> ast \<Rightarrow> (analyzerCtx \<times> ast \<times> type) option) \<Rightarrow> analyzerCtx \<Rightarrow> ast \<Rightarrow> bool" where
  "stable f ctx n = (\<forall>ctx' n' T. f ctx n = Some (ctx', n', T) \<longrightarrow>
      emitted ctx ctx' \<and> f ctx n' = Some (ctx', n', T) \<and> sameKind n n' \<and> ndt (info n') = Some T)"

definition stableParams :: "env \<Rightarrow> analyzerCtx \<Rightarrow> astInfo \<Rightarrow> ast list \<Rightarrow> nat list \<Rightarrow> int \<Rightarrow> bool" where
  "stableParams E ctx i cs ps k = (\<forall>ctx' cs'. analyzerCallParams E ctx i cs ps k = Some (ctx', cs') \<longrightarrow>
      emitted ctx ctx' \<and> length cs' = length cs
      \<and> (\<forall>X. analyzerCallParams E ctx (setDT i X) cs' ps k = Some (ctx', cs')))"

definition stableS :: "(analyzerCtx \<Rightarrow> ast \<Rightarrow> (analyzerCtx \<times> ast) option) \<Rightarrow> analyzerCtx \<Rightarrow> ast \<Rightarrow> bool" where
  "stableS g ctx n = (\<forall>ctx' n'. g ctx n = Some (ctx', n') \<longrightarrow>
      emittedS ctx ctx' \<and> g ctx n' = Some (ctx', n') \<and> cls (info n') = cls (info n))"

definition stableL :: "env \<Rightarrow> analyzerCtx \<Rightarrow> ast list \<Rightarrow> bool" where
  "stableL E ctx ns = (\<forall>ctx' ns'. analyzerNodes E ctx ns = Some (ctx', ns') \<longrightarrow>
      emittedS ctx ctx' \<and> analyzerNodes E ctx ns' = Some (ctx', ns'))"

text \<open>
  The assumption on the two functions of \<^verbatim>\<open>analyzer-decl.c\<close>, whose source is not at
  hand: they are stable in the same sense.
\<close>

definition declStable :: "env \<Rightarrow> bool" where
  "declStable E = (\<forall>ctx n. stableS (analyzerDecl E) ctx n \<and> stableS (analyzerDeclStruct E) ctx n)"

text \<open>What \<^verbatim>\<open>analyzerValue\<close> does with a node it has no case for.\<close>

definition analyzerUnhandled :: "env \<Rightarrow> analyzerCtx \<Rightarrow> ast \<Rightarrow> (analyzerCtx \<times> ast \<times> type) option" where
  "analyzerUnhandled E ctx Node =
     (case Node of Ast i l r cs \<Rightarrow> Some (ctx, Ast (setDT i typeCreateInvalid) l r cs, typeCreateInvalid))"

text \<open>
  What the traversal leaves of a tree. \<open>visited E n n'\<close> relates an expression \<open>n\<close>
  to the node \<^verbatim>\<open>analyzerValue\<close> makes of it: \<open>n'\<close> has a type, it is \<open>n\<close> in every
  other field (a member access also has its symbol set), the operands that the function
  for its class hands to \<^verbatim>\<open>analyzerValue\<close> are related in the same way, and the
  operands it does not hand on are the same in \<open>n'\<close> as in \<open>n\<close>. The operands
  handed on are: both operands of a numeric, assignment or comparison operator, the left
  operand of a member access, the right operand of a comma and of a unary operator, the
  condition and both branches of a ternary, both operands of an index, the callee of a
  call, and the first element of an array literal. The arguments of a call are handed on
  only in the \<^verbatim>\<open>else\<close> branch of \<^verbatim>\<open>analyzerCall\<close>, where the callee's type is
  callable and the number of arguments is the number of parameters; \<open>visitedArgs\<close>
  follows the loop there, which stops at the shorter of the arguments and the symbol's
  children. A binary operator of no known class (\<^verbatim>\<open>&&\<close>, \<^verbatim>\<open>||\<close>) has neither
  operand handed on.
\<close>

function (sequential) visited :: "env \<Rightarrow> ast \<Rightarrow> ast \<Rightarrow> bool"
  and visitedArgs :: "env \<Rightarrow> nat list \<Rightarrow> ast list \<Rightarrow> ast list \<Rightarrow> bool"
where
  "visited E (Ast i l r cs) (Ast i' l' r' cs') =
     (ndt i' \<noteq> None \<and>
      (if cls i = astBOP then
         (if isNumericBOP (opr i) \<or> isAssignmentBOP (opr i)
             \<or> isOrdinalBOP (opr i) \<or> isEqualityBOP (opr i) then
            i' = i\<lparr>ndt := ndt i'\<rparr> \<and> cs' = cs
            \<and> (case (l, l') of (Some a, Some a') \<Rightarrow> visited E a a' | _ \<Rightarrow> False)
            \<and> (case (r, r') of (Some b, Some b') \<Rightarrow> visited E b b' | _ \<Rightarrow> False)
          else if isMemberBOP (opr i) then
            i' = i\<lparr>ndt := ndt i', symbol := symbol i'\<rparr> \<and> r' = r \<and> cs' = cs
            \<and> (case (l, l') of (Some a, Some a') \<Rightarrow> visited E a a' | _ \<Rightarrow> False)
          else if isCommaBOP (opr i) then
            i' = i\<lparr>ndt := ndt i'\<rparr> \<and> l' = l \<and> cs' = cs
            \<and> (case (r, r') of (Some b, Some b') \<Rightarrow> visited E b b' | _ \<Rightarrow> False)
          else i' = i\<lparr>ndt := ndt i'\<rparr> \<and> l' = l \<and> r' = r \<and> cs' = cs)
       else if cls i = astUOP then
         i' = i\<lparr>ndt := ndt i'\<rparr> \<and> l' = l \<and> cs' = cs
         \<and> (case (r, r') of (Some b, Some b') \<Rightarrow> visited E b b' | _ \<Rightarrow> False)
       else if cls i = astTOP then
         i' = i\<lparr>ndt := ndt i'\<rparr>
         \<and> (case (cs, cs') of (c # rest, c' # rest') \<Rightarrow> visited E c c' \<and> rest' = rest
             | _ \<Rightarrow> False)
         \<and> (case (l, l') of (Some a, Some a') \<Rightarrow> visited E a a' | _ \<Rightarrow> False)
         \<and> (case (r, r') of (Some b, Some b') \<Rightarrow> visited E b b' | _ \<Rightarrow> False)
       else if cls i = astIndex then
         i' = i\<lparr>ndt := ndt i'\<rparr> \<and> cs' = cs
         \<and> (case (l, l') of (Some a, Some a') \<Rightarrow> visited E a a' | _ \<Rightarrow> False)
         \<and> (case (r, r') of (Some b, Some b') \<Rightarrow> visited E b b' | _ \<Rightarrow> False)
       else if cls i = astCall then
         i' = i\<lparr>ndt := ndt i'\<rparr> \<and> r' = r
         \<and> (case (l, l') of
               (Some a, Some a') \<Rightarrow>
                 visited E a a'
                 \<and> (case (ndt (info a'), symbol i) of
                       (Some L, Some s) \<Rightarrow>
                         if typeIsCallable L \<and> calleeParams L = Some (childCount cs) then
                           visitedArgs E (children (symtab E s)) cs cs'
                         else cs' = cs
                     | _ \<Rightarrow> False)
             | _ \<Rightarrow> False)
       else if cls i = astLiteral \<and> litClass i = literalArray then
         i' = i\<lparr>ndt := ndt i'\<rparr> \<and> l' = l \<and> r' = r
         \<and> (case (cs, cs') of (c # rest, c' # rest') \<Rightarrow> visited E c c' \<and> rest' = rest
             | _ \<Rightarrow> False)
       else i' = i\<lparr>ndt := ndt i'\<rparr> \<and> l' = l \<and> r' = r \<and> cs' = cs))"
| "visitedArgs E ps [] cs' = (cs' = [])"
| "visitedArgs E [] (c # cs) cs' = (cs' = c # cs)"
| "visitedArgs E (p # ps) (c # cs) [] = False"
| "visitedArgs E (p # ps) (c # cs) (c' # cs') = (visited E c c' \<and> visitedArgs E ps cs cs')"
  by pat_completeness auto

termination
  by (relation "measure (case_sum (\<lambda>(E, n, n'). size n) (\<lambda>(E, ps, cs, cs'). size_list size cs))")
    auto

text \<open>
  \<open>walked E n n'\<close> is the same for a statement and \<^verbatim>\<open>analyzerNode\<close>: the node is
  unchanged but for the statements below it, which are related in the same way, and the
  expressions it hands to \<^verbatim>\<open>analyzerValue\<close>: the condition of an \<^verbatim>\<open>if\<close> and of a
  loop, the three expressions in the header of a \<^verbatim>\<open>for\<close> unless empty, the expression
  of a \<^verbatim>\<open>return\<close>, and an expression used as a statement. Nothing is said of a
  declaration, which \<^verbatim>\<open>analyzer-decl.c\<close> analyses, nor of the declarator of a function
  implementation. \<open>walkedModule\<close> is the same for the module and \<^verbatim>\<open>analyzer\<close>.
\<close>

function (sequential) walked :: "env \<Rightarrow> ast \<Rightarrow> ast \<Rightarrow> bool"
  and walkedList :: "env \<Rightarrow> ast list \<Rightarrow> ast list \<Rightarrow> bool"
where
  "walked E (Ast i l r cs) (Ast i' l' r' cs') =
     (if cls i = astEmpty \<or> cls i = astInvalid then Ast i' l' r' cs' = Ast i l r cs
      else if cls i = astFnImpl then
        i' = i \<and> cs' = cs \<and> l' \<noteq> None
        \<and> (case (r, r') of (Some b, Some b') \<Rightarrow> walked E b b' | _ \<Rightarrow> False)
      else if cls i = astDeclStruct \<or> cls i = astDecl then True
      else if cls i = astCode then i' = i \<and> l' = l \<and> r' = r \<and> walkedList E cs cs'
      else if cls i = astBranch then
        i' = i
        \<and> (case (cs, cs') of (c # rest, c' # rest') \<Rightarrow> visited E c c' \<and> rest' = rest
            | _ \<Rightarrow> False)
        \<and> (case (l, l') of (Some a, Some a') \<Rightarrow> walked E a a' | _ \<Rightarrow> False)
        \<and> (case (r, r') of
              (None, None) \<Rightarrow> True
            | (Some b, Some b') \<Rightarrow> walked E b b'
            | _ \<Rightarrow> False)
      else if cls i = astLoop then
        i' = i \<and> cs' = cs
        \<and> (case (l, l') of
              (Some a, Some a') \<Rightarrow>
                (case (r, r') of
                   (Some b, Some b') \<Rightarrow>
                     if cls (info a) = astCode then visited E b b' \<and> walked E a a'
                     else visited E a a' \<and> walked E b b'
                 | _ \<Rightarrow> False)
            | _ \<Rightarrow> False)
      else if cls i = astIter then
        i' = i \<and> r' = r
        \<and> (case (cs, cs') of
              (init # cond # iter # rest, init' # cond' # iter' # rest') \<Rightarrow>
                (if cls (info init) = astDecl then walked E init init'
                 else if cls (info init) \<noteq> astEmpty then visited E init init'
                 else init' = init)
                \<and> (if cls (info cond) \<noteq> astEmpty then visited E cond cond' else cond' = cond)
                \<and> (if cls (info iter) \<noteq> astEmpty then visited E iter iter' else iter' = iter)
                \<and> rest' = rest
            | _ \<Rightarrow> False)
        \<and> (case (l, l') of (Some a, Some a') \<Rightarrow> walked E a a' | _ \<Rightarrow> False)
      else if cls i = astReturn then
        i' = i \<and> l' = l \<and> cs' = cs
        \<and> (case (r, r') of
              (None, None) \<Rightarrow> True
            | (Some b, Some b') \<Rightarrow> visited E b b'
            | _ \<Rightarrow> False)
      else if cls i = astBreak then Ast i' l' r' cs' = Ast i l r cs
      else if astIsValueClass (cls i) then visited E (Ast i l r cs) (Ast i' l' r' cs')
      else Ast i' l' r' cs' = Ast i l r cs)"
| "walkedList E [] ns' = (ns' = [])"
| "walkedList E (n # ns) [] = False"
| "walkedList E (n # ns) (n' # ns') = (walked E n n' \<and> walkedList E ns ns')"
  by pat_completeness auto

termination
  by (relation "measure (case_sum (\<lambda>(E, n, n'). size n) (\<lambda>(E, ns, ns'). size_list size ns))")
    auto

definition walkedModule :: "env \<Rightarrow> ast \<Rightarrow> ast \<Rightarrow> bool" where
  "walkedModule E Tree Tree' =
     (case (Tree, Tree') of
        (Ast i l r cs, Ast i' l' r' cs') \<Rightarrow> i' = i \<and> l' = l \<and> r' = r \<and> walkedList E cs cs')"

text \<open>
  The parser's counterpart of \<open>diagnoses\<close>: what was written between two contexts of
  the parser, and the count.
\<close>

definition parserDiagnoses :: "parserCtx \<Rightarrow> parserCtx \<Rightarrow> (location \<times> string) list \<Rightarrow> bool" where
  "parserDiagnoses c c' ds =
     (pstdout c' = pstdout c @ map (\<lambda>d. parserLine (fst d) (snd d)) ds
      \<and> perrors c' = perrors c + int (length ds))"

section \<open>A small program to run the analyzer on\<close>

text \<open>
  The symbols of
  \<^verbatim>\<open>int f(int a, int b); struct S { int a; }; struct S s; int *p; int x;\<close>
  \<^verbatim>\<open>struct S *ps; void g(); int main();\<close>
  with the four built-in types at addresses 0 to 3.
\<close>

definition mkSym :: "string \<Rightarrow> symTag \<Rightarrow> type option \<Rightarrow> nat list \<Rightarrow> sym" where
  "mkSym n t d cs = \<lparr>ident = n, tag = t, dt = d, children = cs\<rparr>"

definition exSyms :: symtab where
  "exSyms =
     (\<lambda>_. mkSym [] symScope None [])
       (0 := mkSym ''void'' symType None [],
        1 := mkSym ''bool'' symType None [],
        2 := mkSym ''char'' symType None [],
        3 := mkSym ''int'' symType None [],
        10 := mkSym ''f'' symId (Some (typeFunction (typeBasic 3) 2)) [11, 12],
        11 := mkSym ''a'' symParam (Some (typeBasic 3)) [],
        12 := mkSym ''b'' symParam (Some (typeBasic 3)) [],
        20 := mkSym ''S'' symStruct None [21],
        21 := mkSym ''a'' symId (Some (typeBasic 3)) [],
        22 := mkSym ''s'' symId (Some (typeBasic 20)) [],
        23 := mkSym ''p'' symId (Some (typePtr (typeBasic 3))) [],
        24 := mkSym ''x'' symId (Some (typeBasic 3)) [],
        25 := mkSym ''ps'' symId (Some (typePtr (typeBasic 20))) [],
        30 := mkSym ''g'' symId (Some (typeFunction (typeBasic 0) 0)) [],
        40 := mkSym ''main'' symId (Some (typeFunction (typeBasic 3) 0)) [])"

text \<open>
  An environment over these symbols: every type is rendered as \<open>T\<close>, and the analysis
  of a declaration does nothing.
\<close>

definition exEnv :: env where
  "exEnv =
     \<lparr>symtab = exSyms, typeToStr = (\<lambda>t. ''T''),
      analyzerDecl = (\<lambda>ctx n. Some (ctx, n)),
      analyzerDeclStruct = (\<lambda>ctx n. Some (ctx, n))\<rparr>"

fun exTypes :: "builtin \<Rightarrow> nat" where
  "exTypes builtinVoid = 0"
| "exTypes builtinBool = 1"
| "exTypes builtinChar = 2"
| "exTypes builtinInt = 3"

definition exCtx :: analyzerCtx where
  "exCtx = analyzerInit exTypes"

text \<open>The context inside a function that returns \<open>int\<close>.\<close>

definition exIntCtx :: analyzerCtx where
  "exIntCtx = exCtx\<lparr>returnType := Some (typeBasic 3)\<rparr>"

definition mkInfo :: "astTag \<Rightarrow> literalTag \<Rightarrow> string \<Rightarrow> string \<Rightarrow> nat option \<Rightarrow> int \<Rightarrow> astInfo" where
  "mkInfo c lc o' lit s col =
     \<lparr>cls = c, litClass = lc, opr = o', literal = lit, symbol = s, ndt = None,
      loc = \<lparr>line = 1, lineChar = col\<rparr>\<rparr>"

definition litInt :: "string \<Rightarrow> int \<Rightarrow> ast" where
  "litInt v col = Ast (mkInfo astLiteral literalInt [] v None col) None None []"

definition litIdent :: "string \<Rightarrow> nat \<Rightarrow> int \<Rightarrow> ast" where
  "litIdent v s col = Ast (mkInfo astLiteral literalIdent [] v (Some s) col) None None []"

definition mkBOP :: "string \<Rightarrow> ast \<Rightarrow> ast \<Rightarrow> int \<Rightarrow> ast" where
  "mkBOP o' a b col = Ast (mkInfo astBOP literalUndefined o' [] None col) (Some a) (Some b) []"

definition mkCall :: "nat \<Rightarrow> ast \<Rightarrow> ast list \<Rightarrow> int \<Rightarrow> ast" where
  "mkCall s callee args col =
     Ast (mkInfo astCall literalUndefined [] [] (Some s) col) (Some callee) None args"

text \<open>\<^verbatim>\<open>f(1)\<close>: one argument given to a function of two parameters.\<close>

definition exCall :: ast where
  "exCall = mkCall 10 (litIdent ''f'' 10 1) [litInt ''1'' 3] 2"

text \<open>
  \<^verbatim>\<open>x()\<close>, a call of the variable \<open>x\<close>, which is an \<open>int\<close>; \<^verbatim>\<open>f(s, 2)\<close>, whose
  first argument is a structure where an \<open>int\<close> is expected; and \<^verbatim>\<open>f(1, 2)\<close>.
\<close>

definition exNoArgCall :: ast where
  "exNoArgCall = mkCall 24 (litIdent ''x'' 24 1) [] 2"

definition exMismatchCall :: ast where
  "exMismatchCall = mkCall 10 (litIdent ''f'' 10 1) [litIdent ''s'' 22 3, litInt ''2'' 6] 2"

definition exGoodCall :: ast where
  "exGoodCall = mkCall 10 (litIdent ''f'' 10 1) [litInt ''1'' 3, litInt ''2'' 6] 2"

text \<open>\<^verbatim>\<open>p < p\<close>, \<^verbatim>\<open>1 < 2\<close>, \<^verbatim>\<open>s.a\<close>, \<^verbatim>\<open>s.b\<close>, \<^verbatim>\<open>1, 2\<close> and \<^verbatim>\<open>1, g()\<close>.\<close>

definition exPtrLess :: ast where
  "exPtrLess = mkBOP ''<'' (litIdent ''p'' 23 1) (litIdent ''p'' 23 5) 3"

definition exIntLess :: ast where
  "exIntLess = mkBOP ''<'' (litInt ''1'' 1) (litInt ''2'' 5) 3"

definition exMember :: ast where
  "exMember = mkBOP ''.'' (litIdent ''s'' 22 1) (litIdent ''a'' 21 3) 2"

definition exNoMember :: ast where
  "exNoMember = mkBOP ''.'' (litIdent ''s'' 22 1) (litIdent ''b'' 21 3) 2"

definition exComma :: ast where
  "exComma = mkBOP '','' (litInt ''1'' 1) (litInt ''2'' 4) 2"

definition exCommaVoid :: ast where
  "exCommaVoid = mkBOP '','' (litInt ''1'' 1) (mkCall 30 (litIdent ''g'' 30 4) [] 5) 2"

text \<open>
  \<^verbatim>\<open>s < 1\<close>, \<^verbatim>\<open>ps->a\<close>, \<^verbatim>\<open>y.a\<close> where \<open>y\<close> is not declared (the parser leaves
  an \<open>Invalid\<close> node for it), \<^verbatim>\<open>1 && 2\<close> and the array literal \<^verbatim>\<open>{1, 2}\<close>.
\<close>

definition exStructLess :: ast where
  "exStructLess = mkBOP ''<'' (litIdent ''s'' 22 1) (litInt ''1'' 5) 3"

definition exDeref :: ast where
  "exDeref = mkBOP ''->'' (litIdent ''ps'' 25 1) (litIdent ''a'' 21 5) 3"

definition exUndeclared :: ast where
  "exUndeclared = Ast (mkInfo astInvalid literalUndefined [] ''y'' None 1) None None []"

definition exInvalidMember :: ast where
  "exInvalidMember = mkBOP ''.'' exUndeclared (litIdent ''a'' 21 3) 2"

definition exAnd :: ast where
  "exAnd = mkBOP ''&&'' (litInt ''1'' 1) (litInt ''2'' 6) 3"

definition exArray :: ast where
  "exArray = Ast (mkInfo astLiteral literalArray [] [] None 1) None None
               [litInt ''1'' 2, litInt ''2'' 5]"

text \<open>\<^verbatim>\<open>return;\<close>, \<^verbatim>\<open>return 1;\<close> and \<^verbatim>\<open>return s;\<close>.\<close>

definition mkReturn :: "ast option \<Rightarrow> ast" where
  "mkReturn e = Ast (mkInfo astReturn literalUndefined [] [] None 1) None e []"

text \<open>
  \<^verbatim>\<open>int main() { f(1); return 1; }\<close> as a module: the declarator of \<open>main\<close> is an
  identifier node, the body a block of two statements.
\<close>

definition exModule :: ast where
  "exModule =
     Ast (mkInfo astModule literalUndefined [] [] None 1) None None
       [Ast (mkInfo astFnImpl literalUndefined [] [] (Some 40) 1)
          (Some (litIdent ''main'' 40 5))
          (Some (Ast (mkInfo astCode literalUndefined [] [] None 12) None None
                   [exCall, mkReturn (Some (litInt ''1'' 8))]))
          []]"

text \<open>A node with its type filled in, to write down what an analysis returns.\<close>

fun withDT :: "ast \<Rightarrow> type \<Rightarrow> ast" where
  "withDT (Ast i l r cs) DT = Ast (i\<lparr>ndt := Some DT\<rparr>) l r cs"

text \<open>
  \<^verbatim>\<open>f(1)\<close> and the module after the analysis: the call and its callee are typed, the
  argument is not.
\<close>

definition exCallTyped :: ast where
  "exCallTyped =
     Ast ((mkInfo astCall literalUndefined [] [] (Some 10) 2)\<lparr>ndt := Some (typeBasic 3)\<rparr>)
       (Some (withDT (litIdent ''f'' 10 1) (typeFunction (typeBasic 3) 2))) None
       [litInt ''1'' 3]"

definition exModuleTyped :: ast where
  "exModuleTyped =
     Ast (mkInfo astModule literalUndefined [] [] None 1) None None
       [Ast (mkInfo astFnImpl literalUndefined [] [] (Some 40) 1)
          (Some (litIdent ''main'' 40 5))
          (Some (Ast (mkInfo astCode literalUndefined [] [] None 12) None None
                   [exCallTyped, mkReturn (Some (withDT (litInt ''1'' 8) (typeBasic 3)))]))
          []]"

text \<open>
  \<^verbatim>\<open>int main() { 1, 2; s.a; 1 && 2; {1, 2}; return 1; }\<close>, and the statements and the
  module after the analysis.
\<close>

definition exModule2 :: ast where
  "exModule2 =
     Ast (mkInfo astModule literalUndefined [] [] None 1) None None
       [Ast (mkInfo astFnImpl literalUndefined [] [] (Some 40) 1)
          (Some (litIdent ''main'' 40 5))
          (Some (Ast (mkInfo astCode literalUndefined [] [] None 12) None None
                   [exComma, exMember, exAnd, exArray, mkReturn (Some (litInt ''1'' 8))]))
          []]"

definition exCommaTyped :: ast where
  "exCommaTyped =
     Ast ((mkInfo astBOP literalUndefined '','' [] None 2)\<lparr>ndt := Some (typeBasic 3)\<rparr>)
       (Some (litInt ''1'' 1)) (Some (withDT (litInt ''2'' 4) (typeBasic 3))) []"

definition exMemberTyped :: ast where
  "exMemberTyped =
     Ast ((mkInfo astBOP literalUndefined ''.'' [] None 2)
            \<lparr>symbol := Some 21, ndt := Some (typeBasic 3)\<rparr>)
       (Some (withDT (litIdent ''s'' 22 1) (typeBasic 20))) (Some (litIdent ''a'' 21 3)) []"

definition exAndTyped :: ast where
  "exAndTyped =
     Ast ((mkInfo astBOP literalUndefined ''&&'' [] None 3)\<lparr>ndt := Some typeInvalid\<rparr>)
       (Some (litInt ''1'' 1)) (Some (litInt ''2'' 6)) []"

definition exArrayTyped :: ast where
  "exArrayTyped =
     Ast ((mkInfo astLiteral literalArray [] [] None 1)\<lparr>ndt := Some (typeArray (typeBasic 3) 2)\<rparr>)
       None None [withDT (litInt ''1'' 2) (typeBasic 3), litInt ''2'' 5]"

definition exModule2Typed :: ast where
  "exModule2Typed =
     Ast (mkInfo astModule literalUndefined [] [] None 1) None None
       [Ast (mkInfo astFnImpl literalUndefined [] [] (Some 40) 1)
          (Some (litIdent ''main'' 40 5))
          (Some (Ast (mkInfo astCode literalUndefined [] [] None 12) None None
                   [exCommaTyped, exMemberTyped, exAndTyped, exArrayTyped,
                    mkReturn (Some (withDT (litInt ''1'' 8) (typeBasic 3)))]))
          []]"

text \<open>Readers of a result, to state what a run returned without naming all of it.\<close>

fun astChildren :: "ast \<Rightarrow> ast list" where
  "astChildren (Ast i l r cs) = cs"

fun astL :: "ast \<Rightarrow> ast option" where
  "astL (Ast i l r cs) = l"

fun astR :: "ast \<Rightarrow> ast option" where
  "astR (Ast i l r cs) = r"

definition nodeDT :: "ast \<Rightarrow> type option" where
  "nodeDT n = ndt (info n)"

text \<open>A lexer that reads nothing more: every token after the current one is the end of file.\<close>

definition exNext :: "lexerCtx \<Rightarrow> lexerCtx" where
  "exNext lx = lx\<lparr>token := tokenEOF, buffer := [], unread := []\<rparr>"

definition exParserCtx :: parserCtx where
  "exParserCtx =
     \<lparr>lexer = \<lparr>token = tokenIdent, buffer = ''x'', streamLine = 1, streamLineChar = 2,
               unread = []\<rparr>,
      scope = 0, location = \<lparr>line = 1, lineChar = 1\<rparr>, perrors = 0, pstdout = [],
      pstdin = []\<rparr>"

lemmas exDefs =
  exSyms_def exEnv_def exCtx_def exIntCtx_def mkSym_def mkInfo_def litInt_def litIdent_def
  mkBOP_def mkCall_def exCall_def exNoArgCall_def exMismatchCall_def exGoodCall_def
  exStructLess_def exDeref_def exUndeclared_def exInvalidMember_def exAnd_def exArray_def
  exPtrLess_def exIntLess_def exMember_def
  exNoMember_def exComma_def exCommaVoid_def mkReturn_def exModule_def nodeDT_def
  exNext_def exParserCtx_def analyzerInit_def

section \<open>Lemmas\<close>

lemma emitted_refl [simp]: "emitted c c"
  unfolding emitted_def diagnoses_def by (rule exI[of _ "[]"]) simp

lemma emitted_trans: "emitted a b \<Longrightarrow> emitted b c \<Longrightarrow> emitted a c"
  unfolding emitted_def diagnoses_def
  apply clarify
  subgoal for ds es by (rule exI[of _ "ds @ es"]) simp
  done

lemma analyzerError_emitted: "analyzerError c N msg = Some c' \<Longrightarrow> emitted c c'"
  unfolding emitted_def analyzerError_def diagnoses_def
  apply (cases N; simp split: if_splits)
  subgoal for i by (rule exI[of _ "[(loc i, msg)]"]) (auto simp: analyzerLine_def)
  done

lemma errs_emitted:
  "analyzerErrorOp E c o' d N T = Some c' \<Longrightarrow> emitted c c'"
  "analyzerErrorMismatch E c N o' L R = Some c' \<Longrightarrow> emitted c c'"
  "analyzerErrorExpected E c N w e T = Some c' \<Longrightarrow> emitted c c'"
  "analyzerErrorExpectedType E c N w L R = Some c' \<Longrightarrow> emitted c c'"
  "analyzerErrorDegree c N th a b w = Some c' \<Longrightarrow> emitted c c'"
  "analyzerErrorParamMismatch E c N k L R = Some c' \<Longrightarrow> emitted c c'"
  "analyzerErrorMember E c o' N T = Some c' \<Longrightarrow> emitted c c'"
  by (auto simp: analyzerErrorOp_def analyzerErrorMismatch_def analyzerErrorExpected_def
      analyzerErrorExpectedType_def analyzerErrorDegree_def analyzerErrorParamMismatch_def
      analyzerErrorMember_def dest: analyzerError_emitted split: Option.bind_splits)

lemma if_emitted:
  "(if b then analyzerErrorOp E c o' d N T else Some c) = Some c' \<Longrightarrow> emitted c c'"
  "(if b then analyzerErrorParamMismatch E c N k L R else Some c) = Some c' \<Longrightarrow> emitted c c'"
  "(if b then analyzerErrorExpected E c N w e T else Some c) = Some c' \<Longrightarrow> emitted c c'"
  by (auto split: if_splits dest: errs_emitted)

lemma setDT_simps [simp]:
  "cls (setDT i X) = cls i" "opr (setDT i X) = opr i" "litClass (setDT i X) = litClass i"
  "literal (setDT i X) = literal i" "symbol (setDT i X) = symbol i" "loc (setDT i X) = loc i"
  "ndt (setDT i X) = Some X" "setDT (setDT i X) Y = setDT i Y"
  "setDT (i\<lparr>symbol := s\<rparr>) Y = (setDT i Y)\<lparr>symbol := s\<rparr>"
  by (simp_all add: setDT_def)

lemma err_node_cong:
  "analyzerErrorMismatch E c (Some (setDT i X)) o' L R = analyzerErrorMismatch E c (Some i) o' L R"
  "analyzerErrorDegree c (Some (setDT i X)) th a b w = analyzerErrorDegree c (Some i) th a b w"
  by (simp_all add: analyzerErrorMismatch_def analyzerErrorDegree_def analyzerError_def)

lemma err_param_cong:
  "analyzerErrorParamMismatch E c (Some (setDT i X)) k L R
   = analyzerErrorParamMismatch E c (Some i) k L R"
  by (cases "symbol i") (simp_all add: analyzerErrorParamMismatch_def analyzerError_def)

lemma BOPCheck_props:
  assumes "analyzerBOPCheck E c i nl L nr R cs = Some (c', n', T)"
  shows "emitted c c'" and "n' = Ast (setDT i T) (Some nl) (Some nr) cs"
  using assms
  by (auto simp: analyzerBOPCheck_def Option.bind_eq_Some_conv
      dest!: if_emitted errs_emitted intro: emitted_trans split: if_splits)

lemma BOPCheck_again:
  "analyzerBOPCheck E c (setDT i X) nl L nr R cs = analyzerBOPCheck E c i nl L nr R cs"
  unfolding analyzerBOPCheck_def by (simp only: setDT_simps err_node_cong)

lemma ComparisonBOPCheck_props:
  assumes "analyzerComparisonBOPCheck E c i nl L nr R cs = Some (c', n', T)"
  shows "emitted c c'" and "n' = Ast (setDT i T) (Some nl) (Some nr) cs"
  using assms
  by (auto simp: analyzerComparisonBOPCheck_def Option.bind_eq_Some_conv
      dest!: if_emitted errs_emitted intro: emitted_trans split: if_splits)

lemma ComparisonBOPCheck_again:
  "analyzerComparisonBOPCheck E c (setDT i X) nl L nr R cs
   = analyzerComparisonBOPCheck E c i nl L nr R cs"
  unfolding analyzerComparisonBOPCheck_def by (simp only: setDT_simps err_node_cong)

lemma memberSymbol_again:
  "memberSymbol E i L r = Some sy \<Longrightarrow> memberSymbol E ((setDT i X)\<lparr>symbol := sy\<rparr>) L r = Some sy"
  by (auto simp: memberSymbol_def Option.bind_eq_Some_conv split: if_splits)

lemma MemberBOPCheck_props:
  assumes "analyzerMemberBOPCheck E c i nl L r cs = Some (c', n', T)"
  shows "emitted c c'"
    and "\<exists>sy. memberSymbol E i L r = Some sy \<and> n' = Ast ((setDT i T)\<lparr>symbol := sy\<rparr>) (Some nl) r cs"
  using assms
  by (auto simp: analyzerMemberBOPCheck_def Option.bind_eq_Some_conv
      dest!: if_emitted errs_emitted intro: emitted_trans split: if_splits option.splits)

lemma MemberBOPCheck_again:
  assumes "memberSymbol E i L r = Some sy"
  shows "analyzerMemberBOPCheck E c ((setDT i X)\<lparr>symbol := sy\<rparr>) nl L r cs
         = analyzerMemberBOPCheck E c i nl L r cs"
  using assms
  by (cases sy) (simp_all add: analyzerMemberBOPCheck_def memberSymbol_again cong: if_cong)

lemma CommaBOPCheck_props:
  assumes "analyzerCommaBOPCheck E c i l nr R cs = Some (c', n', T)"
  shows "emitted c c'" and "n' = Ast (setDT i T) l (Some nr) cs"
  using assms
  by (auto simp: analyzerCommaBOPCheck_def Option.bind_eq_Some_conv
      dest!: if_emitted errs_emitted intro: emitted_trans split: if_splits)

lemma CommaBOPCheck_again:
  "analyzerCommaBOPCheck E c (setDT i X) l nr R cs = analyzerCommaBOPCheck E c i l nr R cs"
  unfolding analyzerCommaBOPCheck_def by (simp only: setDT_simps err_node_cong)

lemma UOPCheck_props:
  assumes "analyzerUOPCheck E c i l nr R cs = Some (c', n', T)"
  shows "emitted c c'" and "n' = Ast (setDT i T) l (Some nr) cs"
  using assms
  by (auto simp: analyzerUOPCheck_def Option.bind_eq_Some_conv
      dest!: if_emitted errs_emitted intro: emitted_trans split: if_splits)

lemma UOPCheck_again:
  "analyzerUOPCheck E c (setDT i X) l nr R cs = analyzerUOPCheck E c i l nr R cs"
  unfolding analyzerUOPCheck_def by (simp only: setDT_simps err_node_cong)

lemma TernaryCheck_props:
  assumes "analyzerTernaryCheck E c i cn Cond nl L nr R cs = Some (c', n', T)"
  shows "emitted c c'" and "n' = Ast (setDT i T) (Some nl) (Some nr) (cn # cs)"
  using assms
  by (auto simp: analyzerTernaryCheck_def Option.bind_eq_Some_conv
      dest!: if_emitted errs_emitted intro: emitted_trans split: if_splits)

lemma TernaryCheck_again:
  "analyzerTernaryCheck E c (setDT i X) cn Cond nl L nr R cs
   = analyzerTernaryCheck E c i cn Cond nl L nr R cs"
  unfolding analyzerTernaryCheck_def by (simp only: setDT_simps err_node_cong)

lemma IndexCheck_props:
  assumes "analyzerIndexCheck E c i nl L nr R cs = Some (c', n', T)"
  shows "emitted c c'" and "n' = Ast (setDT i T) (Some nl) (Some nr) cs"
  using assms
  by (auto simp: analyzerIndexCheck_def Option.bind_eq_Some_conv
      dest!: if_emitted errs_emitted intro: emitted_trans split: if_splits)

lemma IndexCheck_again:
  "analyzerIndexCheck E c (setDT i X) nl L nr R cs = analyzerIndexCheck E c i nl L nr R cs"
  unfolding analyzerIndexCheck_def by (simp only: setDT_simps err_node_cong)

lemma Literal_props:
  assumes "analyzerLiteral E c (Ast i l r cs) = Some (c', n', T)"
  shows "c' = c" and "n' = Ast (setDT i T) l r cs"
  using assms
  by (auto simp: analyzerLiteral_def Option.bind_eq_Some_conv split: if_splits)

lemma Literal_again:
  "analyzerLiteral E c (Ast (setDT i X) l r cs) = analyzerLiteral E c (Ast i l r cs)"
  unfolding analyzerLiteral_def by (simp only: setDT_simps ast.case)

lemma stableD:
  "stable f ctx n \<Longrightarrow> f ctx n = Some (ctx', n', T) \<Longrightarrow>
     emitted ctx ctx' \<and> f ctx n' = Some (ctx', n', T) \<and> sameKind n n' \<and> ndt (info n') = Some T"
  by (simp add: stable_def)

lemma dispatch_stable:
  assumes eq: "\<And>c i' l r cs. cls i' = cls i \<Longrightarrow> opr i' = opr i \<Longrightarrow> litClass i' = litClass i \<Longrightarrow>
                 analyzerValue E c (Ast i' l r cs) = f E c (Ast i' l r cs)"
    and st: "stable (f E) ctx (Ast i l r cs)"
  shows "stable (analyzerValue E) ctx (Ast i l r cs)"
  unfolding stable_def
proof (intro allI impI)
  fix ctx' n' T
  assume run: "analyzerValue E ctx (Ast i l r cs) = Some (ctx', n', T)"
  then have "f E ctx (Ast i l r cs) = Some (ctx', n', T)" by (simp only: eq[OF refl refl refl])
  note F = stableD[OF st this]
  obtain i' l' r' cs' where n': "n' = Ast i' l' r' cs'" by (cases n')
  from F have k: "cls i' = cls i" "opr i' = opr i" "litClass i' = litClass i"
    by (simp_all add: sameKind_def n')
  from F show "emitted ctx ctx' \<and> analyzerValue E ctx n' = Some (ctx', n', T)
      \<and> sameKind (Ast i l r cs) n' \<and> ndt (info n') = Some T"
    unfolding n' by (simp only: eq[OF k])
qed

lemma Literal_stable: "stable (analyzerLiteral E) ctx (Ast i l r cs)"
  unfolding stable_def
proof (intro allI impI)
  fix ctx' n' T
  assume run: "analyzerLiteral E ctx (Ast i l r cs) = Some (ctx', n', T)"
  note P = Literal_props[OF run]
  show "emitted ctx ctx' \<and> analyzerLiteral E ctx n' = Some (ctx', n', T)
      \<and> sameKind (Ast i l r cs) n' \<and> ndt (info n') = Some T"
    using run by (simp add: P Literal_again sameKind_def)
qed

lemma Unhandled_stable: "stable (analyzerUnhandled E) ctx (Ast i l r cs)"
  by (auto simp: stable_def analyzerUnhandled_def sameKind_def)

lemma value_stable:
  "stable (analyzerValue E) ctx n"
  "stable (analyzerBOP E) ctx n"
  "stable (analyzerComparisonBOP E) ctx n"
  "stable (analyzerMemberBOP E) ctx n"
  "stable (analyzerCommaBOP E) ctx n"
  "stable (analyzerUOP E) ctx n"
  "stable (analyzerTernary E) ctx n"
  "stable (analyzerIndex E) ctx n"
  "stable (analyzerCall E) ctx n"
  "stableParams E ctx i cs ps k"
  "stable (analyzerArrayLiteral E) ctx n"
proof (induction E ctx n and E ctx n and E ctx n and E ctx n and E ctx n and E ctx n and E ctx n and E ctx n and E ctx n and E ctx i cs ps k and E ctx n
    rule: analyzerValue_analyzerBOP_analyzerComparisonBOP_analyzerMemberBOP_analyzerCommaBOP_analyzerUOP_analyzerTernary_analyzerIndex_analyzerCall_analyzerCallParams_analyzerArrayLiteral.induct)
  case (1 E ctx i l r cs)
  consider (bop) "cls i = astBOP" "isNumericBOP (opr i) \<or> isAssignmentBOP (opr i)"
    | (cmp) "cls i = astBOP" "\<not> (isNumericBOP (opr i) \<or> isAssignmentBOP (opr i))"
        "isOrdinalBOP (opr i) \<or> isEqualityBOP (opr i)"
    | (member) "cls i = astBOP" "\<not> (isNumericBOP (opr i) \<or> isAssignmentBOP (opr i))"
        "\<not> (isOrdinalBOP (opr i) \<or> isEqualityBOP (opr i))" "isMemberBOP (opr i)"
    | (comma) "cls i = astBOP" "\<not> (isNumericBOP (opr i) \<or> isAssignmentBOP (opr i))"
        "\<not> (isOrdinalBOP (opr i) \<or> isEqualityBOP (opr i))" "\<not> isMemberBOP (opr i)"
        "isCommaBOP (opr i)"
    | (uop) "cls i \<noteq> astBOP" "cls i = astUOP"
    | (top) "cls i \<noteq> astBOP" "cls i \<noteq> astUOP" "cls i = astTOP"
    | (index) "cls i \<noteq> astBOP" "cls i \<noteq> astUOP" "cls i \<noteq> astTOP" "cls i = astIndex"
    | (call) "cls i \<noteq> astBOP" "cls i \<noteq> astUOP" "cls i \<noteq> astTOP" "cls i \<noteq> astIndex"
        "cls i = astCall"
    | (array) "cls i \<noteq> astBOP" "cls i \<noteq> astUOP" "cls i \<noteq> astTOP" "cls i \<noteq> astIndex"
        "cls i \<noteq> astCall" "cls i = astLiteral" "litClass i = literalArray"
    | (lit) "cls i \<noteq> astBOP" "cls i \<noteq> astUOP" "cls i \<noteq> astTOP" "cls i \<noteq> astIndex"
        "cls i \<noteq> astCall" "cls i = astLiteral" "litClass i \<noteq> literalArray"
    | (other) "(cls i = astBOP \<and> \<not> (isNumericBOP (opr i) \<or> isAssignmentBOP (opr i))
          \<and> \<not> (isOrdinalBOP (opr i) \<or> isEqualityBOP (opr i)) \<and> \<not> isMemberBOP (opr i)
          \<and> \<not> isCommaBOP (opr i))
        \<or> (cls i \<noteq> astBOP \<and> cls i \<noteq> astUOP \<and> cls i \<noteq> astTOP \<and> cls i \<noteq> astIndex
          \<and> cls i \<noteq> astCall \<and> cls i \<noteq> astLiteral)"
    by blast
  then show ?case
  proof cases
    case bop
    show ?thesis by (rule dispatch_stable[where f=analyzerBOP, OF _ "1.IH"(1)[OF bop]]) (use bop in simp)
  next
    case cmp
    show ?thesis by (rule dispatch_stable[where f=analyzerComparisonBOP, OF _ "1.IH"(2)[OF cmp]]) (use cmp in simp)
  next
    case member
    show ?thesis by (rule dispatch_stable[where f=analyzerMemberBOP, OF _ "1.IH"(3)[OF member]]) (use member in simp)
  next
    case comma
    show ?thesis by (rule dispatch_stable[where f=analyzerCommaBOP, OF _ "1.IH"(4)[OF comma]]) (use comma in simp)
  next
    case uop
    show ?thesis by (rule dispatch_stable[where f=analyzerUOP, OF _ "1.IH"(5)[OF uop]]) (use uop in simp)
  next
    case top
    show ?thesis by (rule dispatch_stable[where f=analyzerTernary, OF _ "1.IH"(6)[OF top]]) (use top in simp)
  next
    case index
    show ?thesis by (rule dispatch_stable[where f=analyzerIndex, OF _ "1.IH"(7)[OF index]]) (use index in simp)
  next
    case call
    show ?thesis by (rule dispatch_stable[where f=analyzerCall, OF _ "1.IH"(8)[OF call]]) (use call in simp)
  next
    case array
    show ?thesis by (rule dispatch_stable[where f=analyzerArrayLiteral, OF _ "1.IH"(9)[OF array]]) (use array in simp)
  next
    case lit
    show ?thesis by (rule dispatch_stable[where f=analyzerLiteral, OF _ Literal_stable]) (use lit in simp)
  next
    case other
    show ?thesis
      by (rule dispatch_stable[where f=analyzerUnhandled, OF _ Unhandled_stable]) (use other in \<open>auto simp: analyzerUnhandled_def\<close>)
  qed
next
  case (2 E ctx i l r cs)
  show ?case
    unfolding stable_def
  proof (intro allI impI)
    fix ctx' n' T
    assume run: "analyzerBOP E ctx (Ast i l r cs) = Some (ctx', n', T)"
    then obtain a c1 a1 L b c2 b1 R where l: "l = Some a"
      and va: "analyzerValue E ctx a = Some (c1, a1, L)" and r: "r = Some b"
      and vb: "analyzerValue E c1 b = Some (c2, b1, R)"
      and ck: "analyzerBOPCheck E c2 i a1 L b1 R cs = Some (ctx', n', T)"
      by (auto simp: Option.bind_eq_Some_conv)
    note A = stableD[OF "2.IH"(1)[OF l] va]
    note B = stableD[OF "2.IH"(2)[OF l va refl refl r] vb]
    note C = BOPCheck_props[OF ck]
    show "emitted ctx ctx' \<and> analyzerBOP E ctx n' = Some (ctx', n', T)
        \<and> sameKind (Ast i l r cs) n' \<and> ndt (info n') = Some T"
      using A B C ck
      by (auto simp: sameKind_def BOPCheck_again intro: emitted_trans)
  qed
next
  case (3 E ctx i l r cs)
  show ?case
    unfolding stable_def
  proof (intro allI impI)
    fix ctx' n' T
    assume run: "analyzerComparisonBOP E ctx (Ast i l r cs) = Some (ctx', n', T)"
    then obtain a c1 a1 L b c2 b1 R where l: "l = Some a"
      and va: "analyzerValue E ctx a = Some (c1, a1, L)" and r: "r = Some b"
      and vb: "analyzerValue E c1 b = Some (c2, b1, R)"
      and ck: "analyzerComparisonBOPCheck E c2 i a1 L b1 R cs = Some (ctx', n', T)"
      by (auto simp: Option.bind_eq_Some_conv)
    note A = stableD[OF "3.IH"(1)[OF l] va]
    note B = stableD[OF "3.IH"(2)[OF l va refl refl r] vb]
    note C = ComparisonBOPCheck_props[OF ck]
    show "emitted ctx ctx' \<and> analyzerComparisonBOP E ctx n' = Some (ctx', n', T)
        \<and> sameKind (Ast i l r cs) n' \<and> ndt (info n') = Some T"
      using A B C ck
      by (auto simp: sameKind_def ComparisonBOPCheck_again intro: emitted_trans)
  qed
next
  case (4 E ctx i l r cs)
  show ?case
    unfolding stable_def
  proof (intro allI impI)
    fix ctx' n' T
    assume run: "analyzerMemberBOP E ctx (Ast i l r cs) = Some (ctx', n', T)"
    then obtain a c1 a1 L where l: "l = Some a"
      and va: "analyzerValue E ctx a = Some (c1, a1, L)"
      and ck: "analyzerMemberBOPCheck E c1 i a1 L r cs = Some (ctx', n', T)"
      by (auto simp: Option.bind_eq_Some_conv)
    note A = stableD[OF "4.IH"[OF l] va]
    from MemberBOPCheck_props[OF ck] obtain sy where C: "emitted c1 ctx'"
      and ms: "memberSymbol E i L r = Some sy"
      and n': "n' = Ast ((setDT i T)\<lparr>symbol := sy\<rparr>) (Some a1) r cs"
      by blast
    show "emitted ctx ctx' \<and> analyzerMemberBOP E ctx n' = Some (ctx', n', T)
        \<and> sameKind (Ast i l r cs) n' \<and> ndt (info n') = Some T"
      using A C ck unfolding n'
      by (auto simp: sameKind_def MemberBOPCheck_again[OF ms] intro: emitted_trans)
  qed
next
  case (5 E ctx i l r cs)
  show ?case
    unfolding stable_def
  proof (intro allI impI)
    fix ctx' n' T
    assume run: "analyzerCommaBOP E ctx (Ast i l r cs) = Some (ctx', n', T)"
    then obtain b c1 b1 R where r: "r = Some b"
      and vb: "analyzerValue E ctx b = Some (c1, b1, R)"
      and ck: "analyzerCommaBOPCheck E c1 i l b1 R cs = Some (ctx', n', T)"
      by (auto simp: Option.bind_eq_Some_conv)
    note B = stableD[OF "5.IH"[OF r] vb]
    note C = CommaBOPCheck_props[OF ck]
    show "emitted ctx ctx' \<and> analyzerCommaBOP E ctx n' = Some (ctx', n', T)
        \<and> sameKind (Ast i l r cs) n' \<and> ndt (info n') = Some T"
      using B C ck
      by (auto simp: sameKind_def CommaBOPCheck_again intro: emitted_trans)
  qed
next
  case (6 E ctx i l r cs)
  show ?case
    unfolding stable_def
  proof (intro allI impI)
    fix ctx' n' T
    assume run: "analyzerUOP E ctx (Ast i l r cs) = Some (ctx', n', T)"
    then obtain b c1 b1 R where r: "r = Some b"
      and vb: "analyzerValue E ctx b = Some (c1, b1, R)"
      and ck: "analyzerUOPCheck E c1 i l b1 R cs = Some (ctx', n', T)"
      by (auto simp: Option.bind_eq_Some_conv)
    note B = stableD[OF "6.IH"[OF r] vb]
    note C = UOPCheck_props[OF ck]
    show "emitted ctx ctx' \<and> analyzerUOP E ctx n' = Some (ctx', n', T)
        \<and> sameKind (Ast i l r cs) n' \<and> ndt (info n') = Some T"
      using B C ck
      by (auto simp: sameKind_def UOPCheck_again intro: emitted_trans)
  qed
next
  case (7 E ctx i l r cs)
  show ?case
    unfolding stable_def
  proof (intro allI impI)
    fix ctx' n' T
    assume run: "analyzerTernary E ctx (Ast i l r cs) = Some (ctx', n', T)"
    then obtain cn c1 cn1 Cond a c2 a1 L b c3 b1 R where
      fc: "firstChild (Ast i l r cs) = Some cn"
      and vc: "analyzerValue E ctx cn = Some (c1, cn1, Cond)" and l: "l = Some a"
      and va: "analyzerValue E c1 a = Some (c2, a1, L)" and r: "r = Some b"
      and vb: "analyzerValue E c2 b = Some (c3, b1, R)"
      and ck: "analyzerTernaryCheck E c3 i cn1 Cond a1 L b1 R (tl cs) = Some (ctx', n', T)"
      by (auto simp: Option.bind_eq_Some_conv)
    note Z = stableD[OF "7.IH"(1)[OF fc] vc]
    note A = stableD[OF "7.IH"(2)[OF fc vc refl refl l] va]
    note B = stableD[OF "7.IH"(3)[OF fc vc refl refl l va refl refl r] vb]
    note C = TernaryCheck_props[OF ck]
    show "emitted ctx ctx' \<and> analyzerTernary E ctx n' = Some (ctx', n', T)
        \<and> sameKind (Ast i l r cs) n' \<and> ndt (info n') = Some T"
      using Z A B C ck
      by (auto simp: sameKind_def TernaryCheck_again intro: emitted_trans)
  qed
next
  case (8 E ctx i l r cs)
  show ?case
    unfolding stable_def
  proof (intro allI impI)
    fix ctx' n' T
    assume run: "analyzerIndex E ctx (Ast i l r cs) = Some (ctx', n', T)"
    then obtain a c1 a1 L b c2 b1 R where l: "l = Some a"
      and va: "analyzerValue E ctx a = Some (c1, a1, L)" and r: "r = Some b"
      and vb: "analyzerValue E c1 b = Some (c2, b1, R)"
      and ck: "analyzerIndexCheck E c2 i a1 L b1 R cs = Some (ctx', n', T)"
      by (auto simp: Option.bind_eq_Some_conv)
    note A = stableD[OF "8.IH"(1)[OF l] va]
    note B = stableD[OF "8.IH"(2)[OF l va refl refl r] vb]
    note C = IndexCheck_props[OF ck]
    show "emitted ctx ctx' \<and> analyzerIndex E ctx n' = Some (ctx', n', T)
        \<and> sameKind (Ast i l r cs) n' \<and> ndt (info n') = Some T"
      using A B C ck
      by (auto simp: sameKind_def IndexCheck_again intro: emitted_trans)
  qed
next
  case (9 E ctx i l r cs)
  show ?case
    unfolding stable_def
  proof (intro allI impI)
    fix ctx' n' T
    assume run: "analyzerCall E ctx (Ast i l r cs) = Some (ctx', n', T)"
    then obtain a c1 a1 L where l: "l = Some a"
      and va: "analyzerValue E ctx a = Some (c1, a1, L)"
      by (auto simp: Option.bind_eq_Some_conv)
    note A = stableD[OF "9.IH"(1)[OF l] va]
    note P = "9.IH"(2)[OF l va refl refl]
    show "emitted ctx ctx' \<and> analyzerCall E ctx n' = Some (ctx', n', T)
        \<and> sameKind (Ast i l r cs) n' \<and> ndt (info n') = Some T"
    proof (cases "typeIsCallable L")
      case False
      with run obtain s sdt where s: "symbol i = Some s" and sdt: "dt (symtab E s) = Some sdt"
        and eo: "analyzerErrorOp E c1 ''()'' ''function''
                   (map_option info (firstChild (Ast i l r cs))) sdt = Some ctx'"
        and n': "n' = Ast (setDT i T) (Some a1) r cs" and T: "T = typeCreateInvalid"
        by (auto simp: l va Option.bind_eq_Some_conv)
      have fc: "\<And>X. firstChild (Ast (setDT i X) (Some a1) r cs) = firstChild (Ast i l r cs)"
        by (cases cs) simp_all
      show ?thesis
        using A errs_emitted(1)[OF eo] eo False unfolding n'
        by (auto simp: s sdt fc T sameKind_def intro: emitted_trans)
    next
      case True
      with run obtain s sdt params where s: "symbol i = Some s"
        and sdt: "dt (symtab E s) = Some sdt" and pa: "calleeParams L = Some params"
        by (auto simp: l va Option.bind_eq_Some_conv)
      show ?thesis
      proof (cases "params = childCount cs")
        case False
        with run A True show ?thesis
          by (auto simp: l va s sdt pa Option.bind_eq_Some_conv sameKind_def err_node_cong
              dest: errs_emitted intro: emitted_trans)
      next
        case eq: True
        from P[of s sdt params] True s sdt pa eq
        have sp: "stableParams E c1 i cs (children (symtab E s)) 0" by simp
        from run True eq obtain cs' where
          cp: "analyzerCallParams E c1 i cs (children (symtab E s)) 0 = Some (ctx', cs')"
          and n': "n' = Ast (setDT i T) (Some a1) r cs'"
          and T: "T = typeDeepDuplicate (typeDeriveReturn sdt)"
          by (auto simp: l va s sdt pa Option.bind_eq_Some_conv)
        from sp cp have Q: "emitted c1 ctx'" "length cs' = length cs"
          "\<And>X. analyzerCallParams E c1 (setDT i X) cs' (children (symtab E s)) 0 = Some (ctx', cs')"
          by (simp_all add: stableParams_def)
        show ?thesis
          using A Q True eq unfolding n'
          by (auto simp: s sdt pa T sameKind_def childCount_def intro: emitted_trans)
      qed
    qed
  qed
next
  case (10 E ctx i ps n)
  show ?case by (simp add: stableParams_def)
next
  case (11 E ctx i c cs n)
  show ?case by (simp add: stableParams_def)
next
  case (12 E ctx i c cs p ps n)
  show ?case
    unfolding stableParams_def
  proof (intro allI impI)
    fix ctx' cs'
    assume run: "analyzerCallParams E ctx i (c # cs) (p # ps) n = Some (ctx', cs')"
    then obtain c1 cn Param pdt c2 cs'' where
      vc: "analyzerValue E ctx c = Some (c1, cn, Param)"
      and pdt: "dt (symtab E p) = Some pdt"
      and st: "(if \<not> typeIsCompatible (symtab E) Param pdt
                then analyzerErrorParamMismatch E c1 (Some i) n pdt Param else Some c1) = Some c2"
      and cp: "analyzerCallParams E c2 i cs ps (n + 1) = Some (ctx', cs'')"
      and cs': "cs' = cn # cs''"
      by (auto simp: Option.bind_eq_Some_conv)
    note A = stableD[OF "12.IH"(1) vc]
    from "12.IH"(2)[OF vc refl refl pdt st] cp
    have Q: "emitted c2 ctx'" "length cs'' = length cs"
      "\<And>X. analyzerCallParams E c2 (setDT i X) cs'' ps (n + 1) = Some (ctx', cs'')"
      by (simp_all add: stableParams_def)
    note S = if_emitted(2)[OF st]
    have st': "\<And>X. (if \<not> typeIsCompatible (symtab E) Param pdt
                then analyzerErrorParamMismatch E c1 (Some (setDT i X)) n pdt Param else Some c1) = Some c2"
      using st by (simp only: err_param_cong)
    show "emitted ctx ctx' \<and> length cs' = length (c # cs)
        \<and> (\<forall>X. analyzerCallParams E ctx (setDT i X) cs' (p # ps) n = Some (ctx', cs'))"
      using A Q S unfolding cs'
      by (auto simp: pdt st' intro: emitted_trans)
  qed
next
  case (13 E ctx i l r cs)
  show ?case
    unfolding stable_def
  proof (intro allI impI)
    fix ctx' n' T
    assume run: "analyzerArrayLiteral E ctx (Ast i l r cs) = Some (ctx', n', T)"
    then obtain cn cn1 elt where fc: "firstChild (Ast i l r cs) = Some cn"
      and vc: "analyzerValue E ctx cn = Some (ctx', cn1, elt)"
      and n': "n' = Ast (setDT i T) l r (cn1 # tl cs)"
      and T: "T = typeDeriveArray elt (childCount cs)"
      by (auto simp: Option.bind_eq_Some_conv)
    note A = stableD[OF "13.IH"[OF fc] vc]
    from fc have len: "childCount (cn1 # tl cs) = childCount cs"
      by (cases cs) (simp_all add: childCount_def)
    show "emitted ctx ctx' \<and> analyzerArrayLiteral E ctx n' = Some (ctx', n', T)
        \<and> sameKind (Ast i l r cs) n' \<and> ndt (info n') = Some T"
      using A unfolding n'
      by (auto simp: sameKind_def T len)
  qed
qed

lemma stableSD:
  "stableS g ctx n \<Longrightarrow> g ctx n = Some (ctx', n') \<Longrightarrow>
     emittedS ctx ctx' \<and> g ctx n' = Some (ctx', n') \<and> cls (info n') = cls (info n)"
  by (simp add: stableS_def)

lemma emitted_S: "emitted c c' \<Longrightarrow> emittedS c c'"
  unfolding emittedS_def emitted_def diagnoses_def
  by (rule exI[of _ "returnType c"]) simp

lemma emittedS_refl [simp]: "emittedS c c"
  by (rule emitted_S) simp

lemma emittedS_trans: "emittedS a b \<Longrightarrow> emittedS b c \<Longrightarrow> emittedS a c"
  unfolding emittedS_def emitted_def diagnoses_def
  apply clarify
  subgoal for rt rt' ds es
    by (rule exI[of _ rt'], rule exI[of _ "ds @ es"]) simp
  done

lemma emittedS_rt: "emittedS c c' \<Longrightarrow> emittedS c (c'\<lparr>returnType := x\<rparr>)"
  unfolding emittedS_def emitted_def diagnoses_def
  apply clarify
  subgoal for rt ds
    by (rule exI[of _ x], rule exI[of _ ds]) simp
  done

lemma emittedS_rt': "emittedS (c\<lparr>returnType := x\<rparr>) c' \<Longrightarrow> emittedS c c'"
  unfolding emittedS_def emitted_def diagnoses_def
  apply clarify
  subgoal for rt ds
    by (rule exI[of _ rt], rule exI[of _ ds]) simp
  done

lemma checkCondition_emitted: "checkCondition E c w n T = Some c' \<Longrightarrow> emitted c c'"
  by (auto simp: checkCondition_def split: if_splits dest: errs_emitted)


lemma Discard_stable: "stableS (analyzerValueDiscard E) ctx n"
  unfolding stableS_def
proof (intro allI impI)
  fix ctx' n'
  assume "analyzerValueDiscard E ctx n = Some (ctx', n')"
  then obtain T where v: "analyzerValue E ctx n = Some (ctx', n', T)"
    by (auto simp: analyzerValueDiscard_def Option.bind_eq_Some_conv)
  note A = stableD[OF value_stable(1) v]
  from A have "emittedS ctx ctx'" by (simp add: emitted_S)
  with A show "emittedS ctx ctx' \<and> analyzerValueDiscard E ctx n' = Some (ctx', n')
      \<and> cls (info n') = cls (info n)"
    by (simp add: analyzerValueDiscard_def sameKind_def)
qed

lemma IterValue_stable: "stableS (analyzerIterValue E) ctx n"
  unfolding stableS_def
proof (intro allI impI)
  fix ctx' n'
  assume run: "analyzerIterValue E ctx n = Some (ctx', n')"
  show "emittedS ctx ctx' \<and> analyzerIterValue E ctx n' = Some (ctx', n')
      \<and> cls (info n') = cls (info n)"
  proof (cases "cls (info n) = astEmpty")
    case True
    with run show ?thesis by (simp add: analyzerIterValue_def)
  next
    case False
    with run have "analyzerValueDiscard E ctx n = Some (ctx', n')"
      by (simp add: analyzerIterValue_def)
    note A = stableSD[OF Discard_stable this]
    with False show ?thesis by (simp add: analyzerIterValue_def)
  qed
qed

lemma IterCond_stable: "stableS (analyzerIterCond E) ctx n"
  unfolding stableS_def
proof (intro allI impI)
  fix ctx' n'
  assume run: "analyzerIterCond E ctx n = Some (ctx', n')"
  show "emittedS ctx ctx' \<and> analyzerIterCond E ctx n' = Some (ctx', n')
      \<and> cls (info n') = cls (info n)"
  proof (cases "cls (info n) = astEmpty")
    case True
    with run show ?thesis by (simp add: analyzerIterCond_def)
  next
    case False
    with run obtain c1 T where v: "analyzerValue E ctx n = Some (c1, n', T)"
      and ck: "checkCondition E c1 ''for loop'' n' T = Some ctx'"
      by (auto simp: analyzerIterCond_def Option.bind_eq_Some_conv)
    note A = stableD[OF value_stable(1) v]
    from A checkCondition_emitted[OF ck] have "emittedS ctx ctx'"
      by (blast intro: emitted_S emitted_trans)
    with A ck False show ?thesis
      by (simp add: analyzerIterCond_def sameKind_def)
  qed
qed

lemma errExpectedType_None [simp]: "analyzerErrorExpectedType E c None w L R = None"
  by (simp add: analyzerErrorExpectedType_def analyzerErrorExpected_def analyzerError_def)

lemma Return_None:
  "analyzerReturn E ctx (Ast i l None cs) = Some (ctx', n') \<Longrightarrow> ctx' = ctx \<and> n' = Ast i l None cs"
  by (auto simp: analyzerReturn_def Option.bind_eq_Some_conv split: if_splits)

lemma Return_Some:
  assumes "analyzerReturn E ctx (Ast i l (Some b) cs) = Some (ctx', n')"
  obtains c1 b1 R rt where "analyzerValue E ctx b = Some (c1, b1, R)"
    and "returnType c1 = Some rt"
    and "(if \<not> typeIsCompatible (symtab E) R rt
          then analyzerErrorExpectedType E c1 (Some (info b1)) ''return'' rt R
          else Some c1) = Some ctx'"
    and "n' = Ast i l (Some b1) cs"
  using assms
  by (auto simp: analyzerReturn_def Option.bind_eq_Some_conv cong: if_cong)

lemma Return_stable: "stableS (analyzerReturn E) ctx n"
  unfolding stableS_def
proof (intro allI impI)
  fix ctx' n'
  assume run: "analyzerReturn E ctx n = Some (ctx', n')"
  obtain i l r cs where n: "n = Ast i l r cs" by (cases n)
  show "emittedS ctx ctx' \<and> analyzerReturn E ctx n' = Some (ctx', n')
      \<and> cls (info n') = cls (info n)"
  proof (cases r)
    case None
    from run Return_None[of E ctx i l cs ctx' n'] show ?thesis
      unfolding n None by simp
  next
    case (Some b)
    from run obtain c1 b1 R rt where v: "analyzerValue E ctx b = Some (c1, b1, R)"
      and rt: "returnType c1 = Some rt"
      and st: "(if \<not> typeIsCompatible (symtab E) R rt
                then analyzerErrorExpectedType E c1 (Some (info b1)) ''return'' rt R
                else Some c1) = Some ctx'"
      and n': "n' = Ast i l (Some b1) cs"
      unfolding n Some by (rule Return_Some)
    note A = stableD[OF value_stable(1) v]
    from st have e: "emitted c1 ctx'" by (auto split: if_splits dest: errs_emitted)
    have again: "analyzerReturn E ctx (Ast i l (Some b1) cs) = Some (ctx', Ast i l (Some b1) cs)"
      using A rt st by (simp add: analyzerReturn_def cong: if_cong)
    from A e have "emittedS ctx ctx'" by (blast intro: emitted_S emitted_trans)
    with again show ?thesis
      unfolding n n' by simp
  qed
qed

lemma noop_stable: "stableS (\<lambda>c n. Some (c, n)) ctx n"
  by (simp add: stableS_def)

lemma none_stable: "g ctx n = None \<Longrightarrow> stableS g ctx n"
  by (simp add: stableS_def)

lemma node_dispatch_stable:
  assumes eq: "\<And>c i' l r cs. cls i' = cls i \<Longrightarrow> analyzerNode E c (Ast i' l r cs) = g c (Ast i' l r cs)"
    and st: "stableS g ctx (Ast i l r cs)"
  shows "stableS (analyzerNode E) ctx (Ast i l r cs)"
  unfolding stableS_def
proof (intro allI impI)
  fix ctx' n'
  assume run: "analyzerNode E ctx (Ast i l r cs) = Some (ctx', n')"
  then have "g ctx (Ast i l r cs) = Some (ctx', n')" by (simp only: eq[OF refl])
  note F = stableSD[OF st this]
  obtain i' l' r' cs' where n': "n' = Ast i' l' r' cs'" by (cases n')
  from F have k: "cls i' = cls i" by (simp add: n')
  from F show "emittedS ctx ctx' \<and> analyzerNode E ctx n' = Some (ctx', n')
      \<and> cls (info n') = cls (info (Ast i l r cs))"
    unfolding n' by (simp only: eq[OF k])
qed

lemma node_stable:
  "declStable E \<Longrightarrow> stableS (analyzerNode E) ctx n"
  "declStable E \<Longrightarrow> stableL E ctx ns"
  "declStable E \<Longrightarrow> stableS (analyzerFnImpl E) ctx n"
  "declStable E \<Longrightarrow> stableS (analyzerCode E) ctx n"
  "declStable E \<Longrightarrow> stableS (analyzerBranch E) ctx n"
  "declStable E \<Longrightarrow> stableS (analyzerLoop E) ctx n"
  "declStable E \<Longrightarrow> stableS (analyzerIter E) ctx n"
proof (induction E ctx n and E ctx ns and E ctx n and E ctx n and E ctx n and E ctx n and E ctx n
    rule: analyzerNode_analyzerNodes_analyzerFnImpl_analyzerCode_analyzerBranch_analyzerLoop_analyzerIter.induct)
  case (1 E ctx i l r cs)
  show ?case
  proof (cases "cls i")
    case astModule
    show ?thesis
      by (rule node_dispatch_stable[where g="\<lambda>c n. Some (c, n)", OF _ noop_stable])
        (simp add: astModule astIsValueClass_def)
  next
    case astFnImpl
    have st: "stableS (analyzerFnImpl E) ctx (Ast i l r cs)" by (rule "1.IH"(1)) (simp_all add: astFnImpl "1.prems")
    show ?thesis by (rule node_dispatch_stable[where g="analyzerFnImpl E", OF _ st]) (simp add: astFnImpl)
  next
    case astDecl
    have st: "stableS (analyzerDecl E) ctx (Ast i l r cs)" using "1.prems" by (simp add: declStable_def)
    show ?thesis by (rule node_dispatch_stable[where g="analyzerDecl E", OF _ st]) (simp add: astDecl)
  next
    case astDeclStruct
    have st: "stableS (analyzerDeclStruct E) ctx (Ast i l r cs)" using "1.prems" by (simp add: declStable_def)
    show ?thesis by (rule node_dispatch_stable[where g="analyzerDeclStruct E", OF _ st]) (simp add: astDeclStruct)
  next
    case astStruct
    show ?thesis
      by (rule node_dispatch_stable[where g="\<lambda>c n. Some (c, n)", OF _ noop_stable])
        (simp add: astStruct astIsValueClass_def)
  next
    case astUnion
    show ?thesis
      by (rule node_dispatch_stable[where g="\<lambda>c n. Some (c, n)", OF _ noop_stable])
        (simp add: astUnion astIsValueClass_def)
  next
    case astCode
    have st: "stableS (analyzerCode E) ctx (Ast i l r cs)" by (rule "1.IH"(2)) (simp_all add: astCode "1.prems")
    show ?thesis by (rule node_dispatch_stable[where g="analyzerCode E", OF _ st]) (simp add: astCode)
  next
    case astBranch
    have st: "stableS (analyzerBranch E) ctx (Ast i l r cs)" by (rule "1.IH"(3)) (simp_all add: astBranch "1.prems")
    show ?thesis by (rule node_dispatch_stable[where g="analyzerBranch E", OF _ st]) (simp add: astBranch)
  next
    case astLoop
    have st: "stableS (analyzerLoop E) ctx (Ast i l r cs)" by (rule "1.IH"(4)) (simp_all add: astLoop "1.prems")
    show ?thesis by (rule node_dispatch_stable[where g="analyzerLoop E", OF _ st]) (simp add: astLoop)
  next
    case astIter
    have st: "stableS (analyzerIter E) ctx (Ast i l r cs)" by (rule "1.IH"(5)) (simp_all add: astIter "1.prems")
    show ?thesis by (rule node_dispatch_stable[where g="analyzerIter E", OF _ st]) (simp add: astIter)
  next
    case astReturn
    show ?thesis by (rule node_dispatch_stable[where g="analyzerReturn E", OF _ Return_stable]) (simp add: astReturn)
  next
    case astBreak
    show ?thesis
      by (rule node_dispatch_stable[where g="\<lambda>c n. Some (c, n)", OF _ noop_stable])
        (simp add: astBreak astIsValueClass_def)
  next
    case astBOP
    show ?thesis
      by (rule node_dispatch_stable[where g="analyzerValueDiscard E", OF _ Discard_stable])
        (simp add: astBOP astIsValueClass_def)
  next
    case astUOP
    show ?thesis
      by (rule node_dispatch_stable[where g="analyzerValueDiscard E", OF _ Discard_stable])
        (simp add: astUOP astIsValueClass_def)
  next
    case astTOP
    show ?thesis
      by (rule node_dispatch_stable[where g="analyzerValueDiscard E", OF _ Discard_stable])
        (simp add: astTOP astIsValueClass_def)
  next
    case astIndex
    show ?thesis
      by (rule node_dispatch_stable[where g="analyzerValueDiscard E", OF _ Discard_stable])
        (simp add: astIndex astIsValueClass_def)
  next
    case astCall
    show ?thesis
      by (rule node_dispatch_stable[where g="analyzerValueDiscard E", OF _ Discard_stable])
        (simp add: astCall astIsValueClass_def)
  next
    case astLiteral
    show ?thesis
      by (rule node_dispatch_stable[where g="analyzerValueDiscard E", OF _ Discard_stable])
        (simp add: astLiteral astIsValueClass_def)
  next
    case astEmpty
    show ?thesis
      by (rule node_dispatch_stable[where g="\<lambda>c n. Some (c, n)", OF _ noop_stable])
        (simp add: astEmpty astIsValueClass_def)
  next
    case astInvalid
    show ?thesis
      by (rule node_dispatch_stable[where g="\<lambda>c n. Some (c, n)", OF _ noop_stable])
        (simp add: astInvalid astIsValueClass_def)
  qed
next
  case (2 E ctx)
  show ?case by (simp add: stableL_def)
next
  case (3 E ctx Current rest)
  show ?case
    unfolding stableL_def
  proof (intro allI impI)
    fix ctx' ns'
    assume run: "analyzerNodes E ctx (Current # rest) = Some (ctx', ns')"
    then obtain c1 n1 rest' where a: "analyzerNode E ctx Current = Some (c1, n1)"
      and b: "analyzerNodes E c1 rest = Some (ctx', rest')" and ns': "ns' = n1 # rest'"
      by (auto simp: Option.bind_eq_Some_conv)
    note A = stableSD[OF "3.IH"(1)[OF "3.prems"] a]
    from "3.IH"(2)[OF a refl "3.prems"] b
    have B: "emittedS c1 ctx'" "analyzerNodes E c1 rest' = Some (ctx', rest')"
      by (simp_all add: stableL_def)
    from A B have "emittedS ctx ctx'" by (blast intro: emittedS_trans)
    with A B show "emittedS ctx ctx' \<and> analyzerNodes E ctx ns' = Some (ctx', ns')"
      unfolding ns' by simp
  qed
next
  case (4 E ctx i l r cs)
  show ?case
    unfolding stableS_def
  proof (intro allI impI)
    fix ctx' n'
    assume run: "analyzerFnImpl E ctx (Ast i l r cs) = Some (ctx', n')"
    then obtain a c1 a1 s sdt b c2 b1 where l: "l = Some a"
      and d: "analyzerDecl E ctx a = Some (c1, a1)" and s: "symbol i = Some s"
      and sdt: "dt (symtab E s) = Some sdt" and r: "r = Some b"
      and nb: "analyzerNode E (c1\<lparr>returnType := typeReturnType sdt\<rparr>) b = Some (c2, b1)"
      and ctx': "ctx' = c2\<lparr>returnType := None\<rparr>" and n': "n' = Ast i (Some a1) (Some b1) cs"
      by (auto simp: Option.bind_eq_Some_conv)
    from "4.prems" have "stableS (analyzerDecl E) ctx a" by (simp add: declStable_def)
    note A = stableSD[OF this d]
    note B = stableSD[OF "4.IH"[OF l d refl s sdt refl r "4.prems"] nb]
    from A B have "emittedS ctx ctx'"
      unfolding ctx' by (blast intro: emittedS_trans emittedS_rt emittedS_rt')
    with A B show "emittedS ctx ctx' \<and> analyzerFnImpl E ctx n' = Some (ctx', n')
        \<and> cls (info n') = cls (info (Ast i l r cs))"
      unfolding n' ctx' by (simp add: s sdt)
  qed
next
  case (5 E ctx i l r cs)
  show ?case
    unfolding stableS_def
  proof (intro allI impI)
    fix ctx' n'
    assume run: "analyzerCode E ctx (Ast i l r cs) = Some (ctx', n')"
    then obtain cs' where b: "analyzerNodes E ctx cs = Some (ctx', cs')"
      and n': "n' = Ast i l r cs'"
      by (auto simp: Option.bind_eq_Some_conv)
    from "5.IH"[OF "5.prems"] b
    have B: "emittedS ctx ctx'" "analyzerNodes E ctx cs' = Some (ctx', cs')"
      by (simp_all add: stableL_def)
    then show "emittedS ctx ctx' \<and> analyzerCode E ctx n' = Some (ctx', n')
        \<and> cls (info n') = cls (info (Ast i l r cs))"
      unfolding n' by simp
  qed
next
  case (6 E ctx i l r cs)
  show ?case
    unfolding stableS_def
  proof (intro allI impI)
    fix ctx' n'
    assume run: "analyzerBranch E ctx (Ast i l r cs) = Some (ctx', n')"
    then obtain cn c1 cn1 T c2 a c3 a1 where fc: "firstChild (Ast i l r cs) = Some cn"
      and v: "analyzerValue E ctx cn = Some (c1, cn1, T)"
      and ck: "checkCondition E c1 ''if'' cn1 T = Some c2" and l: "l = Some a"
      and na: "analyzerNode E c2 a = Some (c3, a1)"
      by (auto simp: Option.bind_eq_Some_conv)
    note V = stableD[OF value_stable(1) v]
    note A = stableSD[OF "6.IH"(1)[OF fc v refl refl ck l "6.prems"] na]
    from V checkCondition_emitted[OF ck] A have e3: "emittedS ctx c3"
      by (blast intro: emittedS_trans emitted_S)
    show "emittedS ctx ctx' \<and> analyzerBranch E ctx n' = Some (ctx', n')
        \<and> cls (info n') = cls (info (Ast i l r cs))"
    proof (cases r)
      case None
      from fc obtain rest where cs: "cs = cn # rest" by (cases cs) simp_all
      from run have "ctx' = c3" "n' = Ast i (Some a1) None (cn1 # tl cs)"
        unfolding None cs by (simp_all add: v ck l na)
      with V A e3 ck show ?thesis by (simp add: None)
    next
      case (Some b)
      from fc obtain rest where cs: "cs = cn # rest" by (cases cs) simp_all
      from run obtain b1 where nb: "analyzerNode E c3 b = Some (ctx', b1)"
        and n': "n' = Ast i (Some a1) (Some b1) (cn1 # tl cs)"
        unfolding Some cs by (auto simp: v ck l na Option.bind_eq_Some_conv)
      note B = stableSD[OF "6.IH"(2)[OF fc v refl refl ck l na refl Some "6.prems"] nb]
      from e3 B have "emittedS ctx ctx'" by (blast intro: emittedS_trans)
      with V A B ck show ?thesis unfolding n' by simp
    qed
  qed
next
  case (7 E ctx i l r cs)
  show ?case
    unfolding stableS_def
  proof (intro allI impI)
    fix ctx' n'
    assume run: "analyzerLoop E ctx (Ast i l r cs) = Some (ctx', n')"
    then obtain a where l: "l = Some a" by (auto simp: Option.bind_eq_Some_conv)
    show "emittedS ctx ctx' \<and> analyzerLoop E ctx n' = Some (ctx', n')
        \<and> cls (info n') = cls (info (Ast i l r cs))"
    proof (cases "cls (info a) = astCode")
      case True
      with run obtain b c1 b1 T c2 a1 where r: "r = Some b"
        and v: "analyzerValue E ctx b = Some (c1, b1, T)"
        and ck: "checkCondition E c1 ''do loop'' b1 T = Some c2"
        and na: "analyzerNode E c2 a = Some (ctx', a1)"
        and n': "n' = Ast i (Some a1) (Some b1) cs"
        by (auto simp: l Option.bind_eq_Some_conv)
      note V = stableD[OF value_stable(1) v]
      note A = stableSD[OF "7.IH"(1)[OF l True r v refl refl ck "7.prems"] na]
      from V checkCondition_emitted[OF ck] A have "emittedS ctx ctx'"
        by (blast intro: emittedS_trans emitted_S)
      with V A ck True show ?thesis unfolding n' by simp
    next
      case False
      with run obtain c1 a1 T c2 b b1 where
        v: "analyzerValue E ctx a = Some (c1, a1, T)"
        and ck: "checkCondition E c1 ''do loop'' a1 T = Some c2" and r: "r = Some b"
        and nb: "analyzerNode E c2 b = Some (ctx', b1)"
        and n': "n' = Ast i (Some a1) (Some b1) cs"
        by (auto simp: l Option.bind_eq_Some_conv)
      note V = stableD[OF value_stable(1) v]
      note B = stableSD[OF "7.IH"(2)[OF l False v refl refl ck r "7.prems"] nb]
      from V checkCondition_emitted[OF ck] B have "emittedS ctx ctx'"
        by (blast intro: emittedS_trans emitted_S)
      with V B ck False show ?thesis unfolding n' by (simp add: sameKind_def)
    qed
  qed
next
  case (8 E ctx i l r)
  show ?case by (rule none_stable) simp
next
  case (9 E ctx i l r init)
  show ?case by (rule none_stable) simp
next
  case (10 E ctx i l r init cond)
  show ?case by (rule none_stable) simp
next
  case (11 E ctx i l r init cond iter rest)
  show ?case
    unfolding stableS_def
  proof (intro allI impI)
    fix ctx' n'
    assume run: "analyzerIter E ctx (Ast i l r (init # cond # iter # rest)) = Some (ctx', n')"
    then obtain c1 init1 c2 cond1 c3 iter1 a a1 where
      s1: "(if cls (info init) = astDecl then analyzerNode E ctx init
            else analyzerIterValue E ctx init) = Some (c1, init1)"
      and s2: "analyzerIterCond E c1 cond = Some (c2, cond1)"
      and s3: "analyzerIterValue E c2 iter = Some (c3, iter1)"
      and l: "l = Some a" and na: "analyzerNode E c3 a = Some (ctx', a1)"
      and n': "n' = Ast i (Some a1) r (init1 # cond1 # iter1 # rest)"
      by (auto simp: Option.bind_eq_Some_conv)
    have S1: "emittedS ctx c1 \<and> (if cls (info init1) = astDecl then analyzerNode E ctx init1
            else analyzerIterValue E ctx init1) = Some (c1, init1)"
    proof (cases "cls (info init) = astDecl")
      case True
      with s1 have "analyzerNode E ctx init = Some (c1, init1)" by simp
      from stableSD[OF "11.IH"(1)[OF True "11.prems"] this] True show ?thesis by simp
    next
      case False
      with s1 have "analyzerIterValue E ctx init = Some (c1, init1)" by simp
      from stableSD[OF IterValue_stable this] False show ?thesis by simp
    qed
    note S2 = stableSD[OF IterCond_stable s2]
    note S3 = stableSD[OF IterValue_stable s3]
    note A = stableSD[OF "11.IH"(2)[OF s1 refl s2 refl s3 refl l "11.prems"] na]
    from S1 S2 S3 A have "emittedS ctx ctx'" by (blast intro: emittedS_trans)
    with S1 S2 S3 A show "emittedS ctx ctx' \<and> analyzerIter E ctx n' = Some (ctx', n')
        \<and> cls (info n') = cls (info (Ast i l r (init # cond # iter # rest)))"
      unfolding n' by (simp add: l)
  qed
qed

subsection \<open>What the traversal reaches\<close>

lemma value_dt:
  "analyzerValue E ctx n = Some (ctx', n', T) \<Longrightarrow> ndt (info n') = Some T"
  using stableD[OF value_stable(1)] by blast

lemma value_visited:
  "\<forall>ctx' n' T. analyzerValue E ctx n = Some (ctx', n', T) \<longrightarrow> visited E n n'"
  "\<forall>ctx' n' T. analyzerBOP E ctx n = Some (ctx', n', T) \<longrightarrow> cls (info n) = astBOP \<longrightarrow>
     isNumericBOP (opr (info n)) \<or> isAssignmentBOP (opr (info n)) \<longrightarrow> visited E n n'"
  "\<forall>ctx' n' T. analyzerComparisonBOP E ctx n = Some (ctx', n', T) \<longrightarrow> cls (info n) = astBOP \<longrightarrow>
     isOrdinalBOP (opr (info n)) \<or> isEqualityBOP (opr (info n)) \<longrightarrow> visited E n n'"
  "\<forall>ctx' n' T. analyzerMemberBOP E ctx n = Some (ctx', n', T) \<longrightarrow> cls (info n) = astBOP \<longrightarrow>
     \<not> (isNumericBOP (opr (info n)) \<or> isAssignmentBOP (opr (info n))) \<longrightarrow>
     \<not> (isOrdinalBOP (opr (info n)) \<or> isEqualityBOP (opr (info n))) \<longrightarrow>
     isMemberBOP (opr (info n)) \<longrightarrow> visited E n n'"
  "\<forall>ctx' n' T. analyzerCommaBOP E ctx n = Some (ctx', n', T) \<longrightarrow> cls (info n) = astBOP \<longrightarrow>
     \<not> (isNumericBOP (opr (info n)) \<or> isAssignmentBOP (opr (info n))) \<longrightarrow>
     \<not> (isOrdinalBOP (opr (info n)) \<or> isEqualityBOP (opr (info n))) \<longrightarrow>
     \<not> isMemberBOP (opr (info n)) \<longrightarrow> isCommaBOP (opr (info n)) \<longrightarrow> visited E n n'"
  "\<forall>ctx' n' T. analyzerUOP E ctx n = Some (ctx', n', T) \<longrightarrow> cls (info n) = astUOP \<longrightarrow>
     visited E n n'"
  "\<forall>ctx' n' T. analyzerTernary E ctx n = Some (ctx', n', T) \<longrightarrow> cls (info n) = astTOP \<longrightarrow>
     visited E n n'"
  "\<forall>ctx' n' T. analyzerIndex E ctx n = Some (ctx', n', T) \<longrightarrow> cls (info n) = astIndex \<longrightarrow>
     visited E n n'"
  "\<forall>ctx' n' T. analyzerCall E ctx n = Some (ctx', n', T) \<longrightarrow> cls (info n) = astCall \<longrightarrow>
     visited E n n'"
  "\<forall>ctx' cs'. analyzerCallParams E ctx i cs ps k = Some (ctx', cs') \<longrightarrow> visitedArgs E ps cs cs'"
  "\<forall>ctx' n' T. analyzerArrayLiteral E ctx n = Some (ctx', n', T) \<longrightarrow>
     cls (info n) = astLiteral \<longrightarrow> litClass (info n) = literalArray \<longrightarrow> visited E n n'"
proof (induction E ctx n and E ctx n and E ctx n and E ctx n and E ctx n and E ctx n and E ctx n and E ctx n and E ctx n and E ctx i cs ps k and E ctx n
    rule: analyzerValue_analyzerBOP_analyzerComparisonBOP_analyzerMemberBOP_analyzerCommaBOP_analyzerUOP_analyzerTernary_analyzerIndex_analyzerCall_analyzerCallParams_analyzerArrayLiteral.induct)
  case (1 E ctx i l r cs)
  consider (bop) "cls i = astBOP" "isNumericBOP (opr i) \<or> isAssignmentBOP (opr i)"
    | (cmp) "cls i = astBOP" "\<not> (isNumericBOP (opr i) \<or> isAssignmentBOP (opr i))"
        "isOrdinalBOP (opr i) \<or> isEqualityBOP (opr i)"
    | (member) "cls i = astBOP" "\<not> (isNumericBOP (opr i) \<or> isAssignmentBOP (opr i))"
        "\<not> (isOrdinalBOP (opr i) \<or> isEqualityBOP (opr i))" "isMemberBOP (opr i)"
    | (comma) "cls i = astBOP" "\<not> (isNumericBOP (opr i) \<or> isAssignmentBOP (opr i))"
        "\<not> (isOrdinalBOP (opr i) \<or> isEqualityBOP (opr i))" "\<not> isMemberBOP (opr i)"
        "isCommaBOP (opr i)"
    | (uop) "cls i \<noteq> astBOP" "cls i = astUOP"
    | (top) "cls i \<noteq> astBOP" "cls i \<noteq> astUOP" "cls i = astTOP"
    | (index) "cls i \<noteq> astBOP" "cls i \<noteq> astUOP" "cls i \<noteq> astTOP" "cls i = astIndex"
    | (call) "cls i \<noteq> astBOP" "cls i \<noteq> astUOP" "cls i \<noteq> astTOP" "cls i \<noteq> astIndex"
        "cls i = astCall"
    | (array) "cls i \<noteq> astBOP" "cls i \<noteq> astUOP" "cls i \<noteq> astTOP" "cls i \<noteq> astIndex"
        "cls i \<noteq> astCall" "cls i = astLiteral" "litClass i = literalArray"
    | (lit) "cls i \<noteq> astBOP" "cls i \<noteq> astUOP" "cls i \<noteq> astTOP" "cls i \<noteq> astIndex"
        "cls i \<noteq> astCall" "cls i = astLiteral" "litClass i \<noteq> literalArray"
    | (other) "(cls i = astBOP \<and> \<not> (isNumericBOP (opr i) \<or> isAssignmentBOP (opr i))
          \<and> \<not> (isOrdinalBOP (opr i) \<or> isEqualityBOP (opr i)) \<and> \<not> isMemberBOP (opr i)
          \<and> \<not> isCommaBOP (opr i))
        \<or> (cls i \<noteq> astBOP \<and> cls i \<noteq> astUOP \<and> cls i \<noteq> astTOP \<and> cls i \<noteq> astIndex
          \<and> cls i \<noteq> astCall \<and> cls i \<noteq> astLiteral)"
    by blast
  then show ?case
  proof cases
    case bop
    from "1.IH"(1)[OF bop] bop show ?thesis by simp
  next
    case cmp
    from "1.IH"(2)[OF cmp] cmp show ?thesis by simp
  next
    case member
    from "1.IH"(3)[OF member] member show ?thesis by simp
  next
    case comma
    from "1.IH"(4)[OF comma] comma show ?thesis by simp
  next
    case uop
    from "1.IH"(5)[OF uop] uop show ?thesis by simp
  next
    case top
    from "1.IH"(6)[OF top] top show ?thesis by simp
  next
    case index
    from "1.IH"(7)[OF index] index show ?thesis by simp
  next
    case call
    from "1.IH"(8)[OF call] call show ?thesis by simp
  next
    case array
    from "1.IH"(9)[OF array] array show ?thesis by simp
  next
    case lit
    show ?thesis
    proof (intro allI impI)
      fix ctx' n' T
      assume "analyzerValue E ctx (Ast i l r cs) = Some (ctx', n', T)"
      with lit have "analyzerLiteral E ctx (Ast i l r cs) = Some (ctx', n', T)" by simp
      from Literal_props(2)[OF this] lit show "visited E (Ast i l r cs) n'"
        by (simp add: setDT_def)
    qed
  next
    case other
    then show ?thesis by (auto simp: typeCreateInvalid_def setDT_def)
  qed
next
  case (2 E ctx i l r cs)
  show ?case
  proof (intro allI impI)
    fix ctx' n' T
    assume run: "analyzerBOP E ctx (Ast i l r cs) = Some (ctx', n', T)"
      and k: "cls (info (Ast i l r cs)) = astBOP"
        "isNumericBOP (opr (info (Ast i l r cs))) \<or> isAssignmentBOP (opr (info (Ast i l r cs)))"
    from run obtain a c1 a1 L b c2 b1 R where l: "l = Some a"
      and va: "analyzerValue E ctx a = Some (c1, a1, L)" and r: "r = Some b"
      and vb: "analyzerValue E c1 b = Some (c2, b1, R)"
      and ck: "analyzerBOPCheck E c2 i a1 L b1 R cs = Some (ctx', n', T)"
      by (auto simp: Option.bind_eq_Some_conv)
    from "2.IH"(1)[OF l] va have A: "visited E a a1" by blast
    from "2.IH"(2)[OF l va refl refl r] vb have B: "visited E b b1" by blast
    from BOPCheck_props(2)[OF ck] A B k show "visited E (Ast i l r cs) n'"
      by (auto simp: setDT_def l r)
  qed
next
  case (3 E ctx i l r cs)
  show ?case
  proof (intro allI impI)
    fix ctx' n' T
    assume run: "analyzerComparisonBOP E ctx (Ast i l r cs) = Some (ctx', n', T)"
      and k: "cls (info (Ast i l r cs)) = astBOP"
        "isOrdinalBOP (opr (info (Ast i l r cs))) \<or> isEqualityBOP (opr (info (Ast i l r cs)))"
    from run obtain a c1 a1 L b c2 b1 R where l: "l = Some a"
      and va: "analyzerValue E ctx a = Some (c1, a1, L)" and r: "r = Some b"
      and vb: "analyzerValue E c1 b = Some (c2, b1, R)"
      and ck: "analyzerComparisonBOPCheck E c2 i a1 L b1 R cs = Some (ctx', n', T)"
      by (auto simp: Option.bind_eq_Some_conv)
    from "3.IH"(1)[OF l] va have A: "visited E a a1" by blast
    from "3.IH"(2)[OF l va refl refl r] vb have B: "visited E b b1" by blast
    from ComparisonBOPCheck_props(2)[OF ck] A B k show "visited E (Ast i l r cs) n'"
      by (auto simp: setDT_def l r)
  qed
next
  case (4 E ctx i l r cs)
  show ?case
  proof (intro allI impI)
    fix ctx' n' T
    assume run: "analyzerMemberBOP E ctx (Ast i l r cs) = Some (ctx', n', T)"
      and k: "cls (info (Ast i l r cs)) = astBOP"
        "\<not> (isNumericBOP (opr (info (Ast i l r cs))) \<or> isAssignmentBOP (opr (info (Ast i l r cs))))"
        "\<not> (isOrdinalBOP (opr (info (Ast i l r cs))) \<or> isEqualityBOP (opr (info (Ast i l r cs))))"
        "isMemberBOP (opr (info (Ast i l r cs)))"
    from run obtain a c1 a1 L where l: "l = Some a"
      and va: "analyzerValue E ctx a = Some (c1, a1, L)"
      and ck: "analyzerMemberBOPCheck E c1 i a1 L r cs = Some (ctx', n', T)"
      by (auto simp: Option.bind_eq_Some_conv)
    from "4.IH"[OF l] va have A: "visited E a a1" by blast
    from MemberBOPCheck_props(2)[OF ck] A k show "visited E (Ast i l r cs) n'"
      by (auto simp: setDT_def l)
  qed
next
  case (5 E ctx i l r cs)
  show ?case
  proof (intro allI impI)
    fix ctx' n' T
    assume run: "analyzerCommaBOP E ctx (Ast i l r cs) = Some (ctx', n', T)"
      and k: "cls (info (Ast i l r cs)) = astBOP"
        "\<not> (isNumericBOP (opr (info (Ast i l r cs))) \<or> isAssignmentBOP (opr (info (Ast i l r cs))))"
        "\<not> (isOrdinalBOP (opr (info (Ast i l r cs))) \<or> isEqualityBOP (opr (info (Ast i l r cs))))"
        "\<not> isMemberBOP (opr (info (Ast i l r cs)))"
        "isCommaBOP (opr (info (Ast i l r cs)))"
    from run obtain b c1 b1 R where r: "r = Some b"
      and vb: "analyzerValue E ctx b = Some (c1, b1, R)"
      and ck: "analyzerCommaBOPCheck E c1 i l b1 R cs = Some (ctx', n', T)"
      by (auto simp: Option.bind_eq_Some_conv)
    from "5.IH"[OF r] vb have B: "visited E b b1" by blast
    from CommaBOPCheck_props(2)[OF ck] B k show "visited E (Ast i l r cs) n'"
      by (auto simp: setDT_def r)
  qed
next
  case (6 E ctx i l r cs)
  show ?case
  proof (intro allI impI)
    fix ctx' n' T
    assume run: "analyzerUOP E ctx (Ast i l r cs) = Some (ctx', n', T)"
      and k: "cls (info (Ast i l r cs)) = astUOP"
    from run obtain b c1 b1 R where r: "r = Some b"
      and vb: "analyzerValue E ctx b = Some (c1, b1, R)"
      and ck: "analyzerUOPCheck E c1 i l b1 R cs = Some (ctx', n', T)"
      by (auto simp: Option.bind_eq_Some_conv)
    from "6.IH"[OF r] vb have B: "visited E b b1" by blast
    from UOPCheck_props(2)[OF ck] B k show "visited E (Ast i l r cs) n'"
      by (auto simp: setDT_def r)
  qed
next
  case (7 E ctx i l r cs)
  show ?case
  proof (intro allI impI)
    fix ctx' n' T
    assume run: "analyzerTernary E ctx (Ast i l r cs) = Some (ctx', n', T)"
      and k: "cls (info (Ast i l r cs)) = astTOP"
    from run obtain cn c0 cn1 Cond a c1 a1 L b c2 b1 R where
      fc: "firstChild (Ast i l r cs) = Some cn"
      and vc: "analyzerValue E ctx cn = Some (c0, cn1, Cond)"
      and l: "l = Some a"
      and va: "analyzerValue E c0 a = Some (c1, a1, L)" and r: "r = Some b"
      and vb: "analyzerValue E c1 b = Some (c2, b1, R)"
      and ck: "analyzerTernaryCheck E c2 i cn1 Cond a1 L b1 R (tl cs) = Some (ctx', n', T)"
      by (auto simp: Option.bind_eq_Some_conv)
    from "7.IH"(1)[OF fc] vc have C: "visited E cn cn1" by blast
    from fc obtain rest where cs: "cs = cn # rest" by (cases cs) simp_all
    from "7.IH"(2)[OF fc vc refl refl l] va have A: "visited E a a1" by blast
    from "7.IH"(3)[OF fc vc refl refl l va refl refl r] vb have B: "visited E b b1" by blast
    from TernaryCheck_props(2)[OF ck] A B C k show "visited E (Ast i l r cs) n'"
      by (auto simp: setDT_def l r cs)
  qed
next
  case (8 E ctx i l r cs)
  show ?case
  proof (intro allI impI)
    fix ctx' n' T
    assume run: "analyzerIndex E ctx (Ast i l r cs) = Some (ctx', n', T)"
      and k: "cls (info (Ast i l r cs)) = astIndex"
    from run obtain a c1 a1 L b c2 b1 R where l: "l = Some a"
      and va: "analyzerValue E ctx a = Some (c1, a1, L)" and r: "r = Some b"
      and vb: "analyzerValue E c1 b = Some (c2, b1, R)"
      and ck: "analyzerIndexCheck E c2 i a1 L b1 R cs = Some (ctx', n', T)"
      by (auto simp: Option.bind_eq_Some_conv)
    from "8.IH"(1)[OF l] va have A: "visited E a a1" by blast
    from "8.IH"(2)[OF l va refl refl r] vb have B: "visited E b b1" by blast
    from IndexCheck_props(2)[OF ck] A B k show "visited E (Ast i l r cs) n'"
      by (auto simp: setDT_def l r)
  qed
next
  case (9 E ctx i l r cs)
  show ?case
  proof (intro allI impI)
    fix ctx' n' T
    assume run: "analyzerCall E ctx (Ast i l r cs) = Some (ctx', n', T)"
      and k: "cls (info (Ast i l r cs)) = astCall"
    from run obtain a c1 a1 L where l: "l = Some a"
      and va: "analyzerValue E ctx a = Some (c1, a1, L)"
      by (auto simp: Option.bind_eq_Some_conv)
    from "9.IH"(1)[OF l] va have A: "visited E a a1" by blast
    note D = value_dt[OF va]
    note P = "9.IH"(2)[OF l va refl refl]
    show "visited E (Ast i l r cs) n'"
    proof (cases "typeIsCallable L")
      case False
      with run have "n' = Ast (setDT i T) (Some a1) r cs"
        by (auto simp: l va Option.bind_eq_Some_conv)
      moreover from run False obtain s where "symbol i = Some s"
        by (auto simp: l va Option.bind_eq_Some_conv)
      ultimately show ?thesis using A D False k by (simp add: l setDT_def)
    next
      case True
      with run obtain s sdt params where s: "symbol i = Some s"
        and sdt: "dt (symtab E s) = Some sdt" and pa: "calleeParams L = Some params"
        by (auto simp: l va Option.bind_eq_Some_conv)
      show ?thesis
      proof (cases "params = childCount cs")
        case False
        with run True have "n' = Ast (setDT i T) (Some a1) r cs"
          by (auto simp: l va s sdt pa Option.bind_eq_Some_conv)
        with A D False k pa s show ?thesis by (simp add: l setDT_def)
      next
        case eq: True
        from run True eq obtain cs' where
          cp: "analyzerCallParams E c1 i cs (children (symtab E s)) 0 = Some (ctx', cs')"
          and n': "n' = Ast (setDT i T) (Some a1) r cs'"
          by (auto simp: l va s sdt pa Option.bind_eq_Some_conv)
        from P[of s sdt params] True s sdt pa eq cp
        have "visitedArgs E (children (symtab E s)) cs cs'" by simp
        with A D k s True pa eq show ?thesis unfolding n' by (simp add: l setDT_def)
      qed
    qed
  qed
next
  case (10 E ctx i ps n)
  show ?case by simp
next
  case (11 E ctx i c cs n)
  show ?case by simp
next
  case (12 E ctx i c cs p ps n)
  show ?case
  proof (intro allI impI)
    fix ctx' cs'
    assume run: "analyzerCallParams E ctx i (c # cs) (p # ps) n = Some (ctx', cs')"
    then obtain c1 cn Param pdt c2 cs'' where
      vc: "analyzerValue E ctx c = Some (c1, cn, Param)"
      and pdt: "dt (symtab E p) = Some pdt"
      and st: "(if \<not> typeIsCompatible (symtab E) Param pdt
                then analyzerErrorParamMismatch E c1 (Some i) n pdt Param else Some c1) = Some c2"
      and cp: "analyzerCallParams E c2 i cs ps (n + 1) = Some (ctx', cs'')"
      and cs': "cs' = cn # cs''"
      by (auto simp: Option.bind_eq_Some_conv)
    from "12.IH"(1) vc have A: "visited E c cn" by blast
    from "12.IH"(2)[OF vc refl refl pdt st] cp
    have "visitedArgs E ps cs cs''" by blast
    with A show "visitedArgs E (p # ps) (c # cs) cs'"
      unfolding cs' by simp
  qed
next
  case (13 E ctx i l r cs)
  show ?case
  proof (intro allI impI)
    fix ctx' n' T
    assume run: "analyzerArrayLiteral E ctx (Ast i l r cs) = Some (ctx', n', T)"
      and k: "cls (info (Ast i l r cs)) = astLiteral" "litClass (info (Ast i l r cs)) = literalArray"
    from run obtain cn cn1 elt where fc: "firstChild (Ast i l r cs) = Some cn"
      and vc: "analyzerValue E ctx cn = Some (ctx', cn1, elt)"
      and n': "n' = Ast (setDT i T) l r (cn1 # tl cs)"
      by (auto simp: Option.bind_eq_Some_conv)
    from "13.IH"[OF fc] vc have C: "visited E cn cn1" by blast
    from fc obtain rest where cs: "cs = cn # rest" by (cases cs) simp_all
    from C k show "visited E (Ast i l r cs) n'" unfolding n' cs by (simp add: setDT_def)
  qed
qed

lemma Discard_visited:
  "analyzerValueDiscard E ctx n = Some (ctx', n') \<Longrightarrow> visited E n n'"
  using value_visited(1)[of E ctx n]
  by (auto simp: analyzerValueDiscard_def Option.bind_eq_Some_conv)

lemma IterValue_visited:
  "analyzerIterValue E ctx n = Some (ctx', n') \<Longrightarrow>
     (if cls (info n) \<noteq> astEmpty then visited E n n' else n' = n)"
  by (auto simp: analyzerIterValue_def dest: Discard_visited split: if_splits)

lemma IterCond_visited:
  "analyzerIterCond E ctx n = Some (ctx', n') \<Longrightarrow>
     (if cls (info n) \<noteq> astEmpty then visited E n n' else n' = n)"
  using value_visited(1)[of E ctx n]
  by (auto simp: analyzerIterCond_def Option.bind_eq_Some_conv split: if_splits)

lemma walked_value:
  "astIsValueClass (cls i) \<Longrightarrow> visited E (Ast i l r cs) n' \<Longrightarrow> walked E (Ast i l r cs) n'"
  by (cases n'; cases "cls i") (simp_all add: astIsValueClass_def del: visited.simps)

lemma walked_decl:
  "cls i = astDecl \<or> cls i = astDeclStruct \<Longrightarrow> walked E (Ast i l r cs) n'"
  by (cases n'; cases "cls i") simp_all

lemma node_walked_value:
  assumes "astIsValueClass (cls i)"
    and "analyzerNode E ctx (Ast i l r cs) = Some (ctx', n')"
  shows "walked E (Ast i l r cs) n'"
proof -
  from assms have "analyzerValueDiscard E ctx (Ast i l r cs) = Some (ctx', n')"
    by (auto simp: astIsValueClass_def)
  from walked_value[OF assms(1) Discard_visited[OF this]] show ?thesis .
qed

lemma Return_walked:
  assumes "analyzerReturn E ctx (Ast i l r cs) = Some (ctx', n')" and "cls i = astReturn"
  shows "walked E (Ast i l r cs) n'"
proof (cases r)
  case None
  from assms(1) Return_None[of E ctx i l cs ctx' n'] assms(2) show ?thesis
    unfolding None by simp
next
  case (Some b)
  from assms(1) obtain c1 b1 R rt where v: "analyzerValue E ctx b = Some (c1, b1, R)"
    and n': "n' = Ast i l (Some b1) cs"
    unfolding Some by (rule Return_Some)
  from value_visited(1)[of E ctx b] v have "visited E b b1" by blast
  with assms(2) show ?thesis unfolding n' Some by simp
qed

lemma node_walked:
  "\<forall>ctx' n'. analyzerNode E ctx n = Some (ctx', n') \<longrightarrow> walked E n n'"
  "\<forall>ctx' ns'. analyzerNodes E ctx ns = Some (ctx', ns') \<longrightarrow> walkedList E ns ns'"
  "\<forall>ctx' n'. analyzerFnImpl E ctx n = Some (ctx', n') \<longrightarrow> cls (info n) = astFnImpl \<longrightarrow>
     walked E n n'"
  "\<forall>ctx' n'. analyzerCode E ctx n = Some (ctx', n') \<longrightarrow> cls (info n) = astCode \<longrightarrow>
     walked E n n'"
  "\<forall>ctx' n'. analyzerBranch E ctx n = Some (ctx', n') \<longrightarrow> cls (info n) = astBranch \<longrightarrow>
     walked E n n'"
  "\<forall>ctx' n'. analyzerLoop E ctx n = Some (ctx', n') \<longrightarrow> cls (info n) = astLoop \<longrightarrow>
     walked E n n'"
  "\<forall>ctx' n'. analyzerIter E ctx n = Some (ctx', n') \<longrightarrow> cls (info n) = astIter \<longrightarrow>
     walked E n n'"
proof (induction E ctx n and E ctx ns and E ctx n and E ctx n and E ctx n and E ctx n and E ctx n
    rule: analyzerNode_analyzerNodes_analyzerFnImpl_analyzerCode_analyzerBranch_analyzerLoop_analyzerIter.induct)
  case (1 E ctx i l r cs)
  show ?case
  proof (cases "cls i")
    case astModule
    then show ?thesis by (simp add: astIsValueClass_def)
  next
    case astStruct
    then show ?thesis by (simp add: astIsValueClass_def)
  next
    case astUnion
    then show ?thesis by (simp add: astIsValueClass_def)
  next
    case astBreak
    then show ?thesis by (simp add: astIsValueClass_def)
  next
    case astEmpty
    then show ?thesis by (simp add: astIsValueClass_def)
  next
    case astInvalid
    then show ?thesis by (simp add: astIsValueClass_def)
  next
    case astBOP
    then have "astIsValueClass (cls i)" by (simp add: astIsValueClass_def)
    then show ?thesis by (blast intro: node_walked_value)
  next
    case astUOP
    then have "astIsValueClass (cls i)" by (simp add: astIsValueClass_def)
    then show ?thesis by (blast intro: node_walked_value)
  next
    case astTOP
    then have "astIsValueClass (cls i)" by (simp add: astIsValueClass_def)
    then show ?thesis by (blast intro: node_walked_value)
  next
    case astIndex
    then have "astIsValueClass (cls i)" by (simp add: astIsValueClass_def)
    then show ?thesis by (blast intro: node_walked_value)
  next
    case astCall
    then have "astIsValueClass (cls i)" by (simp add: astIsValueClass_def)
    then show ?thesis by (blast intro: node_walked_value)
  next
    case astLiteral
    then have "astIsValueClass (cls i)" by (simp add: astIsValueClass_def)
    then show ?thesis by (blast intro: node_walked_value)
  next
    case astFnImpl
    have "\<forall>ctx' n'. analyzerFnImpl E ctx (Ast i l r cs) = Some (ctx', n') \<longrightarrow>
        cls (info (Ast i l r cs)) = astFnImpl \<longrightarrow> walked E (Ast i l r cs) n'"
      by (rule "1.IH"(1)) (simp_all add: astFnImpl)
    with astFnImpl show ?thesis by simp
  next
    case astCode
    have "\<forall>ctx' n'. analyzerCode E ctx (Ast i l r cs) = Some (ctx', n') \<longrightarrow>
        cls (info (Ast i l r cs)) = astCode \<longrightarrow> walked E (Ast i l r cs) n'"
      by (rule "1.IH"(2)) (simp_all add: astCode)
    with astCode show ?thesis by simp
  next
    case astBranch
    have "\<forall>ctx' n'. analyzerBranch E ctx (Ast i l r cs) = Some (ctx', n') \<longrightarrow>
        cls (info (Ast i l r cs)) = astBranch \<longrightarrow> walked E (Ast i l r cs) n'"
      by (rule "1.IH"(3)) (simp_all add: astBranch)
    with astBranch show ?thesis by simp
  next
    case astLoop
    have "\<forall>ctx' n'. analyzerLoop E ctx (Ast i l r cs) = Some (ctx', n') \<longrightarrow>
        cls (info (Ast i l r cs)) = astLoop \<longrightarrow> walked E (Ast i l r cs) n'"
      by (rule "1.IH"(4)) (simp_all add: astLoop)
    with astLoop show ?thesis by simp
  next
    case astIter
    have "\<forall>ctx' n'. analyzerIter E ctx (Ast i l r cs) = Some (ctx', n') \<longrightarrow>
        cls (info (Ast i l r cs)) = astIter \<longrightarrow> walked E (Ast i l r cs) n'"
      by (rule "1.IH"(5)) (simp_all add: astIter)
    with astIter show ?thesis by simp
  next
    case astDecl
    then show ?thesis by (simp add: walked_decl)
  next
    case astDeclStruct
    then show ?thesis by (simp add: walked_decl)
  next
    case astReturn
    show ?thesis
    proof (intro allI impI)
      fix ctx' n'
      assume "analyzerNode E ctx (Ast i l r cs) = Some (ctx', n')"
      with astReturn have "analyzerReturn E ctx (Ast i l r cs) = Some (ctx', n')" by simp
      from Return_walked[OF this astReturn] show "walked E (Ast i l r cs) n'" .
    qed
  qed
next
  case (2 E ctx)
  show ?case by simp
next
  case (3 E ctx Current rest)
  show ?case
  proof (intro allI impI)
    fix ctx' ns'
    assume run: "analyzerNodes E ctx (Current # rest) = Some (ctx', ns')"
    then obtain c1 n1 rest' where a: "analyzerNode E ctx Current = Some (c1, n1)"
      and b: "analyzerNodes E c1 rest = Some (ctx', rest')" and ns': "ns' = n1 # rest'"
      by (auto simp: Option.bind_eq_Some_conv)
    from "3.IH"(1) a have A: "walked E Current n1" by blast
    from "3.IH"(2)[OF a refl] b have B: "walkedList E rest rest'" by blast
    from A B show "walkedList E (Current # rest) ns'" unfolding ns' by simp
  qed
next
  case (4 E ctx i l r cs)
  show ?case
  proof (intro allI impI)
    fix ctx' n'
    assume run: "analyzerFnImpl E ctx (Ast i l r cs) = Some (ctx', n')"
      and k: "cls (info (Ast i l r cs)) = astFnImpl"
    from run obtain a c1 a1 s sdt b c2 b1 where l: "l = Some a"
      and d: "analyzerDecl E ctx a = Some (c1, a1)" and s: "symbol i = Some s"
      and sdt: "dt (symtab E s) = Some sdt" and r: "r = Some b"
      and nb: "analyzerNode E (c1\<lparr>returnType := typeReturnType sdt\<rparr>) b = Some (c2, b1)"
      and n': "n' = Ast i (Some a1) (Some b1) cs"
      by (auto simp: Option.bind_eq_Some_conv)
    from "4.IH"[OF l d refl s sdt refl r] nb have B: "walked E b b1" by blast
    from B k show "walked E (Ast i l r cs) n'" unfolding n' by (simp add: r)
  qed
next
  case (5 E ctx i l r cs)
  show ?case
  proof (intro allI impI)
    fix ctx' n'
    assume run: "analyzerCode E ctx (Ast i l r cs) = Some (ctx', n')"
      and k: "cls (info (Ast i l r cs)) = astCode"
    from run obtain cs' where b: "analyzerNodes E ctx cs = Some (ctx', cs')"
      and n': "n' = Ast i l r cs'"
      by (auto simp: Option.bind_eq_Some_conv)
    from "5.IH" b have "walkedList E cs cs'" by blast
    with k show "walked E (Ast i l r cs) n'" unfolding n' by simp
  qed
next
  case (6 E ctx i l r cs)
  show ?case
  proof (intro allI impI)
    fix ctx' n'
    assume run: "analyzerBranch E ctx (Ast i l r cs) = Some (ctx', n')"
      and k: "cls (info (Ast i l r cs)) = astBranch"
    from run obtain cn c1 cn1 T c2 a c3 a1 where fc: "firstChild (Ast i l r cs) = Some cn"
      and v: "analyzerValue E ctx cn = Some (c1, cn1, T)"
      and ck: "checkCondition E c1 ''if'' cn1 T = Some c2" and l: "l = Some a"
      and na: "analyzerNode E c2 a = Some (c3, a1)"
      by (auto simp: Option.bind_eq_Some_conv)
    from value_visited(1)[of E ctx cn] v have V: "visited E cn cn1" by blast
    from "6.IH"(1)[OF fc v refl refl ck l] na have A: "walked E a a1" by blast
    from fc obtain rest where cs: "cs = cn # rest" by (cases cs) simp_all
    show "walked E (Ast i l r cs) n'"
    proof (cases r)
      case None
      from run have "n' = Ast i (Some a1) None (cn1 # tl cs)"
        unfolding None cs by (simp_all add: v ck l na)
      with V A k show ?thesis by (simp add: None l cs)
    next
      case (Some b)
      from run obtain b1 where nb: "analyzerNode E c3 b = Some (ctx', b1)"
        and n': "n' = Ast i (Some a1) (Some b1) (cn1 # tl cs)"
        unfolding Some cs by (auto simp: v ck l na Option.bind_eq_Some_conv)
      from "6.IH"(2)[OF fc v refl refl ck l na refl Some] nb have B: "walked E b b1" by blast
      with V A k show ?thesis unfolding n' by (simp add: Some l cs)
    qed
  qed
next
  case (7 E ctx i l r cs)
  show ?case
  proof (intro allI impI)
    fix ctx' n'
    assume run: "analyzerLoop E ctx (Ast i l r cs) = Some (ctx', n')"
      and k: "cls (info (Ast i l r cs)) = astLoop"
    from run obtain a where l: "l = Some a" by (auto simp: Option.bind_eq_Some_conv)
    show "walked E (Ast i l r cs) n'"
    proof (cases "cls (info a) = astCode")
      case True
      with run obtain b c1 b1 T c2 a1 where r: "r = Some b"
        and v: "analyzerValue E ctx b = Some (c1, b1, T)"
        and ck: "checkCondition E c1 ''do loop'' b1 T = Some c2"
        and na: "analyzerNode E c2 a = Some (ctx', a1)"
        and n': "n' = Ast i (Some a1) (Some b1) cs"
        by (auto simp: l Option.bind_eq_Some_conv)
      from value_visited(1)[of E ctx b] v have V: "visited E b b1" by blast
      from "7.IH"(1)[OF l True r v refl refl ck] na have A: "walked E a a1" by blast
      from V A k True show ?thesis unfolding n' by (simp add: l r)
    next
      case False
      with run obtain c1 a1 T c2 b b1 where
        v: "analyzerValue E ctx a = Some (c1, a1, T)"
        and ck: "checkCondition E c1 ''do loop'' a1 T = Some c2" and r: "r = Some b"
        and nb: "analyzerNode E c2 b = Some (ctx', b1)"
        and n': "n' = Ast i (Some a1) (Some b1) cs"
        by (auto simp: l Option.bind_eq_Some_conv)
      from value_visited(1)[of E ctx a] v have V: "visited E a a1" by blast
      from "7.IH"(2)[OF l False v refl refl ck r] nb have B: "walked E b b1" by blast
      from V B k False show ?thesis unfolding n' by (simp add: l r)
    qed
  qed
next
  case (8 E ctx i l r)
  show ?case by simp
next
  case (9 E ctx i l r init)
  show ?case by simp
next
  case (10 E ctx i l r init cond)
  show ?case by simp
next
  case (11 E ctx i l r init cond iter rest)
  show ?case
  proof (intro allI impI)
    fix ctx' n'
    assume run: "analyzerIter E ctx (Ast i l r (init # cond # iter # rest)) = Some (ctx', n')"
      and k: "cls (info (Ast i l r (init # cond # iter # rest))) = astIter"
    from run obtain c1 init1 c2 cond1 c3 iter1 a a1 where
      s1: "(if cls (info init) = astDecl then analyzerNode E ctx init
            else analyzerIterValue E ctx init) = Some (c1, init1)"
      and s2: "analyzerIterCond E c1 cond = Some (c2, cond1)"
      and s3: "analyzerIterValue E c2 iter = Some (c3, iter1)"
      and l: "l = Some a" and na: "analyzerNode E c3 a = Some (ctx', a1)"
      and n': "n' = Ast i (Some a1) r (init1 # cond1 # iter1 # rest)"
      by (auto simp: Option.bind_eq_Some_conv)
    have S1: "if cls (info init) = astDecl then walked E init init1
              else if cls (info init) \<noteq> astEmpty then visited E init init1 else init1 = init"
    proof (cases "cls (info init) = astDecl")
      case True
      with s1 have "analyzerNode E ctx init = Some (c1, init1)" by simp
      with "11.IH"(1)[OF True] True show ?thesis by simp
    next
      case False
      with s1 have "analyzerIterValue E ctx init = Some (c1, init1)" by simp
      from IterValue_visited[OF this] False show ?thesis by simp
    qed
    note S2 = IterCond_visited[OF s2]
    note S3 = IterValue_visited[OF s3]
    from "11.IH"(2)[OF s1 refl s2 refl s3 refl l] na have A: "walked E a a1" by blast
    from S1 S2 S3 A k show "walked E (Ast i l r (init # cond # iter # rest)) n'"
      unfolding n' by (simp add: l)
  qed
qed

lemma analyzer_walked:
  "analyzer E Tree Types = Some (res, Tree', out) \<Longrightarrow> walkedModule E Tree Tree'"
  using node_walked(2)[of E "analyzerInit Types"]
  by (cases Tree)
    (auto simp: analyzer_def analyzerModule_def walkedModule_def Option.bind_eq_Some_conv)

section \<open>The claims\<close>


lemma analyzerError_Some:
  "analyzerError c (Some i) msg =
     (if errors c = 2147483647 then None
      else Some (c\<lparr>stdout := stdout c @ [analyzerLine (loc i) msg], errors := errors c + 1\<rparr>))"
  by (simp add: analyzerError_def analyzerLine_def)

text \<open>The definitions a run on the example program unfolds.\<close>

lemmas evalDefs =
  exDefs exCallTyped_def exModuleTyped_def exCommaTyped_def exMemberTyped_def exAndTyped_def
  exArrayTyped_def exModule2Typed_def exModule2_def analyzerLiteral_def setDT_def typeDeepDuplicate_def
  typeCreateBasic_def typeCreateInvalid_def analyzerLine_def errorPrefix_def showInt_def childCount_def
  calleeParams_def analyzerError_def analyzerErrorOp_def analyzerErrorDegree_def
  analyzerErrorMismatch_def analyzerErrorMember_def analyzerErrorExpected_def
  analyzerErrorExpectedType_def analyzerErrorParamMismatch_def
  analyzerBOPCheck_def analyzerComparisonBOPCheck_def analyzerMemberBOPCheck_def
  analyzerCommaBOPCheck_def analyzerUOPCheck_def analyzerTernaryCheck_def
  analyzerIndexCheck_def memberSymbol_def symChild_def
  isNumericBOP_def isAssignmentBOP_def isOrdinalBOP_def isEqualityBOP_def isMemberBOP_def
  isDerefBOP_def isCommaBOP_def typeIsInvalid_def typeIsEquality_def typeIsCondition_def
  symIsNumeric_def symIsVoid_def typeDeriveFromTwo_def typeDeriveUnified_def
  typeDeriveFrom_def typeDerivePtr_def typeDeriveArray_def

lemma exEnv_declStable: "declStable exEnv"
  by (simp add: declStable_def stableS_def exEnv_def)

lemma exModule_run:
  "analyzer exEnv exModule exTypes
     = Some (\<lparr>resErrors = 1, resWarnings = 0\<rparr>, exModuleTyped,
             [''error(1:2): 2 parameters expected, 1 given to f'' @ [CHR 0x0A]])"
  by (simp add: analyzer_def analyzerModule_def analyzerReturn_def analyzerValueDiscard_def
      astIsValueClass_def exModuleTyped_def exCallTyped_def evalDefs)

lemma emittedS_init:
  assumes "emittedS (analyzerInit Types) c"
  shows "\<exists>ds. stdout c = map (\<lambda>d. analyzerLine (fst d) (snd d)) ds \<and> errors c = int (length ds)"
  using assms by (auto simp: emittedS_def emitted_def diagnoses_def analyzerInit_def)

lemma error_diagnoses:
  "error p msg = Some p' \<Longrightarrow> parserDiagnoses p p' [(location p, msg)]"
  by (auto simp: error_def parserDiagnoses_def parserLine_def split: if_splits)

lemma analyzerError_None: "analyzerError c None msg = None"
  by (simp add: analyzerError_def)

lemma exModule2_run:
  "analyzer exEnv exModule2 exTypes
     = Some (\<lparr>resErrors = 0, resWarnings = 0\<rparr>, exModule2Typed, [])"
  by (simp add: analyzer_def analyzerModule_def analyzerReturn_def analyzerValueDiscard_def
      astIsValueClass_def evalDefs)

lemma typeDeriveReturn_not_callable:
  "\<not> typeIsCallable L \<Longrightarrow> typeDeriveReturn L = typeInvalid"
  by (induction L rule: typeIsCallable.induct) simp_all

subsection \<open>Claim C1: which nodes are typed after the analysis\<close>

text \<open>
  Claim C1, as amended. When \<^verbatim>\<open>analyzerValue\<close> returns on a node, the node it leaves
  carries the type that was returned and is related to the node it was given by
  \<open>visited\<close>; when \<^verbatim>\<open>analyzer\<close> returns on a module, the module it leaves is related
  to the one it was given by \<open>walkedModule\<close>. So every expression the traversal
  reaches has a type, and every node it does not reach is as it was, without a type if it
  had none: the arguments of a call whose callee is not callable or whose number of
  arguments is not the number of parameters, the left operand of a comma, the right
  operand of a member access, both operands of a binary operator of no known class, and
  the elements of an array literal after the first. Nothing is said of the nodes of a
  declaration.
\<close>

theorem analyzer_types_visited:
  "(analyzerValue E ctx n = Some (ctx', n', T) \<longrightarrow> ndt (info n') = Some T \<and> visited E n n')
   \<and> (analyzer E Tree Types = Some (res, Tree', out) \<longrightarrow> walkedModule E Tree Tree')"
  using value_dt[of E ctx n ctx' n' T] value_visited(1)[of E ctx n]
    analyzer_walked[of E Tree Types res Tree' out]
  by blast

text \<open>
  The theorem at \<^verbatim>\<open>f(1, 2)\<close>, where the call, the callee and both arguments are typed,
  at \<^verbatim>\<open>int main() { 1, 2; s.a; 1 && 2; {1, 2}; return 1; }\<close> and at
  \<^verbatim>\<open>int main() { f(1); return 1; }\<close>.
\<close>

theorem analyzer_types_visited_witness:
  "analyzerValue exEnv exCtx exGoodCall
     = Some (exCtx,
        Ast ((mkInfo astCall literalUndefined [] [] (Some 10) 2)\<lparr>ndt := Some (typeBasic 3)\<rparr>)
          (Some (withDT (litIdent ''f'' 10 1) (typeFunction (typeBasic 3) 2))) None
          [withDT (litInt ''1'' 3) (typeBasic 3), withDT (litInt ''2'' 6) (typeBasic 3)],
        typeBasic 3)
   \<and> visited exEnv exGoodCall
        (Ast ((mkInfo astCall literalUndefined [] [] (Some 10) 2)\<lparr>ndt := Some (typeBasic 3)\<rparr>)
          (Some (withDT (litIdent ''f'' 10 1) (typeFunction (typeBasic 3) 2))) None
          [withDT (litInt ''1'' 3) (typeBasic 3), withDT (litInt ''2'' 6) (typeBasic 3)])
   \<and> analyzer exEnv exModule2 exTypes
       = Some (\<lparr>resErrors = 0, resWarnings = 0\<rparr>, exModule2Typed, [])
   \<and> walkedModule exEnv exModule2 exModule2Typed
   \<and> analyzer exEnv exModule exTypes
       = Some (\<lparr>resErrors = 1, resWarnings = 0\<rparr>, exModuleTyped,
               [''error(1:2): 2 parameters expected, 1 given to f'' @ [CHR 0x0A]])
   \<and> walkedModule exEnv exModule exModuleTyped"
  using analyzer_types_visited[of exEnv exCtx exGoodCall exCtx
      "Ast ((mkInfo astCall literalUndefined [] [] (Some 10) 2)\<lparr>ndt := Some (typeBasic 3)\<rparr>)
          (Some (withDT (litIdent ''f'' 10 1) (typeFunction (typeBasic 3) 2))) None
          [withDT (litInt ''1'' 3) (typeBasic 3), withDT (litInt ''2'' 6) (typeBasic 3)]"
      "typeBasic 3" exModule2 exTypes "\<lparr>resErrors = 0, resWarnings = 0\<rparr>" exModule2Typed "[]"]
    analyzer_types_visited[of exEnv exCtx exGoodCall exCtx
      "Ast ((mkInfo astCall literalUndefined [] [] (Some 10) 2)\<lparr>ndt := Some (typeBasic 3)\<rparr>)
          (Some (withDT (litIdent ''f'' 10 1) (typeFunction (typeBasic 3) 2))) None
          [withDT (litInt ''1'' 3) (typeBasic 3), withDT (litInt ''2'' 6) (typeBasic 3)]"
      "typeBasic 3" exModule exTypes "\<lparr>resErrors = 1, resWarnings = 0\<rparr>" exModuleTyped
      "[''error(1:2): 2 parameters expected, 1 given to f'' @ [CHR 0x0A]]"]
    exModule2_run exModule_run
  by (simp add: evalDefs)

text \<open>
  The claim as it is written fails at \<^verbatim>\<open>int main() { f(1); return 1; }\<close>, where
  \<open>f\<close> has two parameters: the analyzer reports the number of arguments and returns,
  and the argument \<open>1\<close> of the call has no type in the analysed module. It fails
  without any diagnostic at \<^verbatim>\<open>int main() { 1, 2; s.a; 1 && 2; {1, 2}; return 1; }\<close>:
  in the analysed module the left operand of the comma, the field name of the member
  access, both operands of \<^verbatim>\<open>&&\<close> and the second element of the array literal have no
  type.
\<close>

theorem analyzer_untyped_nodes_counterexample:
  "analyzer exEnv exModule exTypes
     = Some (\<lparr>resErrors = 1, resWarnings = 0\<rparr>, exModuleTyped,
             [''error(1:2): 2 parameters expected, 1 given to f'' @ [CHR 0x0A]])
   \<and> map nodeDT (astChildren exCallTyped) = [None]
   \<and> analyzer exEnv exModule2 exTypes
       = Some (\<lparr>resErrors = 0, resWarnings = 0\<rparr>, exModule2Typed, [])
   \<and> map_option nodeDT (astL exCommaTyped) = Some None
   \<and> map_option nodeDT (astR exMemberTyped) = Some None
   \<and> map_option nodeDT (astL exAndTyped) = Some None
   \<and> map_option nodeDT (astR exAndTyped) = Some None
   \<and> map nodeDT (astChildren exArrayTyped) = [Some (typeBasic 3), None]"
  by (simp add: exModule_run exModule2_run) (simp add: evalDefs)

subsection \<open>Claim C2: the result type of a call\<close>

text \<open>
  Claim C2. What \<^verbatim>\<open>analyzerCall\<close> returns on a call whose callee has been analysed
  with type \<open>L\<close> and whose symbol has the type \<open>sdt\<close>. When \<open>L\<close> is callable the
  node is typed with the return type derived from \<open>sdt\<close>, whether the number of
  arguments differs from the number of parameters (one diagnostic) or not, and whatever
  the analysis of the arguments reports. When \<open>L\<close> is not callable, the diagnostic is
  reported at the first argument and the node is typed \<open>Invalid\<close>, which is what the
  derivation gives when \<open>sdt\<close> is \<open>L\<close>; but a call without arguments has no first
  argument, and the analysis does not return: the diagnostic printer reads the location
  of a null node.
\<close>

theorem analyzerCall_result:
  assumes "analyzerValue E ctx a = Some (c1, a1, L)"
    and "symbol i = Some s"
    and "dt (symtab E s) = Some sdt"
  shows "analyzerCall E ctx (Ast i (Some a) r cs) =
      (if \<not> typeIsCallable L then
         (case cs of
            [] \<Rightarrow> None
          | c # rest \<Rightarrow>
              if errors c1 = 2147483647 then None
              else Some (c1\<lparr>stdout := stdout c1 @
                                [analyzerLine (loc (info c))
                                   (''() requires function, found '' @ typeToStr E sdt)],
                              errors := errors c1 + 1\<rparr>,
                         Ast (i\<lparr>ndt := Some typeInvalid\<rparr>) (Some a1) r cs, typeInvalid))
       else
         (case calleeParams L of
            None \<Rightarrow> None
          | Some params \<Rightarrow>
              if params \<noteq> childCount cs then
                (if errors c1 = 2147483647 then None
                 else Some (c1\<lparr>stdout := stdout c1 @
                                   [analyzerLine (loc i)
                                      (showInt params @ '' parameters expected, ''
                                       @ showInt (childCount cs) @ '' given to ''
                                       @ ident (symtab E s))],
                                 errors := errors c1 + 1\<rparr>,
                            Ast (i\<lparr>ndt := Some (typeDeriveReturn sdt)\<rparr>) (Some a1) r cs,
                            typeDeriveReturn sdt))
              else
                map_option
                  (\<lambda>(c2, cs'). (c2, Ast (i\<lparr>ndt := Some (typeDeriveReturn sdt)\<rparr>) (Some a1) r cs',
                                typeDeriveReturn sdt))
                  (analyzerCallParams E c1 i cs (children (symtab E s)) 0)))
     \<and> (analyzerCall E ctx (Ast i (Some a) r cs) = Some (ctx', Node', DT)
          \<and> (typeIsCallable L \<or> sdt = L) \<longrightarrow>
        DT = typeDeriveReturn sdt \<and> ndt (info Node') = Some DT)"
    (is "?EQ \<and> ?COR")
proof -
  have eq: ?EQ
  proof (cases "typeIsCallable L")
    case False
    then show ?thesis
      using assms
      by (cases cs)
        (simp_all add: analyzerErrorOp_def analyzerError_Some analyzerError_None setDT_def
          typeCreateInvalid_def)
  next
    case True
    show ?thesis
    proof (cases "calleeParams L")
      case None
      with True assms show ?thesis by simp
    next
      case (Some params)
      with True assms show ?thesis
        by (cases "analyzerCallParams E c1 i cs (children (symtab E s)) 0")
          (auto simp: analyzerErrorDegree_def analyzerError_Some setDT_def typeDeepDuplicate_def)
    qed
  qed
  have cor: ?COR
  proof (intro impI, elim conjE)
    assume run: "analyzerCall E ctx (Ast i (Some a) r cs) = Some (ctx', Node', DT)"
      and c: "typeIsCallable L \<or> sdt = L"
    from run[unfolded eq] c show "DT = typeDeriveReturn sdt \<and> ndt (info Node') = Some DT"
      by (auto simp: typeDeriveReturn_not_callable split: if_splits list.splits option.splits)
  qed
  from eq cor show ?thesis by (rule conjI)
qed

text \<open>
  The theorem at \<^verbatim>\<open>x()\<close>, where \<open>x\<close> is an \<open>int\<close>: the analysis does not return.
  At \<^verbatim>\<open>f(1)\<close> and at \<^verbatim>\<open>f(s, 2)\<close>, where the number and the type of the arguments
  are wrong, the call is typed \<open>int\<close>.
\<close>

theorem analyzerCall_result_witness:
  "analyzerValue exEnv exCtx (litIdent ''x'' 24 1)
     = Some (exCtx, withDT (litIdent ''x'' 24 1) (typeBasic 3), typeBasic 3)
   \<and> \<not> typeIsCallable (typeBasic 3)
   \<and> analyzerCall exEnv exCtx exNoArgCall = None
   \<and> analyzerValue exEnv exCtx (litIdent ''f'' 10 1)
       = Some (exCtx, withDT (litIdent ''f'' 10 1) (typeFunction (typeBasic 3) 2),
               typeFunction (typeBasic 3) 2)
   \<and> analyzerCall exEnv exCtx exCall
       = Some (exCtx\<lparr>stdout := [''error(1:2): 2 parameters expected, 1 given to f'' @ [CHR 0x0A]],
                       errors := 1\<rparr>,
               exCallTyped, typeBasic 3)
   \<and> analyzerCall exEnv exCtx exMismatchCall
       = Some (exCtx\<lparr>stdout := [''error(1:2): type mismatch at parameter 0 of f: expected T, found T''
                                     @ [CHR 0x0A]],
                       errors := 1\<rparr>,
               Ast ((mkInfo astCall literalUndefined [] [] (Some 10) 2)\<lparr>ndt := Some (typeBasic 3)\<rparr>)
                 (Some (withDT (litIdent ''f'' 10 1) (typeFunction (typeBasic 3) 2))) None
                 [withDT (litIdent ''s'' 22 3) (typeBasic 20), withDT (litInt ''2'' 6) (typeBasic 3)],
               typeBasic 3)
   \<and> typeDeriveReturn (typeFunction (typeBasic 3) 2) = typeBasic 3"
  using analyzerCall_result[of exEnv exCtx "litIdent ''x'' 24 1" exCtx
      "withDT (litIdent ''x'' 24 1) (typeBasic 3)" "typeBasic 3"
      "mkInfo astCall literalUndefined [] [] (Some 24) 2" 24 "typeBasic 3" None "[]"]
    analyzerCall_result[of exEnv exCtx "litIdent ''f'' 10 1" exCtx
      "withDT (litIdent ''f'' 10 1) (typeFunction (typeBasic 3) 2)" "typeFunction (typeBasic 3) 2"
      "mkInfo astCall literalUndefined [] [] (Some 10) 2" 10 "typeFunction (typeBasic 3) 2"
      None "[litInt ''1'' 3]"
      "exCtx\<lparr>stdout := [''error(1:2): 2 parameters expected, 1 given to f'' @ [CHR 0x0A]],
              errors := 1\<rparr>"
      exCallTyped "typeBasic 3"]
    analyzerCall_result[of exEnv exCtx "litIdent ''f'' 10 1" exCtx
      "withDT (litIdent ''f'' 10 1) (typeFunction (typeBasic 3) 2)" "typeFunction (typeBasic 3) 2"
      "mkInfo astCall literalUndefined [] [] (Some 10) 2" 10 "typeFunction (typeBasic 3) 2"
      None "[litIdent ''s'' 22 3, litInt ''2'' 6]"]
  by (simp add: evalDefs)

subsection \<open>Claim C3: ordinal comparison\<close>

text \<open>
  Claim C3, as amended. What \<^verbatim>\<open>analyzerComparisonBOP\<close> returns for an ordinal
  operator once both operands are analysed. One diagnostic is written when an operand is
  not ordinal, at the left operand if that one is not ordinal and at the right one
  otherwise, whether or not the two types are compatible. When they are compatible the
  node's type is \<open>typeDeriveFromTwo\<close> of them: a pointer type when either operand is a
  pointer, and a numeric type when both are numeric and neither is a pointer. When they
  are not, the mismatch is reported at the node, which is typed \<open>Invalid\<close>.
\<close>

theorem analyzerComparisonBOP_ordinal:
  assumes "isOrdinalBOP (opr i)"
    and "analyzerValue E ctx a = Some (c1, a1, L)"
    and "analyzerValue E c1 b = Some (c2, b1, R)"
  shows "analyzerComparisonBOP E ctx (Ast i (Some a) (Some b) cs) =
      (let c3 = (if typeIsOrdinal (symtab E) L \<and> typeIsOrdinal (symtab E) R then c2
                 else c2\<lparr>stdout := stdout c2 @
                            [analyzerLine
                               (loc (info (if \<not> typeIsOrdinal (symtab E) L then a1 else b1)))
                               (opr i @ '' requires comparable type, found ''
                                @ typeToStr E (if \<not> typeIsOrdinal (symtab E) L then L else R))],
                          errors := errors c2 + 1\<rparr>)
       in if \<not> (typeIsOrdinal (symtab E) L \<and> typeIsOrdinal (symtab E) R)
             \<and> errors c2 = 2147483647 then None
          else if typeIsCompatible (symtab E) L R then
            Some (c3, Ast (i\<lparr>ndt := Some (typeDeriveFromTwo (symtab E) L R)\<rparr>) (Some a1) (Some b1) cs,
                  typeDeriveFromTwo (symtab E) L R)
          else if errors c3 = 2147483647 then None
          else Some (c3\<lparr>stdout := stdout c3 @
                            [analyzerLine (loc i)
                               (''type mismatch between '' @ typeToStr E L @ '' and ''
                                @ typeToStr E R @ '' for '' @ opr i)],
                          errors := errors c3 + 1\<rparr>,
                     Ast (i\<lparr>ndt := Some typeInvalid\<rparr>) (Some a1) (Some b1) cs, typeInvalid))
     \<and> (isPtrType L \<or> isPtrType R \<longrightarrow> isPtrType (typeDeriveFromTwo (symtab E) L R))
     \<and> (\<not> isPtrType L \<and> \<not> isPtrType R \<and> typeIsNumeric (symtab E) L
           \<and> typeIsNumeric (symtab E) R \<longrightarrow>
         typeIsNumeric (symtab E) (typeDeriveFromTwo (symtab E) L R))"
  using assms
  by (simp add: analyzerComparisonBOPCheck_def analyzerErrorOp_def analyzerErrorMismatch_def
      analyzerError_Some setDT_def typeCreateInvalid_def typeDeriveFromTwo_def Let_def)

text \<open>
  The theorem at \<^verbatim>\<open>s < 1\<close>, a structure compared with an \<open>int\<close>, where both
  diagnostics are written, and at \<^verbatim>\<open>1 < 2\<close>, which is typed \<open>int\<close>.
\<close>

theorem analyzerComparisonBOP_ordinal_witness:
  "isOrdinalBOP ''<''
   \<and> analyzerValue exEnv exCtx (litIdent ''s'' 22 1)
       = Some (exCtx, withDT (litIdent ''s'' 22 1) (typeBasic 20), typeBasic 20)
   \<and> analyzerValue exEnv exCtx (litInt ''1'' 5)
       = Some (exCtx, withDT (litInt ''1'' 5) (typeBasic 3), typeBasic 3)
   \<and> analyzerComparisonBOP exEnv exCtx exStructLess
       = Some (exCtx\<lparr>stdout := [''error(1:1): < requires comparable type, found T'' @ [CHR 0x0A],
                                    ''error(1:3): type mismatch between T and T for <'' @ [CHR 0x0A]],
                       errors := 2\<rparr>,
               Ast ((mkInfo astBOP literalUndefined ''<'' [] None 3)\<lparr>ndt := Some typeInvalid\<rparr>)
                 (Some (withDT (litIdent ''s'' 22 1) (typeBasic 20)))
                 (Some (withDT (litInt ''1'' 5) (typeBasic 3))) [],
               typeInvalid)
   \<and> analyzerValue exEnv exCtx (litInt ''1'' 1)
       = Some (exCtx, withDT (litInt ''1'' 1) (typeBasic 3), typeBasic 3)
   \<and> analyzerValue exEnv exCtx (litInt ''2'' 5)
       = Some (exCtx, withDT (litInt ''2'' 5) (typeBasic 3), typeBasic 3)
   \<and> analyzerComparisonBOP exEnv exCtx exIntLess
       = Some (exCtx,
               Ast ((mkInfo astBOP literalUndefined ''<'' [] None 3)\<lparr>ndt := Some (typeBasic 3)\<rparr>)
                 (Some (withDT (litInt ''1'' 1) (typeBasic 3)))
                 (Some (withDT (litInt ''2'' 5) (typeBasic 3))) [],
               typeBasic 3)
   \<and> typeIsNumeric (symtab exEnv) (typeBasic 3)"
  using analyzerComparisonBOP_ordinal[of "mkInfo astBOP literalUndefined ''<'' [] None 3"
      exEnv exCtx "litIdent ''s'' 22 1" exCtx "withDT (litIdent ''s'' 22 1) (typeBasic 20)"
      "typeBasic 20" "litInt ''1'' 5" exCtx "withDT (litInt ''1'' 5) (typeBasic 3)" "typeBasic 3"
      "[]"]
    analyzerComparisonBOP_ordinal[of "mkInfo astBOP literalUndefined ''<'' [] None 3"
      exEnv exCtx "litInt ''1'' 1" exCtx "withDT (litInt ''1'' 1) (typeBasic 3)"
      "typeBasic 3" "litInt ''2'' 5" exCtx "withDT (litInt ''2'' 5) (typeBasic 3)" "typeBasic 3"
      "[]"]
  by (simp add: evalDefs Let_def)

text \<open>
  The claim as it is written fails at \<^verbatim>\<open>p < p\<close> for a pointer \<open>p\<close>: no
  diagnostic, and the node's type is the pointer type, which is not numeric.
\<close>

theorem analyzerComparisonBOP_pointer_counterexample:
  "isOrdinalBOP (opr (info exPtrLess))
   \<and> map_option (stdout \<circ> fst) (analyzerValue exEnv exCtx exPtrLess) = Some []
   \<and> map_option (nodeDT \<circ> fst \<circ> snd) (analyzerValue exEnv exCtx exPtrLess)
       = Some (Some (typePtr (typeBasic 3)))
   \<and> \<not> typeIsNumeric (symtab exEnv) (typePtr (typeBasic 3))"
  by (simp add: evalDefs)

subsection \<open>Claim C4: the form and the count of the diagnostics\<close>

text \<open>
  Claim C4, as amended. Each of the parser's error functions writes one entry
  \<^verbatim>\<open>error(LINE:COL): <message>.\<close> with a period and a newline, and adds one to the
  parser's count; a match writes at most one such entry, and moving to the next token
  writes none. \<^verbatim>\<open>analyzerError\<close> writes one entry \<^verbatim>\<open>error(LINE:COL): <message>\<close>
  with a newline and no period, and adds one to the analyzer's count. The count that
  \<^verbatim>\<open>analyzer\<close> returns is the number of entries it wrote.
\<close>

theorem diagnostics_counted:
  "(errorExpected p e = Some p1 \<or> errorUndefSym p = Some p1 \<or> errorIllegalBreak p = Some p1
      \<or> errorIdentOutsideDecl p = Some p1 \<or> errorDuplicateSym p = Some p1
      \<longrightarrow> (\<exists>msg. parserDiagnoses p p1 [(location p, msg)]))
   \<and> (tokenMatchToken nxt p Match = Some p2 \<or> tokenMatchStr nxt p Text = Some p2
      \<longrightarrow> (\<exists>ds. parserDiagnoses p p2 ds \<and> length ds \<le> 1))
   \<and> parserDiagnoses p (tokenNext nxt p) []
   \<and> endsPeriod (parserLine q msg)
   \<and> (analyzerError c (Some n) msg = Some c' \<longrightarrow> diagnoses c c' [(loc n, msg)])
   \<and> (declStable E \<and> analyzer E Tree Types = Some (res, Tree', out)
      \<longrightarrow> (\<exists>ds. out = map (\<lambda>d. analyzerLine (fst d) (snd d)) ds
                 \<and> resErrors res = int (length ds)))"
proof (intro conjI impI)
  assume "errorExpected p e = Some p1 \<or> errorUndefSym p = Some p1 \<or> errorIllegalBreak p = Some p1
      \<or> errorIdentOutsideDecl p = Some p1 \<or> errorDuplicateSym p = Some p1"
  then show "\<exists>msg. parserDiagnoses p p1 [(location p, msg)]"
    unfolding errorExpected_def errorUndefSym_def errorIllegalBreak_def
      errorIdentOutsideDecl_def errorDuplicateSym_def
    by (blast dest: error_diagnoses)
next
  assume a: "tokenMatchToken nxt p Match = Some p2 \<or> tokenMatchStr nxt p Text = Some p2"
  have none: "parserDiagnoses p (tokenMatch nxt p) []"
    by (simp add: parserDiagnoses_def tokenMatch_def tokenNext_def Let_def)
  have one: "\<exists>ds. parserDiagnoses p (y\<lparr>lexer := nxt (lexer y)\<rparr>) ds \<and> length ds \<le> 1"
    if "errorExpected p x = Some y" for x y
  proof -
    from that obtain m where "parserDiagnoses p y [(location p, m)]"
      unfolding errorExpected_def by (blast dest: error_diagnoses)
    then have "parserDiagnoses p (y\<lparr>lexer := nxt (lexer y)\<rparr>) [(location p, m)]"
      by (simp add: parserDiagnoses_def)
    then show ?thesis by (intro exI[of _ "[(location p, m)]"]) simp
  qed
  from a show "\<exists>ds. parserDiagnoses p p2 ds \<and> length ds \<le> 1"
    using none one
    by (auto simp: tokenMatchToken_def tokenMatchStr_def Option.bind_eq_Some_conv
        split: if_splits intro: exI[of _ "[]"])
next
  show "parserDiagnoses p (tokenNext nxt p) []"
    by (simp add: parserDiagnoses_def tokenNext_def Let_def)
next
  show "endsPeriod (parserLine q msg)"
    by (simp add: endsPeriod_def parserLine_def)
next
  assume "analyzerError c (Some n) msg = Some c'"
  then show "diagnoses c c' [(loc n, msg)]"
    by (auto simp: analyzerError_Some diagnoses_def split: if_splits)
next
  assume a: "declStable E \<and> analyzer E Tree Types = Some (res, Tree', out)"
  obtain i l r cs where T: "Tree = Ast i l r cs" by (cases Tree)
  from a obtain ctx' cs' where
    run: "analyzerNodes E (analyzerInit Types) cs = Some (ctx', cs')"
    and res: "res = \<lparr>resErrors = errors ctx', resWarnings = warnings ctx'\<rparr>"
    and out: "out = stdout ctx'"
    unfolding T by (auto simp: analyzer_def analyzerModule_def Option.bind_eq_Some_conv)
  from a node_stable(2)[of E] run have "emittedS (analyzerInit Types) ctx'"
    by (simp add: stableL_def)
  from emittedS_init[OF this] show "\<exists>ds. out = map (\<lambda>d. analyzerLine (fst d) (snd d)) ds
      \<and> resErrors res = int (length ds)"
    unfolding res out by simp
qed

text \<open>
  The theorem at the token \<open>x\<close> where an integer is expected, at a diagnostic of the
  analyzer, and at \<^verbatim>\<open>int main() { f(1); return 1; }\<close>: one entry and a count of one
  each time.
\<close>

theorem diagnostics_counted_witness:
  "errorExpected exParserCtx ''int''
     = Some (exParserCtx\<lparr>pstdout := [''error(1:1): expected int, found '' @ [CHR 0x27] @ ''x''
                                       @ [CHR 0x27] @ ''.'' @ [CHR 0x0A]],
                         perrors := 1\<rparr>)
   \<and> (\<exists>msg. parserDiagnoses exParserCtx
          (exParserCtx\<lparr>pstdout := [''error(1:1): expected int, found '' @ [CHR 0x27] @ ''x''
                                       @ [CHR 0x27] @ ''.'' @ [CHR 0x0A]],
                         perrors := 1\<rparr>)
          [(location exParserCtx, msg)])
   \<and> tokenMatchToken exNext exParserCtx tokenInt
       = Some (exParserCtx\<lparr>pstdout := [''error(1:1): expected int, found '' @ [CHR 0x27] @ ''x''
                                        @ [CHR 0x27] @ ''.'' @ [CHR 0x0A]],
                          perrors := 1,
                          lexer := exNext (lexer exParserCtx)\<rparr>)
   \<and> (\<exists>ds. parserDiagnoses exParserCtx
          (exParserCtx\<lparr>pstdout := [''error(1:1): expected int, found '' @ [CHR 0x27] @ ''x''
                                       @ [CHR 0x27] @ ''.'' @ [CHR 0x0A]],
                         perrors := 1,
                         lexer := exNext (lexer exParserCtx)\<rparr>) ds \<and> length ds \<le> 1)
   \<and> analyzerError exCtx (Some (info (litInt ''1'' 3))) ''message''
       = Some (exCtx\<lparr>stdout := [''error(1:3): message'' @ [CHR 0x0A]], errors := 1\<rparr>)
   \<and> diagnoses exCtx (exCtx\<lparr>stdout := [''error(1:3): message'' @ [CHR 0x0A]], errors := 1\<rparr>)
         [(loc (info (litInt ''1'' 3)), ''message'')]
   \<and> declStable exEnv
   \<and> analyzer exEnv exModule exTypes
       = Some (\<lparr>resErrors = 1, resWarnings = 0\<rparr>, exModuleTyped,
               [''error(1:2): 2 parameters expected, 1 given to f'' @ [CHR 0x0A]])
   \<and> (\<exists>ds. [''error(1:2): 2 parameters expected, 1 given to f'' @ [CHR 0x0A]]
               = map (\<lambda>d. analyzerLine (fst d) (snd d)) ds
          \<and> resErrors \<lparr>resErrors = 1, resWarnings = 0\<rparr> = int (length ds))"
proof -
  have p1: "errorExpected exParserCtx ''int''
     = Some (exParserCtx\<lparr>pstdout := [''error(1:1): expected int, found '' @ [CHR 0x27] @ ''x''
                                       @ [CHR 0x27] @ ''.'' @ [CHR 0x0A]],
                         perrors := 1\<rparr>)"
    by (simp add: errorExpected_def error_def exDefs errorPrefix_def showInt_def)
  have p2: "tokenMatchToken exNext exParserCtx tokenInt
       = Some (exParserCtx\<lparr>pstdout := [''error(1:1): expected int, found '' @ [CHR 0x27] @ ''x''
                                        @ [CHR 0x27] @ ''.'' @ [CHR 0x0A]],
                          perrors := 1,
                          lexer := exNext (lexer exParserCtx)\<rparr>)"
    by (simp add: tokenMatchToken_def errorExpected_def error_def exDefs errorPrefix_def showInt_def)
  have a: "analyzerError exCtx (Some (info (litInt ''1'' 3))) ''message''
       = Some (exCtx\<lparr>stdout := [''error(1:3): message'' @ [CHR 0x0A]], errors := 1\<rparr>)"
    by (simp add: evalDefs)
  note T = diagnostics_counted[of exParserCtx "''int''"
      "exParserCtx\<lparr>pstdout := [''error(1:1): expected int, found '' @ [CHR 0x27] @ ''x''
                                       @ [CHR 0x27] @ ''.'' @ [CHR 0x0A]],
                         perrors := 1\<rparr>"
      exNext tokenInt
      "exParserCtx\<lparr>pstdout := [''error(1:1): expected int, found '' @ [CHR 0x27] @ ''x''
                                        @ [CHR 0x27] @ ''.'' @ [CHR 0x0A]],
                          perrors := 1,
                          lexer := exNext (lexer exParserCtx)\<rparr>"
      "'';''" "location exParserCtx" "''message''" exCtx "info (litInt ''1'' 3)"
      "exCtx\<lparr>stdout := [''error(1:3): message'' @ [CHR 0x0A]], errors := 1\<rparr>"
      exEnv exModule exTypes "\<lparr>resErrors = 1, resWarnings = 0\<rparr>" exModuleTyped
      "[''error(1:2): 2 parameters expected, 1 given to f'' @ [CHR 0x0A]]"]
  from T p1 p2 a exEnv_declStable exModule_run show ?thesis by blast
qed

text \<open>
  The claim as it is written fails at the diagnostic of
  \<^verbatim>\<open>int main() { f(1); return 1; }\<close>: the one line the analyzer writes ends with the
  name \<open>f\<close> and a newline, not with a period.
\<close>

theorem analyzer_diagnostic_no_period_counterexample:
  "map_option (snd \<circ> snd) (analyzer exEnv exModule exTypes)
     = Some [''error(1:2): 2 parameters expected, 1 given to f'' @ [CHR 0x0A]]
   \<and> map_option (map endsPeriod \<circ> snd \<circ> snd) (analyzer exEnv exModule exTypes) = Some [False]
   \<and> endsPeriod (parserLine \<lparr>line = 1, lineChar = 2\<rparr> ''2 parameters expected, 1 given to f'')"
  by (simp add: exModule_run endsPeriod_def parserLine_def)

subsection \<open>Claim C5: running the analyzer again\<close>

text \<open>
  Claim C5. When the analyzer has run on a tree, running it again on the tree it left
  gives the same tree, so every node keeps its type, and writes the same diagnostics
  with the same count, so the two runs together count twice the errors of one. The two
  functions of \<^verbatim>\<open>analyzer-decl.c\<close> are assumed to be stable in the same way.
\<close>

theorem analyzer_twice:
  assumes "declStable E"
    and "analyzer E Tree Types = Some (res, Tree', out)"
  shows "analyzer E Tree' Types = Some (res, Tree', out)"
proof -
  obtain i l r cs where T: "Tree = Ast i l r cs" by (cases Tree)
  from assms(2) obtain ctx' cs' where
    run: "analyzerNodes E (analyzerInit Types) cs = Some (ctx', cs')"
    and T': "Tree' = Ast i l r cs'"
    and res: "res = \<lparr>resErrors = errors ctx', resWarnings = warnings ctx'\<rparr>"
    and out: "out = stdout ctx'"
    unfolding T by (auto simp: analyzer_def analyzerModule_def Option.bind_eq_Some_conv)
  from node_stable(2)[OF assms(1)] run
  have "analyzerNodes E (analyzerInit Types) cs' = Some (ctx', cs')"
    by (simp add: stableL_def)
  then show ?thesis
    unfolding T' res out by (simp add: analyzer_def analyzerModule_def)
qed

text \<open>
The theorem at \<^verbatim>\<open>int main() { f(1); return 1; }\<close>: one error in each run.
\<close>

theorem analyzer_twice_witness:
  "declStable exEnv
   \<and> analyzer exEnv exModule exTypes
       = Some (\<lparr>resErrors = 1, resWarnings = 0\<rparr>, exModuleTyped,
               [''error(1:2): 2 parameters expected, 1 given to f'' @ [CHR 0x0A]])
   \<and> analyzer exEnv exModuleTyped exTypes
       = Some (\<lparr>resErrors = 1, resWarnings = 0\<rparr>, exModuleTyped,
               [''error(1:2): 2 parameters expected, 1 given to f'' @ [CHR 0x0A]])"
  using analyzer_twice[OF exEnv_declStable exModule_run] exEnv_declStable exModule_run
  by simp

subsection \<open>Claim C6: member access\<close>

text \<open>
  Claim C6. What \<^verbatim>\<open>analyzerMemberBOP\<close> returns once the left operand is analysed with
  type \<open>L\<close>. When \<open>L\<close> is not \<open>Invalid\<close> nor a pointer to \<open>Invalid\<close>: a diagnostic
  at the left operand is written exactly when \<open>L\<close> is not a pointer to a record, for
  \<^verbatim>\<open>->\<close>, or not a record, for \<^verbatim>\<open>.\<close>; when \<open>L\<close> is a basic type or a pointer to
  one, the node's symbol becomes the child of that type's symbol named by the right
  operand, and otherwise it stays as it was; when the node then has no symbol, the
  missing-member diagnostic is written at the right operand and the node is typed
  \<open>Invalid\<close>; otherwise the node's type is the type of the field. When \<open>L\<close> is
  \<open>Invalid\<close> or a pointer to \<open>Invalid\<close> the analysis does not return: \<open>Invalid\<close>
  passes \<^verbatim>\<open>typeIsBasic\<close>, and the symbol it is based on, which it does not have, is
  read and handed to \<^verbatim>\<open>symChild\<close>.
\<close>

theorem analyzerMemberBOP_result:
  assumes "analyzerValue E ctx a = Some (c1, a1, L)"
  shows "(L = typeInvalid \<or> L = typePtr typeInvalid \<longrightarrow>
            analyzerMemberBOP E ctx (Ast i (Some a) (Some b) cs) = None)
     \<and> (L \<noteq> typeInvalid \<and> L \<noteq> typePtr typeInvalid \<longrightarrow>
          analyzerMemberBOP E ctx (Ast i (Some a) (Some b) cs) =
          (let ok = (if isDerefBOP (opr i)
                     then (case L of typePtr t \<Rightarrow> typeIsRecord (symtab E) t | _ \<Rightarrow> False)
                     else typeIsRecord (symtab E) L);
               c2 = (if ok then c1
                     else c1\<lparr>stdout := stdout c1 @
                                [analyzerLine (loc (info a1))
                                   (opr i @ '' requires ''
                                    @ (if isDerefBOP (opr i)
                                       then (if typeIsPtr L then ''structure pointer''
                                             else ''pointer'')
                                       else ''structure type'')
                                    @ '', found '' @ typeToStr E L)],
                              errors := errors c1 + 1\<rparr>);
               sy = (case L of
                       typeBasic s \<Rightarrow> symChild (symtab E) s (literal (info b))
                     | typePtr (typeBasic s) \<Rightarrow> symChild (symtab E) s (literal (info b))
                     | _ \<Rightarrow> symbol i)
           in if \<not> ok \<and> errors c1 = 2147483647 then None
              else
                (case sy of
                   Some f \<Rightarrow>
                     (case dt (symtab E f) of
                        None \<Rightarrow> None
                      | Some fdt \<Rightarrow>
                          Some (c2, Ast (i\<lparr>ndt := Some fdt, symbol := Some f\<rparr>) (Some a1) (Some b) cs,
                                fdt))
                 | None \<Rightarrow>
                     if errors c2 = 2147483647 then None
                     else Some (c2\<lparr>stdout := stdout c2 @
                                       [analyzerLine (loc (info b))
                                          (opr i @ '' expected field of '' @ typeToStr E L
                                           @ '', found '' @ literal (info b))],
                                     errors := errors c2 + 1\<rparr>,
                                Ast (i\<lparr>ndt := Some typeInvalid, symbol := None\<rparr>) (Some a1) (Some b) cs,
                                typeInvalid))))"
proof (intro conjI impI)
  assume "L = typeInvalid \<or> L = typePtr typeInvalid"
  then show "analyzerMemberBOP E ctx (Ast i (Some a) (Some b) cs) = None"
    using assms
    by (auto simp: analyzerMemberBOPCheck_def memberSymbol_def analyzerErrorOp_def
        analyzerError_Some)
next
  assume nz: "L \<noteq> typeInvalid \<and> L \<noteq> typePtr typeInvalid"
  show "analyzerMemberBOP E ctx (Ast i (Some a) (Some b) cs) =
          (let ok = (if isDerefBOP (opr i)
                     then (case L of typePtr t \<Rightarrow> typeIsRecord (symtab E) t | _ \<Rightarrow> False)
                     else typeIsRecord (symtab E) L);
               c2 = (if ok then c1
                     else c1\<lparr>stdout := stdout c1 @
                                [analyzerLine (loc (info a1))
                                   (opr i @ '' requires ''
                                    @ (if isDerefBOP (opr i)
                                       then (if typeIsPtr L then ''structure pointer''
                                             else ''pointer'')
                                       else ''structure type'')
                                    @ '', found '' @ typeToStr E L)],
                              errors := errors c1 + 1\<rparr>);
               sy = (case L of
                       typeBasic s \<Rightarrow> symChild (symtab E) s (literal (info b))
                     | typePtr (typeBasic s) \<Rightarrow> symChild (symtab E) s (literal (info b))
                     | _ \<Rightarrow> symbol i)
           in if \<not> ok \<and> errors c1 = 2147483647 then None
              else
                (case sy of
                   Some f \<Rightarrow>
                     (case dt (symtab E f) of
                        None \<Rightarrow> None
                      | Some fdt \<Rightarrow>
                          Some (c2, Ast (i\<lparr>ndt := Some fdt, symbol := Some f\<rparr>) (Some a1) (Some b) cs,
                                fdt))
                 | None \<Rightarrow>
                     if errors c2 = 2147483647 then None
                     else Some (c2\<lparr>stdout := stdout c2 @
                                       [analyzerLine (loc (info b))
                                          (opr i @ '' expected field of '' @ typeToStr E L
                                           @ '', found '' @ literal (info b))],
                                     errors := errors c2 + 1\<rparr>,
                                Ast (i\<lparr>ndt := Some typeInvalid, symbol := None\<rparr>) (Some a1) (Some b) cs,
                                typeInvalid)))"
  proof (cases L)
    case (typeBasic s)
    then show ?thesis
      using assms
      by (auto simp: analyzerMemberBOPCheck_def memberSymbol_def analyzerErrorOp_def
          analyzerErrorMember_def analyzerError_Some setDT_def typeDeepDuplicate_def
          typeCreateInvalid_def Let_def split: option.splits)
  next
    case (typePtr t)
    with nz show ?thesis
      using assms
      by (cases t)
        (auto simp: analyzerMemberBOPCheck_def memberSymbol_def analyzerErrorOp_def
          analyzerErrorMember_def analyzerError_Some setDT_def typeDeepDuplicate_def
          typeCreateInvalid_def Let_def split: option.splits)
  next
    case (typeArray t n)
    then show ?thesis
      using assms
      by (auto simp: analyzerMemberBOPCheck_def memberSymbol_def analyzerErrorOp_def
          analyzerErrorMember_def analyzerError_Some setDT_def typeDeepDuplicate_def
          typeCreateInvalid_def Let_def split: option.splits)
  next
    case (typeFunction t n)
    then show ?thesis
      using assms
      by (auto simp: analyzerMemberBOPCheck_def memberSymbol_def analyzerErrorOp_def
          analyzerErrorMember_def analyzerError_Some setDT_def typeDeepDuplicate_def
          typeCreateInvalid_def Let_def split: option.splits)
  next
    case typeInvalid
    with nz show ?thesis by simp
  qed
qed

text \<open>
  The theorem at \<^verbatim>\<open>s.b\<close>, where the structure has no field \<open>b\<close>; at \<^verbatim>\<open>ps->a\<close>,
  where the field is found through the pointer; and at \<^verbatim>\<open>y.a\<close>, where \<open>y\<close> is not
  declared and is typed \<open>Invalid\<close>.
\<close>

theorem analyzerMemberBOP_result_witness:
  "analyzerValue exEnv exCtx (litIdent ''s'' 22 1)
     = Some (exCtx, withDT (litIdent ''s'' 22 1) (typeBasic 20), typeBasic 20)
   \<and> analyzerMemberBOP exEnv exCtx exNoMember
       = Some (exCtx\<lparr>stdout := [''error(1:3): . expected field of T, found b'' @ [CHR 0x0A]],
                       errors := 1\<rparr>,
               Ast ((mkInfo astBOP literalUndefined ''.'' [] None 2)\<lparr>ndt := Some typeInvalid\<rparr>)
                 (Some (withDT (litIdent ''s'' 22 1) (typeBasic 20)))
                 (Some (litIdent ''b'' 21 3)) [],
               typeInvalid)
   \<and> analyzerValue exEnv exCtx (litIdent ''ps'' 25 1)
       = Some (exCtx, withDT (litIdent ''ps'' 25 1) (typePtr (typeBasic 20)), typePtr (typeBasic 20))
   \<and> analyzerMemberBOP exEnv exCtx exDeref
       = Some (exCtx,
               Ast ((mkInfo astBOP literalUndefined ''->'' [] None 3)
                      \<lparr>ndt := Some (typeBasic 3), symbol := Some 21\<rparr>)
                 (Some (withDT (litIdent ''ps'' 25 1) (typePtr (typeBasic 20))))
                 (Some (litIdent ''a'' 21 5)) [],
               typeBasic 3)
   \<and> analyzerValue exEnv exCtx exUndeclared
       = Some (exCtx, withDT exUndeclared typeInvalid, typeInvalid)
   \<and> analyzerMemberBOP exEnv exCtx exInvalidMember = None"
  using analyzerMemberBOP_result[of exEnv exCtx "litIdent ''s'' 22 1" exCtx
      "withDT (litIdent ''s'' 22 1) (typeBasic 20)" "typeBasic 20"
      "mkInfo astBOP literalUndefined ''.'' [] None 2" "litIdent ''b'' 21 3" "[]"]
    analyzerMemberBOP_result[of exEnv exCtx "litIdent ''ps'' 25 1" exCtx
      "withDT (litIdent ''ps'' 25 1) (typePtr (typeBasic 20))" "typePtr (typeBasic 20)"
      "mkInfo astBOP literalUndefined ''->'' [] None 3" "litIdent ''a'' 21 5" "[]"]
    analyzerMemberBOP_result[of exEnv exCtx exUndeclared exCtx
      "withDT exUndeclared typeInvalid" typeInvalid
      "mkInfo astBOP literalUndefined ''.'' [] None 2" "litIdent ''a'' 21 3" "[]"]
  by (simp add: evalDefs Let_def)

subsection \<open>Claim C7: the type of a returned expression\<close>



subsection \<open>Claim C8: the comma operator\<close>

text \<open>
  Claim C8. For a comma operator, after the right operand is analysed with type \<open>R\<close>:
  when \<open>R\<close> is \<open>Invalid\<close> or is not void, nothing is written and the node's type is
  \<open>R\<close>; otherwise one diagnostic \<^verbatim>\<open>requires non-void\<close> is written at the right
  operand and the node's type is \<open>Invalid\<close>.
\<close>

theorem analyzerCommaBOP_checks:
  assumes "analyzerValue E ctx b = Some (c1, b1, R)"
  shows "analyzerCommaBOP E ctx (Ast i l (Some b) cs) =
     (if typeIsInvalid R \<or> \<not> typeIsVoid (symtab E) R then
        Some (c1, Ast (i\<lparr>ndt := Some R\<rparr>) l (Some b1) cs, R)
      else if errors c1 = 2147483647 then None
      else Some (c1\<lparr>stdout := stdout c1 @
                        [analyzerLine (loc (info b1))
                           (opr i @ '' requires non-void, found '' @ typeToStr E R)],
                      errors := errors c1 + 1\<rparr>,
                 Ast (i\<lparr>ndt := Some typeInvalid\<rparr>) l (Some b1) cs, typeInvalid))"
  using assms
  by (auto simp: analyzerCommaBOPCheck_def analyzerErrorOp_def analyzerError_Some setDT_def
      typeDeepDuplicate_def typeCreateInvalid_def)

text \<open>
The theorem at \<^verbatim>\<open>1, g()\<close> with \<open>g\<close> returning \<open>void\<close>.
\<close>

theorem analyzerCommaBOP_checks_witness:
  "analyzerValue exEnv exCtx (mkCall 30 (litIdent ''g'' 30 4) [] 5)
     = Some (exCtx,
             Ast ((mkInfo astCall literalUndefined [] [] (Some 30) 5)\<lparr>ndt := Some (typeBasic 0)\<rparr>)
               (Some (withDT (litIdent ''g'' 30 4) (typeFunction (typeBasic 0) 0))) None [],
             typeBasic 0)
   \<and> map_option (stdout \<circ> fst) (analyzerCommaBOP exEnv exCtx exCommaVoid)
       = Some [''error(1:5): , requires non-void, found T'' @ [CHR 0x0A]]
   \<and> map_option (nodeDT \<circ> fst \<circ> snd) (analyzerCommaBOP exEnv exCtx exCommaVoid)
       = Some (Some typeInvalid)"
  using analyzerCommaBOP_checks[of exEnv exCtx "mkCall 30 (litIdent ''g'' 30 4) [] 5" exCtx
      "Ast ((mkInfo astCall literalUndefined [] [] (Some 30) 5)\<lparr>ndt := Some (typeBasic 0)\<rparr>)
         (Some (withDT (litIdent ''g'' 30 4) (typeFunction (typeBasic 0) 0))) None []"
      "typeBasic 0" "mkInfo astBOP literalUndefined '','' [] None 2" "Some (litInt ''1'' 1)" "[]"]
  by (simp add: evalDefs)

subsection \<open>Claim C9: a failed match\<close>

text \<open>
  Claim C9. When the current token is not the one to match, by class or by text, the
  match returns a context: one \<^verbatim>\<open>expected ..., found ...\<close> diagnostic is written, the
  count goes up by one, and the lexer is advanced exactly once. (The count must not be at
  the largest \<^verbatim>\<open>int\<close>, where incrementing it is undefined.)
\<close>

theorem failed_match_resync:
  assumes "perrors ctx \<noteq> 2147483647"
  shows "(token (lexer ctx) \<noteq> Match \<longrightarrow>
            tokenMatchToken nxt ctx Match =
              Some (ctx\<lparr>pstdout := pstdout ctx @
                            [parserLine (location ctx)
                               (''expected '' @ tokenClassGetStr Match @ '', found ''
                                @ [CHR 0x27] @ buffer (lexer ctx) @ [CHR 0x27])],
                         perrors := perrors ctx + 1,
                         pstdin := drop 1 (pstdin ctx),
                         lexer := nxt (lexer ctx)\<rparr>))
       \<and> (buffer (lexer ctx) \<noteq> Text \<longrightarrow>
            tokenMatchStr nxt ctx Text =
              Some (ctx\<lparr>pstdout := pstdout ctx @
                            [parserLine (location ctx)
                               (''expected '' @ [CHR 0x27] @ Text @ [CHR 0x27] @ '', found ''
                                @ [CHR 0x27] @ buffer (lexer ctx) @ [CHR 0x27])],
                         perrors := perrors ctx + 1,
                         pstdin := drop 1 (pstdin ctx),
                         lexer := nxt (lexer ctx)\<rparr>))"
  using assms
  by (simp add: tokenMatchToken_def tokenMatchStr_def tokenIs_def errorExpected_def error_def
      parserLine_def)

text \<open>
The theorem at the token \<open>x\<close>, matched against an integer and against \<^verbatim>\<open>;\<close>.
\<close>

theorem failed_match_resync_witness:
  "perrors exParserCtx \<noteq> 2147483647
   \<and> token (lexer exParserCtx) \<noteq> tokenInt
   \<and> tokenMatchToken exNext exParserCtx tokenInt =
       Some (exParserCtx\<lparr>pstdout := [''error(1:1): expected int, found '' @ [CHR 0x27] @ ''x''
                                        @ [CHR 0x27] @ ''.'' @ [CHR 0x0A]],
                          perrors := 1,
                          lexer := exNext (lexer exParserCtx)\<rparr>)
   \<and> buffer (lexer exParserCtx) \<noteq> '';''
   \<and> tokenMatchStr exNext exParserCtx '';'' =
       Some (exParserCtx\<lparr>pstdout := [''error(1:1): expected '' @ [CHR 0x27] @ '';'' @ [CHR 0x27]
                                        @ '', found '' @ [CHR 0x27] @ ''x'' @ [CHR 0x27] @ ''.''
                                        @ [CHR 0x0A]],
                          perrors := 1,
                          lexer := exNext (lexer exParserCtx)\<rparr>)"
  using failed_match_resync[of exParserCtx tokenInt exNext "'';''"]
  by (simp add: exDefs parserLine_def errorPrefix_def showInt_def)

subsection \<open>Claim C10: a return without an expression\<close>

text \<open>
  Claim C10. A \<^verbatim>\<open>return\<close> with no expression, inside a function (the context holds a
  return type), is analysed without any diagnostic and without a crash, whatever the
  return type is: the context and the node come back unchanged. The absent expression
  is typed \<open>Invalid\<close>, which is compatible with every type, so the branch that would
  hand the null expression to the diagnostic printer is never taken.
\<close>

theorem analyzerReturn_no_expression:
  "returnType ctx = Some rt \<Longrightarrow> analyzerReturn E ctx (Ast i l None cs) = Some (ctx, Ast i l None cs)"
  by (simp add: analyzerReturn_def typeCreateInvalid_def)

theorem analyzerReturn_no_expression_witness:
  "returnType exIntCtx = Some (typeBasic 3)
   \<and> analyzerReturn exEnv exIntCtx (mkReturn None) = Some (exIntCtx, mkReturn None)"
  using analyzerReturn_no_expression[of exIntCtx "typeBasic 3" exEnv
      "mkInfo astReturn literalUndefined [] [] None 1" None "[]"]
  by (simp add: exDefs)

end
